theory Spec2Isabelle
  imports Main "HOL-Library.AList"
begin

text \<open>
  A model of the HeadHunt SEO scraper (\<open>headhunt.js\<close>): the class \<open>SEOScraper\<close> with
  its nine extractors and the method \<open>analyze\<close> that runs them, over a parsed document.
  The page fetch, the HTML parser, \<open>JSON.parse\<close> and the \<open>URL\<close> constructor belong to
  the platform; the last two are parameters of the model.
\<close>

section \<open>JavaScript strings\<close>

text \<open>
  A string of the parsed document (an attribute value, a text, a tag name) is modelled by
  the list of its UTF-16 code units, for text whose code units are all below 256 (one
  \<open>char\<close> per code unit). On such text \<open>String.prototype.length\<close> is \<open>length\<close>, and
  the operations below follow ECMAScript on every input. A value that may be
  \<open>undefined\<close> or \<open>null\<close> is an \<open>option\<close>.

  The markup \<open>this.html\<close> is modelled by its UTF-8 encoding (as \<open>Buffer\<close> encodes a
  string), one \<open>char\<close> per byte, so that every markup has a model, whatever its code points. The scraper does two things
  with the markup: it takes its byte length, and it matches a pattern of ASCII characters
  against it and searches the match for ASCII strings. An ASCII character is one byte of
  the encoding and occurs in no other character's bytes, so these searches find the same
  places in the encoding as in the string.
\<close>

text \<open>\<open>s.startsWith(p)\<close>\<close>

definition js_startsWith :: "string \<Rightarrow> string \<Rightarrow> bool" where
  "js_startsWith s p = (take (length p) s = p)"

text \<open>\<open>s.includes(p)\<close>: \<open>p\<close> starts at some index of \<open>s\<close>.\<close>

fun js_includes :: "string \<Rightarrow> string \<Rightarrow> bool" where
  "js_includes [] p = (p = [])"
| "js_includes (c # cs) p = (js_startsWith (c # cs) p \<or> js_includes cs p)"

text \<open>
  \<open>s.toLowerCase()\<close>: below 256 the letters with a lower-case form are \<open>A\<close>..\<open>Z\<close> and
  the code units 192..222 other than 215 (the multiplication sign); each moves up by 32.
\<close>

definition toLowerCase_unit :: "char \<Rightarrow> char" where
  "toLowerCase_unit c =
     (let n = (of_char c :: nat)
      in if (65 \<le> n \<and> n \<le> 90) \<or> (192 \<le> n \<and> n \<le> 222 \<and> n \<noteq> 215)
         then char_of (n + 32) else c)"

definition js_toLowerCase :: "string \<Rightarrow> string" where
  "js_toLowerCase s = map toLowerCase_unit s"

text \<open>
  \<open>s.trim()\<close>: the white space and line terminators below 256 are TAB, LF, VT, FF, CR,
  SPACE and NBSP (160).
\<close>

definition js_isSpace :: "char \<Rightarrow> bool" where
  "js_isSpace c = ((of_char c :: nat) \<in> {9, 10, 11, 12, 13, 32, 160})"

definition js_trim :: "string \<Rightarrow> string" where
  "js_trim s = rev (dropWhile js_isSpace (rev (dropWhile js_isSpace s)))"

text \<open>\<open>s.replace(p, '')\<close> with a string pattern: the first occurrence of \<open>p\<close> is removed.\<close>

fun js_replace_first :: "string \<Rightarrow> string \<Rightarrow> string" where
  "js_replace_first [] p = []"
| "js_replace_first (c # cs) p =
     (if js_startsWith (c # cs) p then drop (length p) (c # cs)
      else c # js_replace_first cs p)"

text \<open>\<open>s.split(sep)\<close> for a separator of one code unit; the result is never empty.\<close>

fun js_split :: "string \<Rightarrow> char \<Rightarrow> string list" where
  "js_split [] sep = [[]]"
| "js_split (c # cs) sep =
     (if c = sep then [] # js_split cs sep
      else (case js_split cs sep of
              [] \<Rightarrow> [[c]]
            | p # ps \<Rightarrow> (c # p) # ps))"

text \<open>\<open>x || null\<close> on a string that may be undefined: the empty string is falsy.\<close>

definition or_null :: "string option \<Rightarrow> string option" where
  "or_null v = (case v of None \<Rightarrow> None | Some s \<Rightarrow> if s = [] then None else Some s)"

text \<open>\<open>x || ''\<close> on a string that may be undefined.\<close>

definition or_empty :: "string option \<Rightarrow> string" where
  "or_empty v = (case v of None \<Rightarrow> [] | Some s \<Rightarrow> s)"

text \<open>Truthiness of a string that may be undefined.\<close>

definition truthy :: "string option \<Rightarrow> bool" where
  "truthy v = (case v of None \<Rightarrow> False | Some s \<Rightarrow> s \<noteq> [])"

text \<open>
  \<open>Buffer.byteLength(s, 'utf8')\<close> of the markup: the number of bytes of its UTF-8
  encoding, which is what models it.
\<close>

definition byteLength_utf8 :: "string \<Rightarrow> nat" where
  "byteLength_utf8 s = length s"

text \<open>
  \<open>s.match(/<!DOCTYPE[^>]*>/i)?.[0]\<close>: the leftmost place where \<open><!DOCTYPE\<close> stands, in
  either case of its letters, and is followed by a closing angle bracket later on; the
  match runs to the first such bracket. Without the \<open>u\<close> flag only the ASCII letters \<open>a\<close>..\<open>z\<close>
  match their capitals, so no byte of a character beyond ASCII matches a letter of the
  pattern.
\<close>

definition ascii_upper :: "char \<Rightarrow> char" where
  "ascii_upper c =
     (let n = (of_char c :: nat) in if 97 \<le> n \<and> n \<le> 122 then char_of (n - 32) else c)"

fun match_doctype :: "string \<Rightarrow> string option" where
  "match_doctype [] = None"
| "match_doctype (c # cs) =
     (let s = c # cs; body = takeWhile (\<lambda>x. x \<noteq> CHR ''>'') (drop 9 s)
      in if map ascii_upper (take 9 s) = ''<!DOCTYPE'' \<and> length body < length (drop 9 s)
         then Some (take 9 s @ body @ ''>'')
         else match_doctype cs)"

section \<open>The parsed document\<close>

text \<open>
  The tree that \<open>cheerio.load\<close> returns: elements with a tag name, attributes and
  children, and text nodes. Tag and attribute names are as the parser leaves them
  (lower case); a repeated attribute keeps its first value.
\<close>

datatype node = Element string "(string \<times> string) list" "node list" | Text string

fun tag_name :: "node \<Rightarrow> string option" where
  "tag_name (Element t as cs) = Some t"
| "tag_name (Text x) = None"

text \<open>
  \<open>$(elem).attr(name)\<close>: the attribute's value, or undefined. (For the names of
  boolean attributes and for \<open>value\<close> the library answers otherwise; the scraper reads
  neither.)
\<close>

fun cheerio_attr :: "node \<Rightarrow> string \<Rightarrow> string option" where
  "cheerio_attr (Element t as cs) a = map_of as a"
| "cheerio_attr (Text x) a = None"

text \<open>\<open>$(elem).text()\<close>: the text of the element's descendants, in document order.\<close>

fun cheerio_text :: "node \<Rightarrow> string" where
  "cheerio_text (Text x) = x"
| "cheerio_text (Element t as cs) = concat (map cheerio_text cs)"

text \<open>The elements of a subtree in document order, the root first.\<close>

fun elements :: "node \<Rightarrow> node list" where
  "elements (Text x) = []"
| "elements (Element t as cs) = Element t as cs # concat (map elements cs)"

fun children :: "node \<Rightarrow> node list" where
  "children (Element t as cs) = cs"
| "children (Text x) = []"

text \<open>
  The selectors the scraper uses: a comma-separated list of compound selectors, each a
  conjunction of a tag name and attribute tests. The selector engine is the library's
  (css-select, on an HTML document). It compares the values of the attributes that HTML
  declares case-insensitive without regard to the case of letters: the two values have
  the same length and the same lower-case form. The values of all other attributes,
  \<open>name\<close> and \<open>property\<close> among them, are compared exactly. A prefix test with an empty
  prefix matches nothing.
\<close>

definition case_insensitive_attributes :: "string list" where
  "case_insensitive_attributes =
     [''accept'', ''accept-charset'', ''align'', ''alink'', ''axis'', ''bgcolor'', ''charset'',
      ''checked'', ''clear'', ''codetype'', ''color'', ''compact'', ''declare'', ''defer'',
      ''dir'', ''direction'', ''disabled'', ''enctype'', ''face'', ''frame'', ''hreflang'',
      ''http-equiv'', ''lang'', ''language'', ''link'', ''media'', ''method'', ''multiple'',
      ''nohref'', ''noresize'', ''noshade'', ''nowrap'', ''readonly'', ''rel'', ''rev'',
      ''rules'', ''scope'', ''scrolling'', ''selected'', ''shape'', ''target'', ''text'',
      ''type'', ''valign'', ''valuetype'', ''vlink'']"

definition attr_equals :: "string \<Rightarrow> string \<Rightarrow> string \<Rightarrow> bool" where
  "attr_equals a x v =
     (if a \<in> set case_insensitive_attributes
      then length x = length v \<and> js_toLowerCase x = js_toLowerCase v
      else x = v)"

definition attr_starts :: "string \<Rightarrow> string \<Rightarrow> string \<Rightarrow> bool" where
  "attr_starts a x p =
     (if p = [] then False
      else if a \<in> set case_insensitive_attributes
      then length p \<le> length x \<and> js_toLowerCase (take (length p) x) = js_toLowerCase p
      else js_startsWith x p)"

datatype simple_selector =
    Tag string
  | HasAttr string
  | NotHasAttr string
  | AttrEq string string
  | AttrPrefix string string

fun holds :: "simple_selector \<Rightarrow> node \<Rightarrow> bool" where
  "holds (Tag t) e = (tag_name e = Some t)"
| "holds (HasAttr a) e = (cheerio_attr e a \<noteq> None)"
| "holds (NotHasAttr a) e = (cheerio_attr e a = None)"
| "holds (AttrEq a v) e =
     (case cheerio_attr e a of None \<Rightarrow> False | Some x \<Rightarrow> attr_equals a x v)"
| "holds (AttrPrefix a p) e =
     (case cheerio_attr e a of None \<Rightarrow> False | Some x \<Rightarrow> attr_starts a x p)"

type_synonym selector = "simple_selector list list"

definition matches :: "selector \<Rightarrow> node \<Rightarrow> bool" where
  "matches sel e = list_ex (\<lambda>compound. list_all (\<lambda>s. holds s e) compound) sel"

text \<open>\<open>$(selector)\<close> on a loaded document: the matching elements in document order.\<close>

definition query :: "node list \<Rightarrow> selector \<Rightarrow> node list" where
  "query doc sel = filter (matches sel) (concat (map elements doc))"

text \<open>\<open>$(elem).find(selector)\<close>: the matching descendants of the element.\<close>

definition cheerio_find :: "node \<Rightarrow> selector \<Rightarrow> node list" where
  "cheerio_find e sel = filter (matches sel) (concat (map elements (children e)))"

text \<open>\<open>$(selector).attr(name)\<close>: the attribute of the first matching element.\<close>

definition first_attr :: "node list \<Rightarrow> string \<Rightarrow> string option" where
  "first_attr es a = (case es of [] \<Rightarrow> None | e # _ \<Rightarrow> cheerio_attr e a)"

section \<open>The report\<close>

text \<open>The exceptions of the extractors are type errors; the message is given in short.\<close>

datatype error = TypeError string

text \<open>The category names of \<open>SEO_CATEGORIES\<close>.\<close>

definition BASIC :: string where "BASIC = ''basic''"
definition OPEN_GRAPH :: string where "OPEN_GRAPH = ''open_graph''"
definition TWITTER :: string where "TWITTER = ''twitter''"
definition SCHEMA :: string where "SCHEMA = ''schema''"
definition TECHNICAL :: string where "TECHNICAL = ''technical''"
definition LINKS :: string where "LINKS = ''links''"
definition HEADINGS :: string where "HEADINGS = ''headings''"
definition IMAGES :: string where "IMAGES = ''images''"
definition PERFORMANCE :: string where "PERFORMANCE = ''performance''"

definition SEO_CATEGORIES :: "string list" where
  "SEO_CATEGORIES =
     [BASIC, OPEN_GRAPH, TWITTER, SCHEMA, TECHNICAL, LINKS, HEADINGS, IMAGES, PERFORMANCE]"


subsection \<open>Object literals and the built-in objects\<close>

text \<open>
  An object literal \<open>{}\<close> is an association list of its own properties, kept in the
  order of their first assignment (nothing below depends on the order). A property it
  does not own is looked up in \<open>Object.prototype\<close>. The members of \<open>Object.prototype\<close>
  are functions, and \<open>__proto__\<close> is an accessor that yields the prototype itself:
  truthy values that are neither strings nor arrays.

  \<open>Object.prototype\<close> and its members are shared by all objects of the process, and
  the scraper can assign string properties on them (through an Open Graph tag whose
  parent names one of them). The state of the built-in objects is the list of these
  assignments: the value assigned last under a member and a property name, with the
  member \<open>__proto__\<close> standing for \<open>Object.prototype\<close> itself. It is empty when the
  process starts. The libraries are taken to work as they are documented in every
  state; only the scraper's own lookups depend on it.
\<close>

definition Object_prototype_names :: "string list" where
  "Object_prototype_names =
     [''constructor'', ''__defineGetter__'', ''__defineSetter__'', ''hasOwnProperty'',
      ''__lookupGetter__'', ''__lookupSetter__'', ''isPrototypeOf'',
      ''propertyIsEnumerable'', ''toString'', ''valueOf'', ''__proto__'',
      ''toLocaleString'']"

type_synonym builtins = "((string \<times> string) \<times> string) list"

definition pristine :: builtins where
  "pristine = []"

text \<open>
  The value of \<open>obj[key]\<close>: an own property; or a string that was assigned on
  \<open>Object.prototype\<close> under the key; or a built-in member of the prototype (under
  \<open>__proto__\<close> the prototype itself); or \<open>undefined\<close>. No assignment of the scraper
  creates an own property \<open>__proto__\<close>.
\<close>

datatype 'v property = Own 'v | InheritedString string | Inherited | Undefined

definition js_get :: "builtins \<Rightarrow> (string \<times> 'v) list \<Rightarrow> string \<Rightarrow> 'v property" where
  "js_get g obj key =
     (if key = ''__proto__'' then Inherited
      else case map_of obj key of
             Some v \<Rightarrow> Own v
           | None \<Rightarrow>
               (case map_of g (''__proto__'', key) of
                  Some x \<Rightarrow> InheritedString x
                | None \<Rightarrow> if key \<in> set Object_prototype_names then Inherited else Undefined))"

text \<open>Truthiness of \<open>obj[key]\<close>, given the truthiness of the object's own values.\<close>

definition property_truthy :: "('v \<Rightarrow> bool) \<Rightarrow> 'v property \<Rightarrow> bool" where
  "property_truthy own v =
     (case v of
        Own x \<Rightarrow> own x
      | InheritedString x \<Rightarrow> x \<noteq> []
      | Inherited \<Rightarrow> True
      | Undefined \<Rightarrow> False)"

text \<open>
  \<open>obj[key] = v\<close> on an object literal: an own property is created or overwritten,
  except under \<open>__proto__\<close>, whose setter ignores a value that is not an object (the
  values that the scraper assigns under a key of the page's choosing are strings).
\<close>

definition js_set :: "(string \<times> 'v) list \<Rightarrow> string \<Rightarrow> 'v \<Rightarrow> (string \<times> 'v) list" where
  "js_set obj key v = (if key = ''__proto__'' then obj else AList.update key v obj)"

text \<open>
  The properties of a built-in member that an assignment in strict-mode code cannot
  write: \<open>length\<close> and \<open>name\<close> of a function are read-only, \<open>caller\<close> and
  \<open>arguments\<close> have a setter that throws, and \<open>prototype\<close> of the function
  \<open>Object\<close>, which is the member \<open>constructor\<close>, is read-only too.
  \<open>Object.prototype\<close> itself takes every property.
\<close>

definition read_only :: "string \<Rightarrow> string \<Rightarrow> bool" where
  "read_only member child \<longleftrightarrow>
     member \<noteq> ''__proto__''
     \<and> (child \<in> set [''length'', ''name'', ''caller'', ''arguments'']
        \<or> (member = ''constructor'' \<and> child = ''prototype''))"

subsection \<open>Section payloads\<close>

record basic =
  title :: "string option"
  metaDescription :: "string option"
  canonical :: "string option"
  robots :: "string option"
  viewport :: "string option"
  charset :: "string option"
  language :: "string option"
  hreflang :: "(string option \<times> string option) list"

text \<open>An Open Graph value is a content string or a nested object of content strings.\<close>

datatype og_value = OgString string | OgObject "(string \<times> string) list"

type_synonym og_tags = "(string \<times> og_value) list"

type_synonym twitter_tags = "(string \<times> string) list"

type_synonym microdata_item = "(string \<times> string) list"

record 'j schema_data =
  jsonLd :: "'j list"
  microdata :: "(string \<times> microdata_item list) list"

record technical =
  doctype :: "string option"
  htmlVersion :: string
  hasViewport :: bool
  hasCharset :: bool
  hasCanonical :: bool
  hasRobots :: bool
  hasSitemap :: bool
  hasRSS :: bool
  hasAMP :: bool
  hasMobileAlternate :: bool
  sitemapUrl :: "string option"
  rssUrl :: "string option"

record link =
  link_url :: string
  link_text :: "string option"
  link_rel :: "string option"
  isNofollow :: bool
  isSponsored :: bool
  isUGC :: bool
  link_title :: "string option"

text \<open>
  The buckets while the anchors are visited hold link records; after \<open>uniqueLinks\<close> an
  entry is what \<open>arr.find\<close> returned, a record or \<open>undefined\<close>.
\<close>

record link_buckets =
  internal_links :: "link list"
  external_links :: "link list"
  nofollow_links :: "link list"
  broken_links :: "link list"

record links =
  links_internal :: "link option list"
  links_external :: "link option list"
  links_nofollow :: "link option list"
  links_broken :: "link list"

record heading =
  heading_text :: string
  heading_id :: "string option"
  heading_length :: nat

record headings =
  headings_tags :: "(string \<times> heading list) list"
  headings_counts :: "(string \<times> nat) list"

record image =
  img_src :: string
  img_alt :: "string option"
  hasAlt :: bool
  isLazy :: bool
  img_srcset :: "string option"
  img_title :: "string option"

record image_counts =
  counts_total :: nat
  counts_withAlt :: nat
  counts_withoutAlt :: nat
  counts_lazyLoaded :: nat

record images =
  withAlt :: "image list"
  withoutAlt :: "image list"
  lazyLoaded :: "image list"
  counts :: image_counts

record page_weight =
  weight_html :: nat
  estimatedExternalResources :: nat
  totalEstimated :: nat

record performance =
  totalImages :: nat
  totalScripts :: nat
  totalStylesheets :: nat
  totalInlineScripts :: nat
  totalInlineStyles :: nat
  totalLinks :: nat
  totalHeadings :: nat
  htmlSize :: nat
  estimatedPageWeight :: page_weight

datatype 'j payload =
    Basic basic
  | OpenGraph og_tags
  | Twitter twitter_tags
  | Schema "'j schema_data"
  | Technical technical
  | Links links
  | Headings headings
  | Images images
  | Performance performance

subsection \<open>The scraper\<close>

text \<open>
  \<open>this.metadata\<close>: the report. Its \<open>seo\<close> object is keyed by category name; the
  timestamp is the clock's reading when the scraper was constructed.
\<close>

record 'j metadata =
  md_url :: string
  timestamp :: string
  seo :: "(string \<times> 'j payload) list"

text \<open>
  The fields of an \<open>SEOScraper\<close>. \<open>html\<close> is the markup in UTF-8, empty until a page
  was fetched. \<open>dollar\<close> is \<open>this.$\<close>: \<open>null\<close> until a page was fetched, then the
  parsed document.
\<close>

record 'j scraper =
  url :: string
  html :: string
  dollar :: "node list option"
  metadata :: "'j metadata"

definition SEOScraper :: "string \<Rightarrow> string \<Rightarrow> 'j scraper" where
  "SEOScraper u now =
     \<lparr>url = u, html = [], dollar = None,
      metadata = \<lparr>md_url = u, timestamp = now, seo = []\<rparr>\<rparr>"

text \<open>
  The scraper after a successful \<open>fetchPage\<close> whose response body is \<open>body\<close>, in
  UTF-8, and parses to \<open>doc\<close>. The request and the parser are the libraries' and are not
  modelled.
\<close>

definition fetched :: "string \<Rightarrow> node list \<Rightarrow> 'j scraper \<Rightarrow> 'j scraper" where
  "fetched body doc s = s\<lparr>html := body, dollar := Some doc\<rparr>"

text \<open>\<open>this.metadata.seo[category] = payload\<close>\<close>

definition set_seo :: "string \<Rightarrow> 'j payload \<Rightarrow> 'j scraper \<Rightarrow> 'j scraper" where
  "set_seo category p s =
     s\<lparr>metadata := (metadata s)\<lparr>seo := AList.update category p (seo (metadata s))\<rparr>\<rparr>"

text \<open>Calling \<open>this.$(...)\<close> while \<open>this.$\<close> is \<open>null\<close>.\<close>

definition not_a_function :: error where
  "not_a_function = TypeError ''this.$ is not a function''"


section \<open>The extractors\<close>

text \<open>
  Each extractor is a method of the scraper: it reads \<open>this.html\<close>, \<open>this.url\<close> and
  \<open>this.$\<close>, builds its payload in local variables and, as its last statement, stores
  the payload under its category. An exception leaves the method before that store, so
  a failed extractor returns the error and no new scraper. Two extractors look a
  property up under a name that the page chooses, and so depend on the state of the
  built-in objects: the one for Open Graph, which can also change that state, and the
  one for schema markup, which only reads it.
\<close>

subsection \<open>\<open>extractBasicMetadata\<close>\<close>

text \<open>The object literal \<open>basic\<close>, with the \<open>hreflang\<close> links the loop pushes to it.\<close>

definition basic_record :: "node list \<Rightarrow> basic" where
  "basic_record doc =
     \<lparr>title = or_null (Some (concat (map cheerio_text (query doc [[Tag ''title'']])))),
      metaDescription =
        or_null (first_attr (query doc [[Tag ''meta'', AttrEq ''name'' ''description'']])
                   ''content''),
      canonical =
        or_null (first_attr (query doc [[Tag ''link'', AttrEq ''rel'' ''canonical'']])
                   ''href''),
      robots =
        or_null (first_attr (query doc [[Tag ''meta'', AttrEq ''name'' ''robots'']])
                   ''content''),
      viewport =
        or_null (first_attr (query doc [[Tag ''meta'', AttrEq ''name'' ''viewport'']])
                   ''content''),
      charset =
        (case or_null (first_attr (query doc [[Tag ''meta'', HasAttr ''charset'']])
                         ''charset'') of
           Some c \<Rightarrow> Some c
         | None \<Rightarrow>
             or_null (first_attr
                        (query doc [[Tag ''meta'', AttrEq ''http-equiv'' ''Content-Type'']])
                        ''content'')),
      language = or_null (first_attr (query doc [[Tag ''html'']]) ''lang''),
      hreflang =
        map (\<lambda>elem. (cheerio_attr elem ''hreflang'', cheerio_attr elem ''href''))
          (query doc [[Tag ''link'', AttrEq ''rel'' ''alternate'', HasAttr ''hreflang'']])\<rparr>"

definition extractBasicMetadata :: "'j scraper \<Rightarrow> error + 'j scraper" where
  "extractBasicMetadata s =
     (case dollar s of
        None \<Rightarrow> Inl not_a_function
      | Some doc \<Rightarrow> Inr (set_seo BASIC (Basic (basic_record doc)) s))"

subsection \<open>\<open>extractOpenGraphMetadata\<close>\<close>

text \<open>
  The two statements for a nested property,
  \<open>if (!ogTags[parent]) ogTags[parent] = {}; ogTags[parent][child] = content\<close>. The class
  body is strict-mode code, so the assignment throws a \<open>TypeError\<close> when
  \<open>ogTags[parent]\<close> is a string, its own or one inherited from \<open>Object.prototype\<close>;
  only under the child \<open>__proto__\<close> it reaches the setter of \<open>Object.prototype\<close>, which
  returns without effect for a string. When \<open>parent\<close> names a built-in member that
  \<open>ogTags\<close> does not own, the assignment lands on that built-in object: \<open>ogTags\<close> keeps
  its properties and the state of the built-in objects changes, unless the property is
  read-only there, which throws.
\<close>

definition og_truthy :: "og_value property \<Rightarrow> bool" where
  "og_truthy v =
     property_truthy (\<lambda>x. case x of OgString c \<Rightarrow> c \<noteq> [] | OgObject m \<Rightarrow> True) v"

definition og_nested ::
  "builtins \<Rightarrow> og_tags \<Rightarrow> string \<Rightarrow> string \<Rightarrow> string \<Rightarrow> builtins \<times> (error + og_tags)"
where
  "og_nested g ogTags parent child content =
     (let ogTags1 = (if \<not> og_truthy (js_get g ogTags parent)
                     then AList.update parent (OgObject []) ogTags else ogTags)
      in case js_get g ogTags1 parent of
           Own (OgObject m) \<Rightarrow>
             (g, Inr (AList.update parent (OgObject (js_set m child content)) ogTags1))
         | Own (OgString x) \<Rightarrow>
             (if child = ''__proto__'' then (g, Inr ogTags1)
              else (g, Inl (TypeError (''Cannot create property '' @ child @ '' on string '' @ x))))
         | InheritedString x \<Rightarrow>
             (if child = ''__proto__'' then (g, Inr ogTags1)
              else (g, Inl (TypeError (''Cannot create property '' @ child @ '' on string '' @ x))))
         | Inherited \<Rightarrow>
             (if child = ''__proto__'' then (g, Inr ogTags1)
              else if read_only parent child
              then (g, Inl (TypeError (''Cannot assign to read only property '' @ child)))
              else (AList.update (parent, child) content g, Inr ogTags1))
         | Undefined \<Rightarrow> (g, Inl (TypeError ''Cannot set properties of undefined'')))"

text \<open>The callback of \<open>each\<close>, in a state of the built-in objects.\<close>

definition og_callback :: "builtins \<Rightarrow> node \<Rightarrow> og_tags \<Rightarrow> builtins \<times> (error + og_tags)" where
  "og_callback g elem ogTags =
     (case cheerio_attr elem ''property'' of
        None \<Rightarrow> (g, Inl (TypeError ''Cannot read properties of undefined (reading replace)''))
      | Some p \<Rightarrow>
          let property = js_replace_first p ''og:'';
              content = cheerio_attr elem ''content''
          in if property \<noteq> [] \<and> truthy content then
               if js_includes property '':'' then
                 let parts = js_split property CHR '':'';
                     parent = (case parts of [] \<Rightarrow> ''undefined'' | x # _ \<Rightarrow> x);
                     child = (case parts of _ # y # _ \<Rightarrow> y | _ \<Rightarrow> ''undefined'')
                 in og_nested g ogTags parent child (or_empty content)
               else (g, Inr (js_set ogTags property (OgString (or_empty content))))
             else (g, Inr ogTags))"

text \<open>
  \<open>each\<close> with a callback that may throw: the first exception ends the loop. What the
  callbacks did to the built-in objects before it stays.
\<close>

fun each_throwing :: "(node \<Rightarrow> 'a \<Rightarrow> error + 'a) \<Rightarrow> node list \<Rightarrow> 'a \<Rightarrow> error + 'a" where
  "each_throwing f [] acc = Inr acc"
| "each_throwing f (e # es) acc =
     (case f e acc of Inl err \<Rightarrow> Inl err | Inr acc' \<Rightarrow> each_throwing f es acc')"

fun each_assigning ::
  "(builtins \<Rightarrow> node \<Rightarrow> 'a \<Rightarrow> builtins \<times> (error + 'a)) \<Rightarrow> node list \<Rightarrow> builtins \<Rightarrow> 'a
     \<Rightarrow> builtins \<times> (error + 'a)"
where
  "each_assigning f [] g acc = (g, Inr acc)"
| "each_assigning f (e # es) g acc =
     (case f g e acc of
        (g', Inl err) \<Rightarrow> (g', Inl err)
      | (g', Inr acc') \<Rightarrow> each_assigning f es g' acc')"

definition extractOpenGraphMetadata ::
  "builtins \<Rightarrow> 'j scraper \<Rightarrow> builtins \<times> (error + 'j scraper)"
where
  "extractOpenGraphMetadata g s =
     (case dollar s of
        None \<Rightarrow> (g, Inl not_a_function)
      | Some doc \<Rightarrow>
          (case each_assigning og_callback
                  (query doc [[Tag ''meta'', AttrPrefix ''property'' ''og:'']]) g [] of
             (g', Inl err) \<Rightarrow> (g', Inl err)
           | (g', Inr ogTags) \<Rightarrow> (g', Inr (set_seo OPEN_GRAPH (OpenGraph ogTags) s))))"

subsection \<open>\<open>extractTwitterMetadata\<close>\<close>

definition twitter_callback :: "node \<Rightarrow> twitter_tags \<Rightarrow> error + twitter_tags" where
  "twitter_callback elem twitterTags =
     (case cheerio_attr elem ''name'' of
        None \<Rightarrow> Inl (TypeError ''Cannot read properties of undefined (reading replace)'')
      | Some n \<Rightarrow>
          let name = js_replace_first n ''twitter:'';
              content = cheerio_attr elem ''content''
          in if name \<noteq> [] \<and> truthy content
             then Inr (js_set twitterTags name (or_empty content))
             else Inr twitterTags)"

definition extractTwitterMetadata :: "'j scraper \<Rightarrow> error + 'j scraper" where
  "extractTwitterMetadata s =
     (case dollar s of
        None \<Rightarrow> Inl not_a_function
      | Some doc \<Rightarrow>
          (case each_throwing twitter_callback
                  (query doc [[Tag ''meta'', AttrPrefix ''name'' ''twitter:'']]) [] of
             Inl err \<Rightarrow> Inl err
           | Inr twitterTags \<Rightarrow> Inr (set_seo TWITTER (Twitter twitterTags) s)))"

subsection \<open>\<open>extractSchemaMetadata\<close>\<close>

text \<open>
  \<open>JSON.parse\<close> is a parameter: \<open>JSON_parse x\<close> is the parsed value, or \<open>None\<close> when
  \<open>JSON.parse\<close> throws a \<open>SyntaxError\<close>. \<open>$(elem).html()\<close> of a script element is its
  raw text.
\<close>

definition cheerio_html :: "node \<Rightarrow> string" where
  "cheerio_html e = cheerio_text e"

definition jsonLd_callback :: "(string \<Rightarrow> 'j option) \<Rightarrow> 'j list \<Rightarrow> node \<Rightarrow> 'j list" where
  "jsonLd_callback JSON_parse acc elem =
     (let jsonContent = cheerio_html elem
      in if jsonContent \<noteq> [] then
           (case JSON_parse jsonContent of
              Some parsed \<Rightarrow> acc @ [parsed]
            | None \<Rightarrow> acc)
         else acc)"

definition itemprop_callback :: "microdata_item \<Rightarrow> node \<Rightarrow> microdata_item" where
  "itemprop_callback item prop =
     (let propName = (case cheerio_attr prop ''itemprop'' of None \<Rightarrow> ''undefined'' | Some n \<Rightarrow> n);
          content = (if truthy (cheerio_attr prop ''content'')
                     then or_empty (cheerio_attr prop ''content'') else cheerio_text prop)
      in js_set item propName content)"

text \<open>
  The callback of the microdata loop, in a state of the built-in objects. An array is
  stored under \<open>type\<close> when \<open>microdata[type]\<close> is falsy. \<open>microdata[type].push(item)\<close>
  throws when \<open>microdata\<close> does not own \<open>type\<close> and \<open>Object.prototype\<close> has a truthy
  value under it, a built-in member or a string that was assigned there: the lookup is
  truthy, so no array is stored, and the value has no function \<open>push\<close>. The callback
  assigns to its own objects only.
\<close>

definition microdata_callback ::
  "builtins \<Rightarrow> node \<Rightarrow> (string \<times> microdata_item list) list
     \<Rightarrow> error + (string \<times> microdata_item list) list"
where
  "microdata_callback g elem md =
     (let itemtype = cheerio_attr elem ''itemtype''
      in if truthy itemtype then
           let type = last (js_split (or_empty itemtype) CHR ''/'');
               md1 = (if \<not> property_truthy (\<lambda>arr. True) (js_get g md type)
                      then AList.update type [] md else md);
               item = foldl itemprop_callback [] (cheerio_find elem [[HasAttr ''itemprop'']])
           in case js_get g md1 type of
                Own arr \<Rightarrow> Inr (AList.update type (arr @ [item]) md1)
              | InheritedString x \<Rightarrow> Inl (TypeError ''microdata[type].push is not a function'')
              | Inherited \<Rightarrow> Inl (TypeError ''microdata[type].push is not a function'')
              | Undefined \<Rightarrow> Inl (TypeError ''Cannot read properties of undefined (reading push)'')
         else Inr md)"

definition extractSchemaMetadata ::
  "(string \<Rightarrow> 'j option) \<Rightarrow> builtins \<Rightarrow> 'j scraper \<Rightarrow> error + 'j scraper"
where
  "extractSchemaMetadata JSON_parse g s =
     (case dollar s of
        None \<Rightarrow> Inl not_a_function
      | Some doc \<Rightarrow>
          let parsed = foldl (jsonLd_callback JSON_parse) []
                         (query doc [[Tag ''script'', AttrEq ''type'' ''application/ld+json'']])
          in case each_throwing (microdata_callback g) (query doc [[HasAttr ''itemscope'']]) [] of
               Inl err \<Rightarrow> Inl err
             | Inr md \<Rightarrow> Inr (set_seo SCHEMA (Schema \<lparr>jsonLd = parsed, microdata = md\<rparr>) s))"


subsection \<open>\<open>extractTechnicalMetadata\<close> and \<open>getHtmlVersion\<close>\<close>

text \<open>\<open>this.html.match(/<!DOCTYPE[^>]*>/i)?.[0] || \<close> the empty string.\<close>

definition doctype_string :: "'j scraper \<Rightarrow> string" where
  "doctype_string s = or_empty (match_doctype (html s))"

definition getHtmlVersion :: "'j scraper \<Rightarrow> string" where
  "getHtmlVersion s =
     (let doctype = doctype_string s
      in if js_includes doctype ''HTML 4'' then ''HTML4''
         else if js_includes doctype ''XHTML'' then ''XHTML''
         else if js_includes doctype ''HTML5'' \<or> doctype = ''<!DOCTYPE html>'' then ''HTML5''
         else ''Unknown'')"

text \<open>
  The object literal \<open>technical\<close>. Its first two fields read \<open>this.html\<close> only; the
  others query the document.
\<close>

definition technical_record :: "string option \<Rightarrow> string \<Rightarrow> node list \<Rightarrow> technical" where
  "technical_record dt version doc =
     \<lparr>doctype = dt,
      htmlVersion = version,
      hasViewport = (length (query doc [[Tag ''meta'', AttrEq ''name'' ''viewport'']]) > 0),
      hasCharset =
        (length (query doc [[Tag ''meta'', HasAttr ''charset'']]) > 0
         \<or> length (query doc [[Tag ''meta'', AttrEq ''http-equiv'' ''Content-Type'']]) > 0),
      hasCanonical = (length (query doc [[Tag ''link'', AttrEq ''rel'' ''canonical'']]) > 0),
      hasRobots = (length (query doc [[Tag ''meta'', AttrEq ''name'' ''robots'']]) > 0),
      hasSitemap = (length (query doc [[Tag ''link'', AttrEq ''rel'' ''sitemap'']]) > 0),
      hasRSS =
        (length (query doc [[Tag ''link'', AttrEq ''type'' ''application/rss+xml'']]) > 0),
      hasAMP = (length (query doc [[Tag ''link'', AttrEq ''rel'' ''amphtml'']]) > 0),
      hasMobileAlternate =
        (length (query doc [[Tag ''link'', AttrEq ''rel'' ''alternate'', HasAttr ''media'']]) > 0),
      sitemapUrl =
        or_null (first_attr (query doc [[Tag ''link'', AttrEq ''rel'' ''sitemap'']]) ''href''),
      rssUrl =
        or_null (first_attr
                   (query doc [[Tag ''link'', AttrEq ''type'' ''application/rss+xml'']])
                   ''href'')\<rparr>"

definition extractTechnicalMetadata :: "'j scraper \<Rightarrow> error + 'j scraper" where
  "extractTechnicalMetadata s =
     (let dt = or_null (match_doctype (html s));
          version = getHtmlVersion s
      in case dollar s of
           None \<Rightarrow> Inl not_a_function
         | Some doc \<Rightarrow> Inr (set_seo TECHNICAL (Technical (technical_record dt version doc)) s))"

subsection \<open>\<open>extractLinks\<close>\<close>

text \<open>
  \<open>new URL(x).hostname\<close> is a parameter: \<open>hostname x\<close> is the host name, or \<open>None\<close>
  when the constructor throws. Both constructor calls stand in one \<open>try\<close> block whose
  handler files the link as external.
\<close>

text \<open>The object literal \<open>link\<close> of the callback, built once \<open>href\<close> is known to be truthy.\<close>

definition link_record :: "node \<Rightarrow> link" where
  "link_record elem =
     (let rel = or_empty (cheerio_attr elem ''rel'');
          text = js_trim (cheerio_text elem)
      in \<lparr>link_url = or_empty (cheerio_attr elem ''href''),
          link_text = or_null (Some text),
          link_rel = or_null (Some rel),
          isNofollow = js_includes (js_toLowerCase rel) ''nofollow'',
          isSponsored = js_includes (js_toLowerCase rel) ''sponsored'',
          isUGC = js_includes (js_toLowerCase rel) ''ugc'',
          link_title = or_null (cheerio_attr elem ''title'')\<rparr>)"

definition link_callback ::
  "(string \<Rightarrow> string option) \<Rightarrow> string \<Rightarrow> link_buckets \<Rightarrow> node \<Rightarrow> link_buckets"
where
  "link_callback hostname base b elem =
     (let href = cheerio_attr elem ''href''
      in if \<not> truthy href then b
         else
           let h = or_empty href;
               l = link_record elem
           in if js_startsWith h ''#'' \<or> js_startsWith h ''javascript:'' then b
              else
                let b1 =
                      (if js_startsWith h ''http'' then
                         (case hostname h of
                            None \<Rightarrow> b\<lparr>external_links := external_links b @ [l]\<rparr>
                          | Some urlHost \<Rightarrow>
                              (case hostname base of
                                 None \<Rightarrow> b\<lparr>external_links := external_links b @ [l]\<rparr>
                               | Some baseHost \<Rightarrow>
                                   if urlHost = baseHost
                                   then b\<lparr>internal_links := internal_links b @ [l]\<rparr>
                                   else b\<lparr>external_links := external_links b @ [l]\<rparr>))
                       else b\<lparr>internal_links := internal_links b @ [l]\<rparr>)
                in if isNofollow l then b1\<lparr>nofollow_links := nofollow_links b1 @ [l]\<rparr> else b1)"

text \<open>\<open>Array.from(new Set(xs))\<close>: the distinct values in the order they were first added.\<close>

definition Set_values :: "'a list \<Rightarrow> 'a list" where
  "Set_values xs = foldl (\<lambda>acc x. if x \<in> set acc then acc else acc @ [x]) [] xs"

definition uniqueLinks :: "link list \<Rightarrow> link option list" where
  "uniqueLinks arr =
     map (\<lambda>u. find (\<lambda>l. link_url l = u) arr) (Set_values (map link_url arr))"

definition collect_links :: "(string \<Rightarrow> string option) \<Rightarrow> string \<Rightarrow> node list \<Rightarrow> link_buckets" where
  "collect_links hostname base doc =
     foldl (link_callback hostname base)
       \<lparr>internal_links = [], external_links = [], nofollow_links = [], broken_links = []\<rparr>
       (query doc [[Tag ''a'', HasAttr ''href'']])"

text \<open>The three reassignments \<open>links.internal = uniqueLinks(links.internal)\<close> and so on.\<close>

definition deduplicated :: "link_buckets \<Rightarrow> links" where
  "deduplicated b =
     \<lparr>links_internal = uniqueLinks (internal_links b),
      links_external = uniqueLinks (external_links b),
      links_nofollow = uniqueLinks (nofollow_links b),
      links_broken = broken_links b\<rparr>"

definition extractLinks :: "(string \<Rightarrow> string option) \<Rightarrow> 'j scraper \<Rightarrow> error + 'j scraper" where
  "extractLinks hostname s =
     (case dollar s of
        None \<Rightarrow> Inl not_a_function
      | Some doc \<Rightarrow>
          Inr (set_seo LINKS (Links (deduplicated (collect_links hostname (url s) doc))) s))"

subsection \<open>\<open>extractHeadings\<close>\<close>

definition heading_callback :: "heading list \<Rightarrow> node \<Rightarrow> heading list" where
  "heading_callback acc elem =
     (let text = js_trim (cheerio_text elem);
          id = or_null (cheerio_attr elem ''id'')
      in if text \<noteq> []
         then acc @ [\<lparr>heading_text = text, heading_id = id, heading_length = length text\<rparr>]
         else acc)"

text \<open>One round of the loop \<open>for (let i = 1; i <= 6; i++)\<close>; the tag is \<open>h\<close> and the digit.\<close>

definition heading_round :: "node list \<Rightarrow> headings \<Rightarrow> nat \<Rightarrow> headings" where
  "heading_round doc hs i =
     (let tag = [CHR ''h'', char_of (48 + i)];
          found = foldl heading_callback [] (query doc [[Tag tag]])
      in hs\<lparr>headings_tags := AList.update tag found (headings_tags hs),
             headings_counts := AList.update tag (length found) (headings_counts hs)\<rparr>)"

text \<open>The object \<open>headings\<close> after the six rounds.\<close>

definition collect_headings :: "node list \<Rightarrow> headings" where
  "collect_headings doc =
     foldl (heading_round doc)
       \<lparr>headings_tags = [(''h1'', []), (''h2'', []), (''h3'', []), (''h4'', []),
                          (''h5'', []), (''h6'', [])],
        headings_counts = []\<rparr>
       [1 ..< 7]"

definition extractHeadings :: "'j scraper \<Rightarrow> error + 'j scraper" where
  "extractHeadings s =
     (case dollar s of
        None \<Rightarrow> Inl not_a_function
      | Some doc \<Rightarrow> Inr (set_seo HEADINGS (Headings (collect_headings doc)) s))"

subsection \<open>\<open>extractImages\<close>\<close>

text \<open>The object literal \<open>image\<close> of the callback, built once \<open>src\<close> is known to be truthy.\<close>

definition image_record :: "node \<Rightarrow> image" where
  "image_record elem =
     (let alt = or_empty (cheerio_attr elem ''alt'');
          loading = cheerio_attr elem ''loading'';
          srcset = cheerio_attr elem ''srcset''
      in \<lparr>img_src = or_empty (cheerio_attr elem ''src''),
          img_alt = or_null (Some alt),
          hasAlt = (alt \<noteq> []),
          isLazy = (loading = Some ''lazy''),
          img_srcset = or_null srcset,
          img_title = or_null (cheerio_attr elem ''title'')\<rparr>)"

definition image_callback :: "images \<Rightarrow> node \<Rightarrow> images" where
  "image_callback imgs elem =
     (let src = cheerio_attr elem ''src''
      in if \<not> truthy src then imgs
         else
           let img = image_record elem;
               i1 = imgs\<lparr>counts := (counts imgs)\<lparr>counts_total := counts_total (counts imgs) + 1\<rparr>\<rparr>;
               i2 = (if hasAlt img
                     then i1\<lparr>withAlt := withAlt i1 @ [img],
                             counts := (counts i1)\<lparr>counts_withAlt := counts_withAlt (counts i1) + 1\<rparr>\<rparr>
                     else i1\<lparr>withoutAlt := withoutAlt i1 @ [img],
                             counts := (counts i1)\<lparr>counts_withoutAlt := counts_withoutAlt (counts i1) + 1\<rparr>\<rparr>)
           in if isLazy img
              then i2\<lparr>lazyLoaded := lazyLoaded i2 @ [img],
                      counts := (counts i2)\<lparr>counts_lazyLoaded := counts_lazyLoaded (counts i2) + 1\<rparr>\<rparr>
              else i2)"

text \<open>The object \<open>images\<close> before and after the loop over \<open>$('img')\<close>.\<close>

definition no_images :: images where
  "no_images =
     \<lparr>withAlt = [], withoutAlt = [], lazyLoaded = [],
      counts = \<lparr>counts_total = 0, counts_withAlt = 0, counts_withoutAlt = 0,
                counts_lazyLoaded = 0\<rparr>\<rparr>"

definition collect_images :: "node list \<Rightarrow> images" where
  "collect_images doc = foldl image_callback no_images (query doc [[Tag ''img'']])"

definition extractImages :: "'j scraper \<Rightarrow> error + 'j scraper" where
  "extractImages s =
     (case dollar s of
        None \<Rightarrow> Inl not_a_function
      | Some doc \<Rightarrow> Inr (set_seo IMAGES (Images (collect_images doc)) s))"

subsection \<open>\<open>extractPerformanceMetrics\<close> and \<open>estimatePageWeight\<close>\<close>

text \<open>Counts and sizes are natural numbers; the source's doubles are exact below \<open>2^53\<close>.\<close>

definition estimatePageWeight :: "'j scraper \<Rightarrow> error + page_weight" where
  "estimatePageWeight s =
     (let htmlSize = byteLength_utf8 (html s)
      in case dollar s of
           None \<Rightarrow> Inl not_a_function
         | Some doc \<Rightarrow>
             let e0 = (0::nat);
                 e1 = foldl (\<lambda>externalResourcesSize elem. externalResourcesSize + 15000) e0
                        (query doc [[Tag ''link'', AttrEq ''rel'' ''stylesheet'']]);
                 e2 = foldl (\<lambda>externalResourcesSize elem. externalResourcesSize + 50000) e1
                        (query doc [[Tag ''script'', HasAttr ''src'']]);
                 e3 = foldl (\<lambda>externalResourcesSize elem. externalResourcesSize + 100000) e2
                        (query doc [[Tag ''img'', HasAttr ''src'']])
             in Inr \<lparr>weight_html = htmlSize,
                     estimatedExternalResources = e3,
                     totalEstimated = htmlSize + e3\<rparr>)"

text \<open>
  The object literal \<open>performance\<close> for the markup \<open>this.html\<close>, the document and the
  value of \<open>this.estimatePageWeight()\<close>.
\<close>

definition performance_record :: "string \<Rightarrow> node list \<Rightarrow> page_weight \<Rightarrow> performance" where
  "performance_record markup doc w =
     \<lparr>totalImages = length (query doc [[Tag ''img'']]),
      totalScripts = length (query doc [[Tag ''script'', HasAttr ''src'']]),
      totalStylesheets = length (query doc [[Tag ''link'', AttrEq ''rel'' ''stylesheet'']]),
      totalInlineScripts = length (query doc [[Tag ''script'', NotHasAttr ''src'']]),
      totalInlineStyles = length (query doc [[Tag ''style'']]),
      totalLinks = length (query doc [[Tag ''a'', HasAttr ''href'']]),
      totalHeadings =
        length (query doc [[Tag ''h1''], [Tag ''h2''], [Tag ''h3''], [Tag ''h4''],
                           [Tag ''h5''], [Tag ''h6'']]),
      htmlSize = byteLength_utf8 markup,
      estimatedPageWeight = w\<rparr>"

definition extractPerformanceMetrics :: "'j scraper \<Rightarrow> error + 'j scraper" where
  "extractPerformanceMetrics s =
     (case dollar s of
        None \<Rightarrow> Inl not_a_function
      | Some doc \<Rightarrow>
          (case estimatePageWeight s of
             Inl err \<Rightarrow> Inl err
           | Inr w \<Rightarrow> Inr (set_seo PERFORMANCE (Performance (performance_record (html s) doc w)) s)))"

section \<open>The pipeline\<close>

datatype console_line = Analyzing | StepDone string | StepWarning string error | AnalysisComplete

text \<open>
  A step of \<open>analyze\<close> is a name and a function \<open>() => this.extractX()\<close>. Called in a
  state of the built-in objects on a scraper, it leaves the built-in objects in a new
  state and returns the scraper with the payload stored, or throws.
\<close>

type_synonym 'j step = "builtins \<Rightarrow> 'j scraper \<Rightarrow> builtins \<times> (error + 'j scraper)"

text \<open>
  The step of an extractor that makes no lookup and no assignment under a name of the
  page's choosing outside its own objects, and the step of one that makes such lookups
  only.
\<close>

definition calling :: "('j scraper \<Rightarrow> error + 'j scraper) \<Rightarrow> 'j step" where
  "calling extractor g s = (g, extractor s)"

definition calling_in :: "(builtins \<Rightarrow> 'j scraper \<Rightarrow> error + 'j scraper) \<Rightarrow> 'j step" where
  "calling_in extractor g s = (g, extractor g s)"

text \<open>
  The loop of \<open>analyze\<close>: each step runs inside \<open>try\<close>; an exception is logged and the
  loop goes on with the scraper as it was, and with the built-in objects as the step
  left them.
\<close>

fun run_steps ::
  "(string \<times> 'j step) list \<Rightarrow> builtins \<times> 'j scraper \<times> console_line list
     \<Rightarrow> builtins \<times> 'j scraper \<times> console_line list"
where
  "run_steps [] (g, s, out) = (g, s, out)"
| "run_steps ((name, extractor) # steps) (g, s, out) =
     (case extractor g s of
        (g', Inr s') \<Rightarrow> run_steps steps (g', s', out @ [StepDone name])
      | (g', Inl err) \<Rightarrow> run_steps steps (g', s, out @ [StepWarning name err]))"

definition steps ::
  "(string \<Rightarrow> 'j option) \<Rightarrow> (string \<Rightarrow> string option) \<Rightarrow> (string \<times> 'j step) list"
where
  "steps JSON_parse hostname =
     [(''Basic Metadata'', calling extractBasicMetadata),
      (''Open Graph Tags'', extractOpenGraphMetadata),
      (''Twitter Cards'', calling extractTwitterMetadata),
      (''Schema Markup'', calling_in (extractSchemaMetadata JSON_parse)),
      (''Technical SEO'', calling extractTechnicalMetadata),
      (''Links Analysis'', calling (extractLinks hostname)),
      (''Headings Structure'', calling extractHeadings),
      (''Images Analysis'', calling extractImages),
      (''Performance Metrics'', calling extractPerformanceMetrics)]"

text \<open>
  \<open>analyze\<close> returns \<open>this.metadata\<close>; the model returns the state it leaves the
  built-in objects in, the scraper it leaves behind, whose \<open>metadata\<close> is that report,
  and the lines written to the console.
\<close>

definition analyze ::
  "(string \<Rightarrow> 'j option) \<Rightarrow> (string \<Rightarrow> string option) \<Rightarrow> builtins \<Rightarrow> 'j scraper
     \<Rightarrow> builtins \<times> 'j scraper \<times> console_line list"
where
  "analyze JSON_parse hostname g s =
     (let (g', s', out) = run_steps (steps JSON_parse hostname) (g, s, [Analyzing])
      in (g', s', out @ [AnalysisComplete]))"

text \<open>
  The report that \<open>analyze\<close> returns, the lines it writes, and a category's payload in
  a report.
\<close>

definition report ::
  "(string \<Rightarrow> 'j option) \<Rightarrow> (string \<Rightarrow> string option) \<Rightarrow> builtins \<Rightarrow> 'j scraper
     \<Rightarrow> 'j metadata"
where
  "report JSON_parse hostname g s = metadata (fst (snd (analyze JSON_parse hostname g s)))"

definition console ::
  "(string \<Rightarrow> 'j option) \<Rightarrow> (string \<Rightarrow> string option) \<Rightarrow> builtins \<Rightarrow> 'j scraper
     \<Rightarrow> console_line list"
where
  "console JSON_parse hostname g s = snd (snd (analyze JSON_parse hostname g s))"

definition section_of :: "'j metadata \<Rightarrow> string \<Rightarrow> 'j payload option" where
  "section_of r category = map_of (seo r) category"

section \<open>Notions of the specification and example pages\<close>

text \<open>A string contains another when that one occurs in it as a contiguous part.\<close>

definition contains :: "string \<Rightarrow> string \<Rightarrow> bool" where
  "contains s p = (\<exists>a b. s = a @ p @ b)"

text \<open>A string starts with another when that one is an initial part of it.\<close>

definition starts :: "string \<Rightarrow> string \<Rightarrow> bool" where
  "starts s p = (\<exists>b. s = p @ b)"

subsection \<open>Images\<close>

text \<open>
  The recorded images of a document: the records of the \<open>img\<close> elements that have a
  non-empty \<open>src\<close>, in document order.
\<close>

definition recorded_images :: "node list \<Rightarrow> image list" where
  "recorded_images doc =
     map image_record [e \<leftarrow> query doc [[Tag ''img'']]. truthy (cheerio_attr e ''src'')]"

subsection \<open>Links\<close>

text \<open>
  The bucket of an \<open>href\<close>, given the host names of addresses (\<open>None\<close> for an
  address that does not parse) and the address of the origin page; the bucket \<open>None\<close>
  is a skipped link.
\<close>

datatype bucket = Internal | External

definition href_of :: "node \<Rightarrow> string" where
  "href_of e = or_empty (cheerio_attr e ''href'')"

definition link_bucket :: "(string \<Rightarrow> string option) \<Rightarrow> string \<Rightarrow> string \<Rightarrow> bucket option" where
  "link_bucket hostname base href =
     (if href = [] \<or> starts href ''#'' \<or> starts href ''javascript:'' then None
      else if starts href ''http'' then
        (if hostname href \<noteq> None \<and> hostname href = hostname base then Some Internal
         else Some External)
      else Some Internal)"

text \<open>
  A bucket \<open>out\<close> keeps the first record per address of the collected records \<open>arr\<close>:
  no two entries of \<open>out\<close> have the same \<open>url\<close>, every entry is a record of \<open>arr\<close>
  before which \<open>arr\<close> has no record with the same \<open>url\<close>, and every \<open>url\<close> of \<open>arr\<close>
  has an entry.
\<close>

definition first_per_url :: "link list \<Rightarrow> link option list \<Rightarrow> bool" where
  "first_per_url arr out \<longleftrightarrow>
     distinct (map (map_option link_url) out)
     \<and> (\<forall>e \<in> set out. \<exists>l pre post.
            e = Some l \<and> arr = pre @ l # post \<and> (\<forall>x \<in> set pre. link_url x \<noteq> link_url l))
     \<and> (\<forall>l \<in> set arr. \<exists>k. Some k \<in> set out \<and> link_url k = link_url l)"

subsection \<open>JSON-LD\<close>

text \<open>
  The values of the JSON-LD blocks of a document that parse, in document order. A block
  with empty content is not handed to the parser.
\<close>

definition parsed_blocks :: "(string \<Rightarrow> 'j option) \<Rightarrow> node list \<Rightarrow> 'j list" where
  "parsed_blocks JSON_parse doc =
     List.map_filter JSON_parse
       [c \<leftarrow> map cheerio_html (query doc [[Tag ''script'', AttrEq ''type'' ''application/ld+json'']]).
          c \<noteq> []]"

subsection \<open>The steps and their categories\<close>

text \<open>
  Each step of \<open>analyze\<close> with the category its extractor stores under: the category
  names and the steps are listed in the same order.
\<close>

definition pipeline ::
  "(string \<Rightarrow> 'j option) \<Rightarrow> (string \<Rightarrow> string option) \<Rightarrow> (string \<times> string \<times> 'j step) list"
where
  "pipeline JSON_parse hostname = zip SEO_CATEGORIES (steps JSON_parse hostname)"

text \<open>
  A step is isolated under a category when what it does to the built-in objects and
  whether it throws, and what, does not depend on the report so far, and its only effect on
  the scraper, when it returns, is to store a payload under the category, the same
  payload whatever the report so far.
\<close>

definition isolated :: "string \<Rightarrow> 'j step \<Rightarrow> bool" where
  "isolated k m \<longleftrightarrow>
     (\<forall>g s. case m g s of
              (g', Inl e) \<Rightarrow> (\<forall>md. m g (s\<lparr>metadata := md\<rparr>) = (g', Inl e))
            | (g', Inr s') \<Rightarrow>
                (\<exists>p. \<forall>md. m g (s\<lparr>metadata := md\<rparr>) = (g', Inr (set_seo k p (s\<lparr>metadata := md\<rparr>)))))"

text \<open>
  The outcomes of a run of steps on a scraper: for each step in order its category, its
  name and what its extractor does when it is called on the scraper in the state in which
  the steps before it left the built-in objects: the error it throws, or the scraper it
  returns.
\<close>

fun outcomes ::
  "(string \<times> string \<times> 'j step) list \<Rightarrow> builtins \<Rightarrow> 'j scraper
     \<Rightarrow> (string \<times> string \<times> (error + 'j scraper)) list"
where
  "outcomes [] g s = []"
| "outcomes ((k, name, extractor) # kms) g s =
     (k, name, snd (extractor g s)) # outcomes kms (fst (extractor g s)) s"

text \<open>The console line of an outcome.\<close>

fun outcome_line :: "string \<times> string \<times> (error + 'j scraper) \<Rightarrow> console_line" where
  "outcome_line (k, name, Inl e) = StepWarning name e"
| "outcome_line (k, name, Inr s') = StepDone name"

subsection \<open>Example pages\<close>

text \<open>A scraper that fetched the markup \<open>body\<close>, parsed as \<open>doc\<close>, from a given address.\<close>

definition page :: "string \<Rightarrow> string \<Rightarrow> node list \<Rightarrow> unit scraper" where
  "page u body doc = fetched body doc (SEOScraper u ''2024-01-01T00:00:00.000Z'')"

text \<open>A page with one stylesheet, one external script, one image and an \<open>img\<close> without \<open>src\<close>.\<close>

definition weight_doc :: "node list" where
  "weight_doc =
     [Element ''html'' []
        [Element ''head'' []
           [Element ''link'' [(''rel'', ''stylesheet''), (''href'', ''s.css'')] [],
            Element ''script'' [(''src'', ''s.js'')] []],
         Element ''body'' []
           [Element ''img'' [(''src'', ''a.png'')] [],
            Element ''img'' [(''alt'', ''no source'')] []]]]"

text \<open>
  A page whose \<open>rel\<close> and \<open>http-equiv\<close> values are written in another case than the
  selectors have them.
\<close>

definition variant_doc :: "node list" where
  "variant_doc =
     [Element ''html'' []
        [Element ''head'' []
           [Element ''link'' [(''rel'', ''Stylesheet''), (''href'', ''a.css'')] [],
            Element ''link'' [(''rel'', ''STYLESHEET''), (''href'', ''b.css'')] [],
            Element ''link'' [(''rel'', ''Canonical''), (''href'', ''https://a.com/'')] [],
            Element ''link'' [(''rel'', ''SITEMAP''), (''href'', ''/s.xml'')] [],
            Element ''meta'' [(''http-equiv'', ''content-type''), (''content'', ''text/html'')] [],
            Element ''script'' [(''src'', ''s.js'')] []],
         Element ''body'' [] []]]"

text \<open>
  The parsers of the examples: one for which no block parses, one that parses the JSON
  texts \<open>1\<close> and \<open>2\<close> to these numbers and nothing else, and the host names of the
  example addresses.
\<close>

definition no_json :: "string \<Rightarrow> unit option" where
  "no_json x = None"

definition numbers_json :: "string \<Rightarrow> nat option" where
  "numbers_json x = (if x = ''1'' then Some 1 else if x = ''2'' then Some 2 else None)"

definition example_hostname :: "string \<Rightarrow> string option" where
  "example_hostname x =
     (if x = ''https://a.com/'' \<or> x = ''https://a.com/x'' then Some ''a.com''
      else if x = ''https://b.org/'' \<or> x = ''ftp://b.org/f'' then Some ''b.org''
      else None)"

text \<open>A page with a flat \<open>og:image\<close> followed by the nested \<open>og:image:width\<close>.\<close>

definition og_doc :: "node list" where
  "og_doc =
     [Element ''html'' []
        [Element ''head'' []
           [Element ''meta'' [(''property'', ''og:image''), (''content'', ''a.png'')] [],
            Element ''meta'' [(''property'', ''og:image:width''), (''content'', ''100'')] []],
         Element ''body'' [] []]]"

definition og_page :: "unit scraper" where
  "og_page = page ''https://a.com/'' ''<html></html>'' og_doc"

text \<open>Three \<open>img\<close> elements: one with alternative text, one lazy without, one without \<open>src\<close>.\<close>

definition images_doc :: "node list" where
  "images_doc =
     [Element ''body'' []
        [Element ''img'' [(''src'', ''a.png''), (''alt'', ''A'')] [],
         Element ''img'' [(''src'', ''b.png''), (''loading'', ''lazy'')] [],
         Element ''img'' [(''alt'', ''no source'')] []]]"

text \<open>Two anchors with the same address and different texts, and an external one.\<close>

definition links_doc :: "node list" where
  "links_doc =
     [Element ''body'' []
        [Element ''a'' [(''href'', ''https://a.com/x'')] [Text ''first''],
         Element ''a'' [(''href'', ''https://a.com/x''), (''rel'', ''NoFollow'')] [Text ''second''],
         Element ''a'' [(''href'', ''https://b.org/'')] [Text ''other'']]]"

text \<open>An anchor with an empty \<open>href\<close>, and one to another host by a scheme other than http.\<close>

definition odd_links_doc :: "node list" where
  "odd_links_doc =
     [Element ''body'' []
        [Element ''a'' [(''href'', [])] [Text ''home''],
         Element ''a'' [(''href'', ''ftp://b.org/f'')] [Text ''file'']]]"

text \<open>A page whose only JSON-LD block is malformed.\<close>

definition malformed_doc :: "node list" where
  "malformed_doc =
     [Element ''head'' []
        [Element ''script'' [(''type'', ''application/ld+json'')] [Text ''{not json}'']]]"

text \<open>
  Three JSON-LD blocks, the second malformed and with its type written in capitals, and
  a block of another type.
\<close>

definition blocks_doc :: "node list" where
  "blocks_doc =
     [Element ''head'' []
        [Element ''script'' [(''type'', ''application/ld+json'')] [Text ''1''],
         Element ''script'' [(''type'', ''APPLICATION/LD+JSON'')] [Text ''{not json}''],
         Element ''script'' [(''type'', ''text/javascript'')] [Text ''2''],
         Element ''script'' [(''type'', ''application/ld+json'')] [Text ''2'']]]"

text \<open>
  A page whose only JSON-LD block is malformed and whose body has a microdata item of
  the type \<open>constructor\<close>.
\<close>

definition constructor_doc :: "node list" where
  "constructor_doc =
     [Element ''html'' []
        [Element ''head'' []
           [Element ''script'' [(''type'', ''application/ld+json'')] [Text ''{not json}'']],
         Element ''body'' []
           [Element ''div'' [(''itemscope'', []), (''itemtype'', ''https://schema.org/constructor'')]
              []]]]"

definition constructor_page :: "unit scraper" where
  "constructor_page = page ''https://a.com/'' ''<html></html>'' constructor_doc"

text \<open>
  A page with the nested property \<open>og:__proto__:Person\<close> and a microdata item of the type
  \<open>Person\<close>.
\<close>

definition person_doc :: "node list" where
  "person_doc =
     [Element ''html'' []
        [Element ''head'' []
           [Element ''meta'' [(''property'', ''og:__proto__:Person''), (''content'', ''x'')] []],
         Element ''body'' []
           [Element ''div'' [(''itemscope'', []), (''itemtype'', ''https://schema.org/Person'')]
              []]]]"

definition person_page :: "unit scraper" where
  "person_page = page ''https://a.com/'' ''<html></html>'' person_doc"

section \<open>Properties\<close>

subsection \<open>Strings\<close>

lemma js_startsWith_iff: "js_startsWith s p \<longleftrightarrow> (\<exists>b. s = p @ b)"
  unfolding js_startsWith_def
  by (metis append_eq_conv_conj append_take_drop_id)

lemma contains_Cons: "contains (c # cs) p \<longleftrightarrow> (\<exists>b. c # cs = p @ b) \<or> contains cs p"
proof
  assume "contains (c # cs) p"
  then obtain a b where ab: "c # cs = a @ p @ b"
    unfolding contains_def by blast
  show "(\<exists>b. c # cs = p @ b) \<or> contains cs p"
  proof (cases a)
    case Nil
    with ab show ?thesis by auto
  next
    case (Cons x a')
    with ab have "cs = a' @ p @ b" by simp
    then show ?thesis unfolding contains_def by blast
  qed
next
  assume "(\<exists>b. c # cs = p @ b) \<or> contains cs p"
  then show "contains (c # cs) p"
  proof
    assume "\<exists>b. c # cs = p @ b"
    then obtain b where "c # cs = [] @ p @ b" by auto
    then show ?thesis unfolding contains_def by blast
  next
    assume "contains cs p"
    then obtain a b where "cs = a @ p @ b" unfolding contains_def by blast
    then have "c # cs = (c # a) @ p @ b" by simp
    then show ?thesis unfolding contains_def by blast
  qed
qed

lemma js_includes_iff: "js_includes s p \<longleftrightarrow> contains s p"
proof (induction s)
  case Nil
  show ?case by (simp add: contains_def)
next
  case (Cons c cs)
  then show ?case by (simp add: js_startsWith_iff contains_Cons)
qed

subsection \<open>The HTML version\<close>

text \<open>
  C7. \<open>getHtmlVersion\<close> classifies the doctype string in this order: a doctype that
  contains \<open>HTML 4\<close> is \<open>HTML4\<close>; otherwise one that contains \<open>XHTML\<close> is \<open>XHTML\<close>;
  otherwise one that contains \<open>HTML5\<close> or is exactly \<open><!DOCTYPE html>\<close> is \<open>HTML5\<close>;
  otherwise the version is \<open>Unknown\<close>. In particular a doctype that contains both
  \<open>HTML 4\<close> and \<open>HTML5\<close> is \<open>HTML4\<close>.
\<close>

theorem getHtmlVersion_precedence:
  fixes s :: "'j scraper"
  shows "(contains (doctype_string s) ''HTML 4'' \<longrightarrow> getHtmlVersion s = ''HTML4'')
       \<and> (\<not> contains (doctype_string s) ''HTML 4'' \<and> contains (doctype_string s) ''XHTML''
            \<longrightarrow> getHtmlVersion s = ''XHTML'')
       \<and> (\<not> contains (doctype_string s) ''HTML 4'' \<and> \<not> contains (doctype_string s) ''XHTML''
            \<and> (contains (doctype_string s) ''HTML5'' \<or> doctype_string s = ''<!DOCTYPE html>'')
            \<longrightarrow> getHtmlVersion s = ''HTML5'')
       \<and> (\<not> contains (doctype_string s) ''HTML 4'' \<and> \<not> contains (doctype_string s) ''XHTML''
            \<and> \<not> contains (doctype_string s) ''HTML5'' \<and> doctype_string s \<noteq> ''<!DOCTYPE html>''
            \<longrightarrow> getHtmlVersion s = ''Unknown'')
       \<and> (contains (doctype_string s) ''HTML 4'' \<and> contains (doctype_string s) ''HTML5''
            \<longrightarrow> getHtmlVersion s = ''HTML4'')"
  by (simp add: getHtmlVersion_def Let_def js_includes_iff)

lemma doctype_string_page: "doctype_string (page u body doc) = or_empty (match_doctype body)"
  by (simp add: doctype_string_def page_def fetched_def)

theorem getHtmlVersion_precedence_witness:
  "getHtmlVersion (page ''https://a.com/'' ''<!DOCTYPE HTML 4.01 HTML5><html></html>'' []) = ''HTML4''
   \<and> getHtmlVersion (page ''https://a.com/'' ''<!DOCTYPE XHTML 1.0><html></html>'' []) = ''XHTML''
   \<and> getHtmlVersion (page ''https://a.com/'' ''<!DOCTYPE html><html></html>'' []) = ''HTML5''
   \<and> getHtmlVersion (page ''https://a.com/'' ''<html></html>'' []) = ''Unknown''"
proof -
  let ?a = "page ''https://a.com/'' ''<!DOCTYPE HTML 4.01 HTML5><html></html>'' []"
  let ?b = "page ''https://a.com/'' ''<!DOCTYPE XHTML 1.0><html></html>'' []"
  let ?c = "page ''https://a.com/'' ''<!DOCTYPE html><html></html>'' []"
  let ?d = "page ''https://a.com/'' ''<html></html>'' []"
  have a: "doctype_string ?a = ''<!DOCTYPE HTML 4.01 HTML5>''"
    by (simp add: doctype_string_page or_empty_def ascii_upper_def)
  have b: "doctype_string ?b = ''<!DOCTYPE XHTML 1.0>''"
    by (simp add: doctype_string_page or_empty_def ascii_upper_def)
  have c: "doctype_string ?c = ''<!DOCTYPE html>''"
    by (simp add: doctype_string_page or_empty_def ascii_upper_def)
  have d: "doctype_string ?d = []"
    by (simp add: doctype_string_page or_empty_def ascii_upper_def)
  have a4: "contains (doctype_string ?a) ''HTML 4''" and a5: "contains (doctype_string ?a) ''HTML5''"
    unfolding a js_includes_iff [symmetric] by (simp_all add: js_startsWith_def)
  have b4: "\<not> contains (doctype_string ?b) ''HTML 4''" and bx: "contains (doctype_string ?b) ''XHTML''"
    unfolding b js_includes_iff [symmetric] by (simp_all add: js_startsWith_def)
  have c4: "\<not> contains (doctype_string ?c) ''HTML 4''" and cx: "\<not> contains (doctype_string ?c) ''XHTML''"
    unfolding c js_includes_iff [symmetric] by (simp_all add: js_startsWith_def)
  have d4: "\<not> contains (doctype_string ?d) ''HTML 4''" and dx: "\<not> contains (doctype_string ?d) ''XHTML''"
    and d5: "\<not> contains (doctype_string ?d) ''HTML5''"
    unfolding d js_includes_iff [symmetric] by (simp_all add: js_startsWith_def)
  have d0: "doctype_string ?d \<noteq> ''<!DOCTYPE html>''"
    unfolding d by simp
  have ra: "getHtmlVersion ?a = ''HTML4''"
    using getHtmlVersion_precedence [of ?a] a4 a5 by simp
  have rb: "getHtmlVersion ?b = ''XHTML''"
    using getHtmlVersion_precedence [of ?b] b4 bx by simp
  have rc: "getHtmlVersion ?c = ''HTML5''"
    using getHtmlVersion_precedence [of ?c] c4 cx c by simp
  have rd: "getHtmlVersion ?d = ''Unknown''"
    using getHtmlVersion_precedence [of ?d] d4 dx d5 d0 by simp
  from ra rb rc rd show ?thesis by simp
qed

subsection \<open>The page-weight estimate\<close>

lemma foldl_add_const: "foldl (\<lambda>acc e. acc + (k::nat)) a xs = a + k * length xs"
  by (induction xs arbitrary: a) (simp_all add: algebra_simps)

lemma attr_equals_same: "attr_equals a v v"
  by (simp add: attr_equals_def)

lemma lower_case_letters:
  "char_of (97::nat) = CHR ''a''" "char_of (99::nat) = CHR ''c''" "char_of (100::nat) = CHR ''d''"
  "char_of (101::nat) = CHR ''e''" "char_of (104::nat) = CHR ''h''" "char_of (105::nat) = CHR ''i''"
  "char_of (106::nat) = CHR ''j''" "char_of (108::nat) = CHR ''l''" "char_of (109::nat) = CHR ''m''"
  "char_of (110::nat) = CHR ''n''" "char_of (111::nat) = CHR ''o''" "char_of (112::nat) = CHR ''p''"
  "char_of (115::nat) = CHR ''s''" "char_of (116::nat) = CHR ''t''" "char_of (121::nat) = CHR ''y''"
  by code_simp+

lemma rel_matches:
  "attr_equals ''rel'' ''Stylesheet'' ''stylesheet''"
  "attr_equals ''rel'' ''STYLESHEET'' ''stylesheet''"
  "\<not> attr_equals ''rel'' ''Canonical'' ''stylesheet''"
  "\<not> attr_equals ''rel'' ''SITEMAP'' ''stylesheet''"
  "attr_equals ''rel'' ''Canonical'' ''canonical''"
  "\<not> attr_equals ''rel'' ''Stylesheet'' ''canonical''"
  "\<not> attr_equals ''rel'' ''STYLESHEET'' ''canonical''"
  "\<not> attr_equals ''rel'' ''SITEMAP'' ''canonical''"
  "attr_equals ''rel'' ''SITEMAP'' ''sitemap''"
  "\<not> attr_equals ''rel'' ''Stylesheet'' ''sitemap''"
  "\<not> attr_equals ''rel'' ''STYLESHEET'' ''sitemap''"
  "\<not> attr_equals ''rel'' ''Canonical'' ''sitemap''"
  "attr_equals ''http-equiv'' ''content-type'' ''Content-Type''"
  by (simp_all add: attr_equals_def case_insensitive_attributes_def js_toLowerCase_def
      toLowerCase_unit_def lower_case_letters)

lemma variant_doc_selected:
  "query variant_doc [[Tag ''link'', AttrEq ''rel'' ''stylesheet'']] =
     [Element ''link'' [(''rel'', ''Stylesheet''), (''href'', ''a.css'')] [],
      Element ''link'' [(''rel'', ''STYLESHEET''), (''href'', ''b.css'')] []]"
  "query variant_doc [[Tag ''script'', HasAttr ''src'']] = [Element ''script'' [(''src'', ''s.js'')] []]"
  "query variant_doc [[Tag ''img'', HasAttr ''src'']] = []"
  "query variant_doc [[Tag ''link'', AttrEq ''rel'' ''canonical'']] =
     [Element ''link'' [(''rel'', ''Canonical''), (''href'', ''https://a.com/'')] []]"
  "query variant_doc [[Tag ''link'', AttrEq ''rel'' ''sitemap'']] =
     [Element ''link'' [(''rel'', ''SITEMAP''), (''href'', ''/s.xml'')] []]"
  "query variant_doc [[Tag ''meta'', HasAttr ''charset'']] = []"
  "query variant_doc [[Tag ''meta'', AttrEq ''http-equiv'' ''Content-Type'']] =
     [Element ''meta'' [(''http-equiv'', ''content-type''), (''content'', ''text/html'')] []]"
  by (simp_all add: variant_doc_def query_def matches_def rel_matches)

lemma weight_doc_selected:
  "query weight_doc [[Tag ''link'', AttrEq ''rel'' ''stylesheet'']] =
     [Element ''link'' [(''rel'', ''stylesheet''), (''href'', ''s.css'')] []]"
  "query weight_doc [[Tag ''script'', HasAttr ''src'']] = [Element ''script'' [(''src'', ''s.js'')] []]"
  "query weight_doc [[Tag ''img'', HasAttr ''src'']] = [Element ''img'' [(''src'', ''a.png'')] []]"
  "query weight_doc [[Tag ''img'']] =
     [Element ''img'' [(''src'', ''a.png'')] [], Element ''img'' [(''alt'', ''no source'')] []]"
  by (simp_all add: weight_doc_def query_def matches_def attr_equals_same)

text \<open>
  C1, as the code has it. For every fetched markup the external-resources estimate is
  the sum of three terms: 15000 for each \<open>link[rel="stylesheet"]\<close> (the selector engine
  compares the value of \<open>rel\<close> without regard to case), 50000 for each \<open>script[src]\<close>
  and 100000 for each \<open>img[src]\<close> (an \<open>img\<close> without a \<open>src\<close> attribute is not
  counted); \<open>html\<close> is the byte size of the markup in UTF-8, and \<open>totalEstimated\<close> is
  \<open>html\<close> plus the external-resources estimate.
\<close>

theorem estimatePageWeight_sum:
  "estimatePageWeight (fetched body doc s) =
     Inr \<lparr>weight_html = byteLength_utf8 body,
          estimatedExternalResources =
            length (query doc [[Tag ''link'', AttrEq ''rel'' ''stylesheet'']]) * 15000
            + length (query doc [[Tag ''script'', HasAttr ''src'']]) * 50000
            + length (query doc [[Tag ''img'', HasAttr ''src'']]) * 100000,
          totalEstimated =
            byteLength_utf8 body
            + (length (query doc [[Tag ''link'', AttrEq ''rel'' ''stylesheet'']]) * 15000
               + length (query doc [[Tag ''script'', HasAttr ''src'']]) * 50000
               + length (query doc [[Tag ''img'', HasAttr ''src'']]) * 100000)\<rparr>"
  by (simp add: estimatePageWeight_def fetched_def Let_def foldl_add_const)

text \<open>
  The formula of C1 fails on a page with one stylesheet, one external script and two
  \<open>img\<close> elements of which one has a \<open>src\<close>: the estimate is 165000, neither the
  product form \<open>1 * 15000 + (1 * 50000) * (2 * 100000)\<close> nor a sum over all \<open>img\<close>
  elements.
\<close>

theorem estimatePageWeight_counterexample:
  "length (query weight_doc [[Tag ''link'', AttrEq ''rel'' ''stylesheet'']]) = 1
   \<and> length (query weight_doc [[Tag ''script'', HasAttr ''src'']]) = 1
   \<and> length (query weight_doc [[Tag ''img'']]) = 2
   \<and> estimatePageWeight (page ''https://a.com/'' ''<html></html>'' weight_doc) =
       Inr \<lparr>weight_html = 13, estimatedExternalResources = 165000, totalEstimated = 165013\<rparr>
   \<and> (165000::nat) \<noteq> (1 * 15000) + (1 * 50000) * (2 * 100000)
   \<and> (165000::nat) \<noteq> (1 * 15000) + (1 * 50000) + (2 * 100000)"
  by (simp add: estimatePageWeight_def page_def fetched_def SEOScraper_def Let_def
      byteLength_utf8_def weight_doc_selected)

text \<open>
  On the page with two stylesheets whose \<open>rel\<close> is written \<open>Stylesheet\<close> and
  \<open>STYLESHEET\<close> and one external script, the estimate is 80000.
\<close>

lemma estimatePageWeight_case_variant:
  "estimatePageWeight (page u body variant_doc) =
     Inr \<lparr>weight_html = length body, estimatedExternalResources = 80000,
          totalEstimated = length body + 80000\<rparr>"
  by (simp add: estimatePageWeight_def page_def fetched_def SEOScraper_def Let_def
      byteLength_utf8_def variant_doc_selected)

subsection \<open>Images\<close>

lemma image_callback_skip: "\<not> truthy (cheerio_attr e ''src'') \<Longrightarrow> image_callback acc e = acc"
  by (simp add: image_callback_def)

lemma image_callback_record:
  "truthy (cheerio_attr e ''src'') \<Longrightarrow>
     image_callback acc e =
       \<lparr>withAlt = withAlt acc @ filter hasAlt [image_record e],
        withoutAlt = withoutAlt acc @ filter (\<lambda>i. \<not> hasAlt i) [image_record e],
        lazyLoaded = lazyLoaded acc @ filter isLazy [image_record e],
        counts = \<lparr>counts_total = counts_total (counts acc) + 1,
                  counts_withAlt = counts_withAlt (counts acc) + length (filter hasAlt [image_record e]),
                  counts_withoutAlt = counts_withoutAlt (counts acc)
                                      + length (filter (\<lambda>i. \<not> hasAlt i) [image_record e]),
                  counts_lazyLoaded = counts_lazyLoaded (counts acc)
                                      + length (filter isLazy [image_record e])\<rparr>\<rparr>"
  by (simp add: image_callback_def Let_def)

lemma foldl_image_callback:
  "foldl image_callback acc es =
     (let r = map image_record [e \<leftarrow> es. truthy (cheerio_attr e ''src'')]
      in \<lparr>withAlt = withAlt acc @ filter hasAlt r,
          withoutAlt = withoutAlt acc @ filter (\<lambda>i. \<not> hasAlt i) r,
          lazyLoaded = lazyLoaded acc @ filter isLazy r,
          counts = \<lparr>counts_total = counts_total (counts acc) + length r,
                    counts_withAlt = counts_withAlt (counts acc) + length (filter hasAlt r),
                    counts_withoutAlt = counts_withoutAlt (counts acc)
                                        + length (filter (\<lambda>i. \<not> hasAlt i) r),
                    counts_lazyLoaded = counts_lazyLoaded (counts acc)
                                        + length (filter isLazy r)\<rparr>\<rparr>)"
proof (induction es arbitrary: acc)
  case Nil
  show ?case by simp
next
  case (Cons e es)
  show ?case
  proof (cases "truthy (cheerio_attr e ''src'')")
    case True
    then show ?thesis
      by (simp add: Cons.IH image_callback_record Let_def)
  next
    case False
    then show ?thesis
      by (simp add: Cons.IH image_callback_skip Let_def)
  qed
qed

lemma collect_images_eq:
  "collect_images doc =
     \<lparr>withAlt = filter hasAlt (recorded_images doc),
      withoutAlt = filter (\<lambda>i. \<not> hasAlt i) (recorded_images doc),
      lazyLoaded = filter isLazy (recorded_images doc),
      counts = \<lparr>counts_total = length (recorded_images doc),
                counts_withAlt = length (filter hasAlt (recorded_images doc)),
                counts_withoutAlt = length (filter (\<lambda>i. \<not> hasAlt i) (recorded_images doc)),
                counts_lazyLoaded = length (filter isLazy (recorded_images doc))\<rparr>\<rparr>"
  by (simp add: collect_images_def foldl_image_callback recorded_images_def no_images_def Let_def)

text \<open>
  C8. After \<open>extractImages\<close>: an \<open>img\<close> element with no \<open>src\<close> attribute changes no
  bucket and no count; \<open>withAlt\<close> and \<open>withoutAlt\<close> are disjoint and together hold
  exactly the recorded images; and each of \<open>counts.total\<close>, \<open>counts.withAlt\<close>,
  \<open>counts.withoutAlt\<close> and \<open>counts.lazyLoaded\<close> is the size of its bucket, with
  \<open>counts.total = withAlt.length + withoutAlt.length\<close>.
\<close>

theorem extractImages_counts:
  fixes s :: "'j scraper"
  shows "extractImages (fetched body doc s) =
           Inr (set_seo IMAGES (Images (collect_images doc)) (fetched body doc s))
       \<and> (\<forall>acc e. cheerio_attr e ''src'' = None \<longrightarrow> image_callback acc e = acc)
       \<and> withAlt (collect_images doc) = filter hasAlt (recorded_images doc)
       \<and> withoutAlt (collect_images doc) = filter (\<lambda>i. \<not> hasAlt i) (recorded_images doc)
       \<and> lazyLoaded (collect_images doc) = filter isLazy (recorded_images doc)
       \<and> set (withAlt (collect_images doc)) \<inter> set (withoutAlt (collect_images doc)) = {}
       \<and> set (withAlt (collect_images doc)) \<union> set (withoutAlt (collect_images doc))
           = set (recorded_images doc)
       \<and> counts_total (counts (collect_images doc)) = length (recorded_images doc)
       \<and> counts_total (counts (collect_images doc))
           = length (withAlt (collect_images doc)) + length (withoutAlt (collect_images doc))
       \<and> counts_withAlt (counts (collect_images doc)) = length (withAlt (collect_images doc))
       \<and> counts_withoutAlt (counts (collect_images doc)) = length (withoutAlt (collect_images doc))
       \<and> counts_lazyLoaded (counts (collect_images doc)) = length (lazyLoaded (collect_images doc))"
proof -
  have 1: "extractImages (fetched body doc s) =
           Inr (set_seo IMAGES (Images (collect_images doc)) (fetched body doc s))"
    by (simp add: extractImages_def fetched_def)
  have 2: "\<forall>acc e. cheerio_attr e ''src'' = None \<longrightarrow> image_callback acc e = acc"
    by (simp add: image_callback_skip truthy_def)
  have 3: "length (recorded_images doc)
         = length (filter hasAlt (recorded_images doc))
           + length (filter (\<lambda>i. \<not> hasAlt i) (recorded_images doc))"
    by (simp add: sum_length_filter_compl)
  show ?thesis
    unfolding collect_images_eq using 1 2 3 by (auto simp: collect_images_eq)
qed

theorem extractImages_counts_witness:
  "cheerio_attr (Element ''img'' [(''alt'', ''no source'')] []) ''src'' = None
   \<and> image_callback no_images (Element ''img'' [(''alt'', ''no source'')] []) = no_images
   \<and> map img_src (withAlt (collect_images images_doc)) = [''a.png'']
   \<and> map img_src (withoutAlt (collect_images images_doc)) = [''b.png'']
   \<and> map img_src (lazyLoaded (collect_images images_doc)) = [''b.png'']
   \<and> counts (collect_images images_doc) =
       \<lparr>counts_total = 2, counts_withAlt = 1, counts_withoutAlt = 1, counts_lazyLoaded = 1\<rparr>"
proof -
  have h: "cheerio_attr (Element ''img'' [(''alt'', ''no source'')] []) ''src'' = None"
    by simp
  have r: "recorded_images images_doc =
             [image_record (Element ''img'' [(''src'', ''a.png''), (''alt'', ''A'')] []),
              image_record (Element ''img'' [(''src'', ''b.png''), (''loading'', ''lazy'')] [])]"
    by (simp add: recorded_images_def images_doc_def query_def matches_def truthy_def)
  have a: "hasAlt (image_record (Element ''img'' [(''src'', ''a.png''), (''alt'', ''A'')] []))"
    "\<not> isLazy (image_record (Element ''img'' [(''src'', ''a.png''), (''alt'', ''A'')] []))"
    "img_src (image_record (Element ''img'' [(''src'', ''a.png''), (''alt'', ''A'')] [])) = ''a.png''"
    by (simp_all add: image_record_def or_empty_def)
  have b: "\<not> hasAlt (image_record (Element ''img'' [(''src'', ''b.png''), (''loading'', ''lazy'')] []))"
    "isLazy (image_record (Element ''img'' [(''src'', ''b.png''), (''loading'', ''lazy'')] []))"
    "img_src (image_record (Element ''img'' [(''src'', ''b.png''), (''loading'', ''lazy'')] [])) = ''b.png''"
    by (simp_all add: image_record_def or_empty_def)
  obtain c where c: "counts (collect_images images_doc) = c" by simp
  from extractImages_counts [of "[]" images_doc "SEOScraper [] [] :: unit scraper"] h
  have "image_callback no_images (Element ''img'' [(''alt'', ''no source'')] []) = no_images"
    and "withAlt (collect_images images_doc) = filter hasAlt (recorded_images images_doc)"
    and "withoutAlt (collect_images images_doc) = filter (\<lambda>i. \<not> hasAlt i) (recorded_images images_doc)"
    and "lazyLoaded (collect_images images_doc) = filter isLazy (recorded_images images_doc)"
    and "counts_total c = length (recorded_images images_doc)"
    and "counts_withAlt c = length (withAlt (collect_images images_doc))"
    and "counts_withoutAlt c = length (withoutAlt (collect_images images_doc))"
    and "counts_lazyLoaded c = length (lazyLoaded (collect_images images_doc))"
    unfolding c by simp_all
  with h r a b c show ?thesis
    by (cases c) simp
qed

subsection \<open>Links\<close>

lemma link_callback_step:
  "link_callback hostname base b e =
     \<lparr>internal_links = internal_links b
        @ map link_record [x \<leftarrow> [e]. link_bucket hostname base (href_of x) = Some Internal],
      external_links = external_links b
        @ map link_record [x \<leftarrow> [e]. link_bucket hostname base (href_of x) = Some External],
      nofollow_links = nofollow_links b
        @ map link_record [x \<leftarrow> [e]. link_bucket hostname base (href_of x) \<noteq> None
                                    \<and> isNofollow (link_record x)],
      broken_links = broken_links b\<rparr>"
  by (cases "cheerio_attr e ''href''")
     (auto simp: link_callback_def link_bucket_def href_of_def starts_def js_startsWith_iff
        truthy_def or_empty_def Let_def split: option.splits)

lemma foldl_link_callback:
  "foldl (link_callback hostname base) b es =
     \<lparr>internal_links = internal_links b
        @ map link_record [x \<leftarrow> es. link_bucket hostname base (href_of x) = Some Internal],
      external_links = external_links b
        @ map link_record [x \<leftarrow> es. link_bucket hostname base (href_of x) = Some External],
      nofollow_links = nofollow_links b
        @ map link_record [x \<leftarrow> es. link_bucket hostname base (href_of x) \<noteq> None
                                    \<and> isNofollow (link_record x)],
      broken_links = broken_links b\<rparr>"
proof (induction es arbitrary: b)
  case Nil
  show ?case by simp
next
  case (Cons e es)
  show ?case
    unfolding foldl_Cons Cons.IH
    by (simp add: link_callback_step)
qed

lemma Set_values_foldl:
  "distinct acc \<Longrightarrow>
     distinct (foldl (\<lambda>acc x. if x \<in> set acc then acc else acc @ [x]) acc xs)
     \<and> set (foldl (\<lambda>acc x. if x \<in> set acc then acc else acc @ [x]) acc xs) = set acc \<union> set xs"
  by (induction xs arbitrary: acc) auto

lemma distinct_Set_values: "distinct (Set_values xs)"
  and set_Set_values: "set (Set_values xs) = set xs"
  using Set_values_foldl [of "[]" xs] by (simp_all add: Set_values_def)

lemma find_first_url:
  "u \<in> link_url ` set arr \<Longrightarrow>
     \<exists>l pre post. find (\<lambda>l. link_url l = u) arr = Some l \<and> link_url l = u
        \<and> arr = pre @ l # post \<and> (\<forall>x \<in> set pre. link_url x \<noteq> u)"
proof (induction arr)
  case Nil
  then show ?case by simp
next
  case (Cons a arr)
  show ?case
  proof (cases "link_url a = u")
    case True
    then have "find (\<lambda>l. link_url l = u) (a # arr) = Some a \<and> link_url a = u
        \<and> a # arr = [] @ a # arr \<and> (\<forall>x \<in> set []. link_url x \<noteq> u)"
      by simp
    then show ?thesis by blast
  next
    case False
    with Cons.prems have "u \<in> link_url ` set arr" by auto
    from Cons.IH [OF this] obtain l pre post where
      h: "find (\<lambda>l. link_url l = u) arr = Some l" "link_url l = u"
         "arr = pre @ l # post" "\<forall>x \<in> set pre. link_url x \<noteq> u"
      by blast
    from h False have "find (\<lambda>l. link_url l = u) (a # arr) = Some l \<and> link_url l = u
        \<and> a # arr = (a # pre) @ l # post \<and> (\<forall>x \<in> set (a # pre). link_url x \<noteq> u)"
      by simp
    then show ?thesis by blast
  qed
qed

lemma uniqueLinks_urls:
  "map (map_option link_url) (uniqueLinks arr) = map Some (Set_values (map link_url arr))"
proof -
  have "\<forall>u \<in> set (Set_values (map link_url arr)).
          map_option link_url (find (\<lambda>l. link_url l = u) arr) = Some u"
  proof
    fix u assume "u \<in> set (Set_values (map link_url arr))"
    then have "u \<in> link_url ` set arr" by (simp add: set_Set_values)
    from find_first_url [OF this] show "map_option link_url (find (\<lambda>l. link_url l = u) arr) = Some u"
      by auto
  qed
  then show ?thesis
    by (simp add: uniqueLinks_def comp_def)
qed

lemma uniqueLinks_first_per_url: "first_per_url arr (uniqueLinks arr)"
proof -
  have d: "distinct (map (map_option link_url) (uniqueLinks arr))"
    by (simp add: uniqueLinks_urls distinct_map distinct_Set_values)
  have f: "\<forall>e \<in> set (uniqueLinks arr). \<exists>l pre post.
            e = Some l \<and> arr = pre @ l # post \<and> (\<forall>x \<in> set pre. link_url x \<noteq> link_url l)"
  proof
    fix e assume "e \<in> set (uniqueLinks arr)"
    then obtain u where u: "u \<in> link_url ` set arr" and e: "e = find (\<lambda>l. link_url l = u) arr"
      by (auto simp: uniqueLinks_def set_Set_values)
    from find_first_url [OF u] e
    show "\<exists>l pre post. e = Some l \<and> arr = pre @ l # post \<and> (\<forall>x \<in> set pre. link_url x \<noteq> link_url l)"
      by auto
  qed
  have c: "\<forall>l \<in> set arr. \<exists>k. Some k \<in> set (uniqueLinks arr) \<and> link_url k = link_url l"
  proof
    fix l assume "l \<in> set arr"
    then have u: "link_url l \<in> link_url ` set arr" by simp
    from find_first_url [OF u] obtain k where
      k: "find (\<lambda>x. link_url x = link_url l) arr = Some k" "link_url k = link_url l"
      by blast
    from u have "find (\<lambda>x. link_url x = link_url l) arr \<in> set (uniqueLinks arr)"
      by (simp add: uniqueLinks_def set_Set_values)
    with k show "\<exists>k. Some k \<in> set (uniqueLinks arr) \<and> link_url k = link_url l"
      by auto
  qed
  from d f c show ?thesis unfolding first_per_url_def by blast
qed

lemma broken_links_callback: "broken_links (link_callback hostname base b e) = broken_links b"
  by (simp add: link_callback_def Let_def split: option.splits)

lemma starts_iff: "starts s p \<longleftrightarrow> js_startsWith s p"
  by (simp add: starts_def js_startsWith_iff)

lemma collect_links_eq:
  "collect_links hostname base doc =
     \<lparr>internal_links =
        map link_record [x \<leftarrow> query doc [[Tag ''a'', HasAttr ''href'']].
                           link_bucket hostname base (href_of x) = Some Internal],
      external_links =
        map link_record [x \<leftarrow> query doc [[Tag ''a'', HasAttr ''href'']].
                           link_bucket hostname base (href_of x) = Some External],
      nofollow_links =
        map link_record [x \<leftarrow> query doc [[Tag ''a'', HasAttr ''href'']].
                           link_bucket hostname base (href_of x) \<noteq> None \<and> isNofollow (link_record x)],
      broken_links = []\<rparr>"
  by (simp add: collect_links_def foldl_link_callback)

lemma isNofollow_iff:
  "isNofollow (link_record e) \<longleftrightarrow> contains (js_toLowerCase (or_empty (cheerio_attr e ''rel''))) ''nofollow''"
  by (simp add: link_record_def Let_def js_includes_iff)

lemma extractLinks_fetched:
  "extractLinks hostname (fetched body doc s) =
     Inr (set_seo LINKS (Links (deduplicated (collect_links hostname (url s) doc))) (fetched body doc s))"
  by (simp add: extractLinks_def fetched_def)

lemma link_bucket_cases:
  "href = [] \<or> starts href ''#'' \<or> starts href ''javascript:''
     \<Longrightarrow> link_bucket hostname base href = None"
  "href \<noteq> [] \<Longrightarrow> \<not> starts href ''#'' \<Longrightarrow> \<not> starts href ''javascript:''
     \<Longrightarrow> starts href ''http'' \<Longrightarrow> hostname href = Some h \<Longrightarrow> hostname base = Some h
     \<Longrightarrow> link_bucket hostname base href = Some Internal"
  "href \<noteq> [] \<Longrightarrow> \<not> starts href ''#'' \<Longrightarrow> \<not> starts href ''javascript:''
     \<Longrightarrow> starts href ''http'' \<Longrightarrow> hostname href \<noteq> hostname base
     \<Longrightarrow> link_bucket hostname base href = Some External"
  "href \<noteq> [] \<Longrightarrow> \<not> starts href ''#'' \<Longrightarrow> \<not> starts href ''javascript:''
     \<Longrightarrow> starts href ''http'' \<Longrightarrow> hostname href = None
     \<Longrightarrow> link_bucket hostname base href = Some External"
  "href \<noteq> [] \<Longrightarrow> \<not> starts href ''#'' \<Longrightarrow> \<not> starts href ''javascript:''
     \<Longrightarrow> \<not> starts href ''http''
     \<Longrightarrow> link_bucket hostname base href = Some Internal"
  by (simp_all add: link_bucket_def)

text \<open>
  C5, as the code has it. Of the anchors with an \<open>href\<close> attribute, in document order:
  one whose \<open>href\<close> is empty or starts with \<open>#\<close> or \<open>javascript:\<close> is skipped; one
  whose \<open>href\<close> starts with \<open>http\<close> goes into \<open>internal\<close> when it and the origin
  address both parse and have the same host name, and into \<open>external\<close> otherwise (a
  different host name, or an address that does not parse); every other \<open>href\<close> goes
  into \<open>internal\<close>. A link that is not skipped and whose \<open>rel\<close> contains \<open>nofollow\<close> in
  any case of its letters is also appended to \<open>nofollow\<close>. The stored buckets are these
  after \<open>uniqueLinks\<close>.
\<close>

theorem extractLinks_classification:
  fixes s :: "'j scraper"
  shows "internal_links (collect_links hostname base doc) =
           map link_record [e \<leftarrow> query doc [[Tag ''a'', HasAttr ''href'']].
                              link_bucket hostname base (href_of e) = Some Internal]
       \<and> external_links (collect_links hostname base doc) =
           map link_record [e \<leftarrow> query doc [[Tag ''a'', HasAttr ''href'']].
                              link_bucket hostname base (href_of e) = Some External]
       \<and> nofollow_links (collect_links hostname base doc) =
           map link_record [e \<leftarrow> query doc [[Tag ''a'', HasAttr ''href'']].
                              link_bucket hostname base (href_of e) \<noteq> None
                              \<and> contains (js_toLowerCase (or_empty (cheerio_attr e ''rel''))) ''nofollow'']
       \<and> link_url (link_record e) = href_of e
       \<and> extractLinks hostname (fetched body doc s) =
           Inr (set_seo LINKS (Links (deduplicated (collect_links hostname (url s) doc)))
                  (fetched body doc s))"
proof -
  have a: "internal_links (collect_links hostname base doc) =
           map link_record [e \<leftarrow> query doc [[Tag ''a'', HasAttr ''href'']].
                              link_bucket hostname base (href_of e) = Some Internal]"
    by (simp add: collect_links_eq)
  have b: "external_links (collect_links hostname base doc) =
           map link_record [e \<leftarrow> query doc [[Tag ''a'', HasAttr ''href'']].
                              link_bucket hostname base (href_of e) = Some External]"
    by (simp add: collect_links_eq)
  have c: "nofollow_links (collect_links hostname base doc) =
           map link_record [e \<leftarrow> query doc [[Tag ''a'', HasAttr ''href'']].
                              link_bucket hostname base (href_of e) \<noteq> None
                              \<and> contains (js_toLowerCase (or_empty (cheerio_attr e ''rel''))) ''nofollow'']"
    by (simp add: collect_links_eq isNofollow_iff)
  have u: "link_url (link_record e) = href_of e"
    by (simp add: link_record_def href_of_def Let_def)
  show ?thesis
    by (intro conjI a b c u extractLinks_fetched)
qed

text \<open>
  C5 as stated fails on two anchors of one page, whose origin is \<open>https://a.com/\<close>.
  The \<open>href\<close> of the first is empty: it starts with neither \<open>#\<close>, \<open>javascript:\<close>
  nor a scheme, so the claim files it as internal, and the code skips it. The \<open>href\<close>
  of the second is absolute with the host name \<open>b.org\<close>, so the claim files it as
  external, and the code, which tests for the prefix \<open>http\<close>, files it as internal.
\<close>

theorem extractLinks_odd_links_counterexample:
  "query odd_links_doc [[Tag ''a'', HasAttr ''href'']] =
     [Element ''a'' [(''href'', [])] [Text ''home''],
      Element ''a'' [(''href'', ''ftp://b.org/f'')] [Text ''file'']]
   \<and> \<not> js_startsWith [] ''#'' \<and> \<not> js_startsWith [] ''javascript:'' \<and> \<not> js_startsWith [] ''http''
   \<and> example_hostname ''ftp://b.org/f'' = Some ''b.org''
   \<and> example_hostname ''https://a.com/'' = Some ''a.com''
   \<and> collect_links example_hostname ''https://a.com/'' odd_links_doc =
       \<lparr>internal_links = [link_record (Element ''a'' [(''href'', ''ftp://b.org/f'')] [Text ''file''])],
        external_links = [], nofollow_links = [], broken_links = []\<rparr>"
proof -
  have q: "query odd_links_doc [[Tag ''a'', HasAttr ''href'']] =
     [Element ''a'' [(''href'', [])] [Text ''home''],
      Element ''a'' [(''href'', ''ftp://b.org/f'')] [Text ''file'']]"
    by (simp add: odd_links_doc_def query_def matches_def)
  have n: "\<not> isNofollow (link_record (Element ''a'' [(''href'', ''ftp://b.org/f'')] [Text ''file'']))"
    by (simp add: link_record_def Let_def or_empty_def js_toLowerCase_def js_startsWith_def)
  have c: "collect_links example_hostname ''https://a.com/'' odd_links_doc =
       \<lparr>internal_links = [link_record (Element ''a'' [(''href'', ''ftp://b.org/f'')] [Text ''file''])],
        external_links = [], nofollow_links = [], broken_links = []\<rparr>"
    by (simp add: collect_links_def q link_callback_def truthy_def or_empty_def js_startsWith_def n)
  have s: "\<not> js_startsWith [] ''#'' \<and> \<not> js_startsWith [] ''javascript:'' \<and> \<not> js_startsWith [] ''http''"
    by (simp add: js_startsWith_def)
  have h: "example_hostname ''ftp://b.org/f'' = Some ''b.org''"
    "example_hostname ''https://a.com/'' = Some ''a.com''"
    by (simp_all add: example_hostname_def)
  from q s h c show ?thesis by (intro conjI) simp_all
qed

text \<open>
  C6. After \<open>extractLinks\<close> each of the buckets \<open>internal\<close>, \<open>external\<close> and \<open>nofollow\<close>
  holds at most one record per \<open>url\<close> (compared as strings), and the record kept for a
  \<open>url\<close> is the first one collected into that bucket, in document order.
\<close>

theorem extractLinks_first_per_url:
  fixes s :: "'j scraper"
  shows "extractLinks hostname (fetched body doc s) =
           Inr (set_seo LINKS (Links (deduplicated (collect_links hostname (url s) doc)))
                  (fetched body doc s))
       \<and> first_per_url (internal_links b) (links_internal (deduplicated b))
       \<and> first_per_url (external_links b) (links_external (deduplicated b))
       \<and> first_per_url (nofollow_links b) (links_nofollow (deduplicated b))"
  by (simp add: extractLinks_fetched deduplicated_def uniqueLinks_first_per_url)

lemma links_doc_anchors:
  "query links_doc [[Tag ''a'', HasAttr ''href'']] =
     [Element ''a'' [(''href'', ''https://a.com/x'')] [Text ''first''],
      Element ''a'' [(''href'', ''https://a.com/x''), (''rel'', ''NoFollow'')] [Text ''second''],
      Element ''a'' [(''href'', ''https://b.org/'')] [Text ''other'']]"
  by (simp add: links_doc_def query_def matches_def)

lemma links_doc_internal:
  "internal_links (collect_links example_hostname ''https://a.com/'' links_doc) =
     [link_record (Element ''a'' [(''href'', ''https://a.com/x'')] [Text ''first'']),
      link_record (Element ''a'' [(''href'', ''https://a.com/x''), (''rel'', ''NoFollow'')] [Text ''second''])]"
  by (simp add: collect_links_eq links_doc_anchors link_bucket_def starts_iff js_startsWith_def
      href_of_def or_empty_def example_hostname_def)

theorem extractLinks_first_per_url_witness:
  "links_internal (deduplicated (collect_links example_hostname ''https://a.com/'' links_doc)) =
     [Some (link_record (Element ''a'' [(''href'', ''https://a.com/x'')] [Text ''first'']))]
   \<and> first_per_url
       [link_record (Element ''a'' [(''href'', ''https://a.com/x'')] [Text ''first'']),
        link_record (Element ''a'' [(''href'', ''https://a.com/x''), (''rel'', ''NoFollow'')] [Text ''second''])]
       [Some (link_record (Element ''a'' [(''href'', ''https://a.com/x'')] [Text ''first'']))]"
proof -
  let ?b = "collect_links example_hostname ''https://a.com/'' links_doc"
  have u: "link_url (link_record (Element ''a'' [(''href'', ''https://a.com/x'')] [Text ''first''])) = ''https://a.com/x''"
    "link_url (link_record (Element ''a'' [(''href'', ''https://a.com/x''), (''rel'', ''NoFollow'')] [Text ''second''])) = ''https://a.com/x''"
    by (simp_all add: link_record_def Let_def or_empty_def)
  have d: "links_internal (deduplicated ?b) =
     [Some (link_record (Element ''a'' [(''href'', ''https://a.com/x'')] [Text ''first'']))]"
    by (simp add: deduplicated_def links_doc_internal uniqueLinks_def Set_values_def u)
  from extractLinks_first_per_url [of example_hostname "[]" links_doc "SEOScraper [] [] :: unit scraper" ?b]
  have "first_per_url (internal_links ?b) (links_internal (deduplicated ?b))"
    by simp
  with d show ?thesis
    by (simp add: links_doc_internal)
qed

subsection \<open>The pipeline\<close>

lemma isolated_Inl:
  assumes "isolated k m" "m g s = (g', Inl e)"
  shows "m g (s\<lparr>metadata := md\<rparr>) = (g', Inl e)"
proof -
  note c = assms(1) [unfolded isolated_def, rule_format, of g s]
  with assms(2) show ?thesis by simp
qed

lemma isolated_Inr:
  assumes "isolated k m" "m g s = (g', Inr s')"
  shows "\<exists>p. s' = set_seo k p s
           \<and> (\<forall>md. m g (s\<lparr>metadata := md\<rparr>) = (g', Inr (set_seo k p (s\<lparr>metadata := md\<rparr>))))"
proof -
  note c = assms(1) [unfolded isolated_def, rule_format, of g s]
  with assms(2) obtain p where
    p: "\<forall>md. m g (s\<lparr>metadata := md\<rparr>) = (g', Inr (set_seo k p (s\<lparr>metadata := md\<rparr>)))"
    by auto
  from p have "m g (s\<lparr>metadata := metadata s\<rparr>) = (g', Inr (set_seo k p (s\<lparr>metadata := metadata s\<rparr>)))"
    by (rule allE)
  with assms(2) have "s' = set_seo k p s" by simp
  with p show ?thesis by blast
qed

lemma section_set_seo:
  "section_of (metadata (set_seo k p s)) k' = (if k' = k then Some p else section_of (metadata s) k')"
  by (simp add: section_of_def set_seo_def update_conv')

lemma set_seo_updated:
  "set_seo k p (s\<lparr>metadata := md\<rparr>) = s\<lparr>metadata := md\<lparr>seo := AList.update k p (seo md)\<rparr>\<rparr>"
  by (simp add: set_seo_def)

lemma outcomes_keys: "map fst (outcomes kms g s) = map fst kms"
  by (induction kms g s rule: outcomes.induct) simp_all

lemma outcomes_names: "map (\<lambda>x. fst (snd x)) (outcomes kms g s) = map (\<lambda>x. fst (snd x)) kms"
  by (induction kms g s rule: outcomes.induct) simp_all

text \<open>
  The loop on isolated steps with distinct categories, started on the scraper \<open>s\<close> with
  any report \<open>md\<close> in place of its own: it ends on \<open>s\<close> with a report that has, under each
  category, what the outcome of the step on \<open>s\<close> says.
\<close>

lemma run_steps_outcomes:
  assumes "\<forall>st \<in> set kms. isolated (fst st) (snd (snd st))" "distinct (map fst kms)"
  shows "\<exists>g' md'. run_steps (map snd kms) (g, s\<lparr>metadata := md\<rparr>, out)
                     = (g', s\<lparr>metadata := md'\<rparr>, out @ map outcome_line (outcomes kms g s))
          \<and> md_url md' = md_url md \<and> timestamp md' = timestamp md
          \<and> (\<forall>x \<in> set (outcomes kms g s).
                section_of md' (fst x) =
                  (case snd (snd x) of
                     Inl e \<Rightarrow> section_of md (fst x)
                   | Inr s' \<Rightarrow> section_of (metadata s') (fst x)))
          \<and> (\<forall>k. k \<notin> fst ` set kms \<longrightarrow> section_of md' k = section_of md k)
          \<and> ((\<forall>x \<in> set (outcomes kms g s). isl (snd (snd x))) \<longrightarrow> md' = md)"
  using assms
proof (induction kms arbitrary: g md out)
  case Nil
  show ?case by simp
next
  case (Cons st kms)
  obtain k n m where st: "st = (k, n, m)" by (cases st) auto
  from Cons.prems st have iso: "isolated k m"
    and isos: "\<forall>st \<in> set kms. isolated (fst st) (snd (snd st))"
    and dist: "distinct (map fst kms)" and fresh: "k \<notin> fst ` set kms"
    by auto
  obtain g1 r where m: "m g s = (g1, r)" by (cases "m g s") auto
  have keys: "fst ` set (outcomes kms g1 s) = fst ` set kms"
    using outcomes_keys [of kms g1 s] by (metis set_map)
  show ?case
  proof (cases r)
    case (Inl e)
    with m have ms: "m g s = (g1, Inl e)" by simp
    from isolated_Inl [OF iso ms] have run: "m g (s\<lparr>metadata := md\<rparr>) = (g1, Inl e)" .
    from Cons.IH [OF isos dist, of g1 md "out @ [StepWarning n e]"] obtain g' md' where
      ih: "run_steps (map snd kms) (g1, s\<lparr>metadata := md\<rparr>, out @ [StepWarning n e])
             = (g', s\<lparr>metadata := md'\<rparr>, (out @ [StepWarning n e]) @ map outcome_line (outcomes kms g1 s))"
        "md_url md' = md_url md" "timestamp md' = timestamp md"
        "\<forall>x \<in> set (outcomes kms g1 s).
                section_of md' (fst x) =
                  (case snd (snd x) of
                     Inl e \<Rightarrow> section_of md (fst x)
                   | Inr s' \<Rightarrow> section_of (metadata s') (fst x))"
        "\<forall>k. k \<notin> fst ` set kms \<longrightarrow> section_of md' k = section_of md k"
        "(\<forall>x \<in> set (outcomes kms g1 s). isl (snd (snd x))) \<longrightarrow> md' = md"
      by blast
    have o: "outcomes (st # kms) g s = (k, n, Inl e) # outcomes kms g1 s"
      using st ms by simp
    have a: "run_steps (map snd (st # kms)) (g, s\<lparr>metadata := md\<rparr>, out)
               = (g', s\<lparr>metadata := md'\<rparr>, out @ map outcome_line (outcomes (st # kms) g s))"
      using ih(1) run st o by simp
    have b: "\<forall>x \<in> set (outcomes (st # kms) g s).
                section_of md' (fst x) =
                  (case snd (snd x) of
                     Inl e \<Rightarrow> section_of md (fst x)
                   | Inr s' \<Rightarrow> section_of (metadata s') (fst x))"
      unfolding o using ih(4) ih(5) fresh by simp
    have c: "\<forall>k'. k' \<notin> fst ` set (st # kms) \<longrightarrow> section_of md' k' = section_of md k'"
      using ih(5) by simp
    have d: "(\<forall>x \<in> set (outcomes (st # kms) g s). isl (snd (snd x))) \<longrightarrow> md' = md"
      unfolding o using ih(6) by simp
    from a b c d ih(2,3) show ?thesis by blast
  next
    case (Inr s1)
    with m have ms: "m g s = (g1, Inr s1)" by simp
    from isolated_Inr [OF iso ms] obtain p where
      p: "s1 = set_seo k p s"
         "\<forall>md. m g (s\<lparr>metadata := md\<rparr>) = (g1, Inr (set_seo k p (s\<lparr>metadata := md\<rparr>)))"
      by blast
    define md1 where "md1 = md\<lparr>seo := AList.update k p (seo md)\<rparr>"
    have run: "m g (s\<lparr>metadata := md\<rparr>) = (g1, Inr (s\<lparr>metadata := md1\<rparr>))"
      using p(2) by (simp add: set_seo_updated md1_def)
    have md1: "section_of md1 k' = (if k' = k then Some p else section_of md k')" for k'
      by (simp add: md1_def section_of_def update_conv')
    from Cons.IH [OF isos dist, of g1 md1 "out @ [StepDone n]"] obtain g' md' where
      ih: "run_steps (map snd kms) (g1, s\<lparr>metadata := md1\<rparr>, out @ [StepDone n])
             = (g', s\<lparr>metadata := md'\<rparr>, (out @ [StepDone n]) @ map outcome_line (outcomes kms g1 s))"
        "md_url md' = md_url md1" "timestamp md' = timestamp md1"
        "\<forall>x \<in> set (outcomes kms g1 s).
                section_of md' (fst x) =
                  (case snd (snd x) of
                     Inl e \<Rightarrow> section_of md1 (fst x)
                   | Inr s' \<Rightarrow> section_of (metadata s') (fst x))"
        "\<forall>k. k \<notin> fst ` set kms \<longrightarrow> section_of md' k = section_of md1 k"
      by blast
    have o: "outcomes (st # kms) g s = (k, n, Inr s1) # outcomes kms g1 s"
      using st ms by simp
    have a: "run_steps (map snd (st # kms)) (g, s\<lparr>metadata := md\<rparr>, out)
               = (g', s\<lparr>metadata := md'\<rparr>, out @ map outcome_line (outcomes (st # kms) g s))"
      using ih(1) run st o by simp
    have u: "md_url md' = md_url md" "timestamp md' = timestamp md"
      using ih(2,3) by (simp_all add: md1_def)
    have h: "section_of md' k = section_of (metadata s1) k"
      using ih(5) fresh md1 p(1) by (simp add: section_set_seo)
    have t: "section_of md' (fst x) =
                  (case snd (snd x) of
                     Inl e \<Rightarrow> section_of md (fst x)
                   | Inr s' \<Rightarrow> section_of (metadata s') (fst x))"
      if x: "x \<in> set (outcomes kms g1 s)" for x
    proof -
      from x keys have "fst x \<in> fst ` set kms" by blast
      with fresh have "fst x \<noteq> k" by auto
      then have "section_of md1 (fst x) = section_of md (fst x)" by (simp add: md1)
      with ih(4) x show ?thesis by (simp split: sum.splits)
    qed
    have b: "\<forall>x \<in> set (outcomes (st # kms) g s).
                section_of md' (fst x) =
                  (case snd (snd x) of
                     Inl e \<Rightarrow> section_of md (fst x)
                   | Inr s' \<Rightarrow> section_of (metadata s') (fst x))"
      unfolding o using h t by simp
    have c: "\<forall>k'. k' \<notin> fst ` set (st # kms) \<longrightarrow> section_of md' k' = section_of md k'"
      using ih(5) st by (simp add: md1)
    have d: "(\<forall>x \<in> set (outcomes (st # kms) g s). isl (snd (snd x))) \<longrightarrow> md' = md"
      unfolding o by simp
    from a b c d u show ?thesis by blast
  qed
qed

lemma isolatedI:
  assumes "\<And>g s md. m g (s\<lparr>metadata := md\<rparr>) =
             (case m g s of
                (g', Inl e) \<Rightarrow> (g', Inl e)
              | (g', Inr s') \<Rightarrow>
                  (g', Inr (set_seo k (the (section_of (metadata s') k)) (s\<lparr>metadata := md\<rparr>))))"
  shows "isolated k m"
  unfolding isolated_def
proof (intro allI)
  fix g s
  obtain g' r where m: "m g s = (g', r)" by (cases "m g s") auto
  show "case m g s of
          (g', Inl e) \<Rightarrow> \<forall>md. m g (s\<lparr>metadata := md\<rparr>) = (g', Inl e)
        | (g', Inr s') \<Rightarrow>
            \<exists>p. \<forall>md. m g (s\<lparr>metadata := md\<rparr>) = (g', Inr (set_seo k p (s\<lparr>metadata := md\<rparr>)))"
  proof (cases r)
    case (Inl e)
    with m show ?thesis using assms [where g = g and s = s] by simp
  next
    case (Inr s')
    with m have "\<forall>md. m g (s\<lparr>metadata := md\<rparr>) =
        (g', Inr (set_seo k (the (section_of (metadata s') k)) (s\<lparr>metadata := md\<rparr>)))"
      using assms [where g = g and s = s] by simp
    with m Inr show ?thesis by auto
  qed
qed

lemma isolated_calling:
  assumes "\<And>s md. m (s\<lparr>metadata := md\<rparr>) =
             (case m s of
                Inl e \<Rightarrow> Inl e
              | Inr s' \<Rightarrow> Inr (set_seo k (the (section_of (metadata s') k)) (s\<lparr>metadata := md\<rparr>)))"
  shows "isolated k (calling m)"
  by (rule isolatedI) (simp add: calling_def assms split: sum.splits)

lemma isolated_basic: "isolated BASIC (calling extractBasicMetadata)"
  by (rule isolated_calling) (simp add: extractBasicMetadata_def section_set_seo split: option.splits)

lemma isolated_og: "isolated OPEN_GRAPH extractOpenGraphMetadata"
  by (rule isolatedI)
     (simp add: extractOpenGraphMetadata_def section_set_seo split: option.splits prod.splits sum.splits)

lemma isolated_twitter: "isolated TWITTER (calling extractTwitterMetadata)"
  by (rule isolated_calling)
     (simp add: extractTwitterMetadata_def section_set_seo split: option.splits sum.splits)

lemma isolated_schema: "isolated SCHEMA (calling_in (extractSchemaMetadata JSON_parse))"
  by (rule isolatedI)
     (simp add: calling_in_def extractSchemaMetadata_def section_set_seo Let_def
        split: option.splits sum.splits)

lemma isolated_technical: "isolated TECHNICAL (calling extractTechnicalMetadata)"
  by (rule isolated_calling)
     (simp add: extractTechnicalMetadata_def getHtmlVersion_def doctype_string_def section_set_seo
        Let_def split: option.splits)

lemma isolated_links: "isolated LINKS (calling (extractLinks hostname))"
  by (rule isolated_calling) (simp add: extractLinks_def section_set_seo split: option.splits)

lemma isolated_headings: "isolated HEADINGS (calling extractHeadings)"
  by (rule isolated_calling) (simp add: extractHeadings_def section_set_seo split: option.splits)

lemma isolated_images: "isolated IMAGES (calling extractImages)"
  by (rule isolated_calling) (simp add: extractImages_def section_set_seo split: option.splits)

lemma isolated_performance: "isolated PERFORMANCE (calling extractPerformanceMetrics)"
  by (rule isolated_calling)
     (simp add: extractPerformanceMetrics_def estimatePageWeight_def section_set_seo Let_def
        split: option.splits)

lemma pipeline_eq:
  "pipeline JSON_parse hostname =
     [(BASIC, ''Basic Metadata'', calling extractBasicMetadata),
      (OPEN_GRAPH, ''Open Graph Tags'', extractOpenGraphMetadata),
      (TWITTER, ''Twitter Cards'', calling extractTwitterMetadata),
      (SCHEMA, ''Schema Markup'', calling_in (extractSchemaMetadata JSON_parse)),
      (TECHNICAL, ''Technical SEO'', calling extractTechnicalMetadata),
      (LINKS, ''Links Analysis'', calling (extractLinks hostname)),
      (HEADINGS, ''Headings Structure'', calling extractHeadings),
      (IMAGES, ''Images Analysis'', calling extractImages),
      (PERFORMANCE, ''Performance Metrics'', calling extractPerformanceMetrics)]"
  by (simp add: pipeline_def SEO_CATEGORIES_def steps_def)

lemma pipeline_steps: "map snd (pipeline JSON_parse hostname) = steps JSON_parse hostname"
  by (simp add: pipeline_eq steps_def)

lemma pipeline_keys: "map fst (pipeline JSON_parse hostname) = SEO_CATEGORIES"
  by (simp add: pipeline_eq SEO_CATEGORIES_def)

lemma pipeline_names:
  "map (\<lambda>x. fst (snd x)) (pipeline JSON_parse hostname) = map fst (steps JSON_parse hostname)"
  by (simp add: pipeline_eq steps_def)

lemma distinct_SEO_CATEGORIES: "distinct SEO_CATEGORIES"
  by (simp add: SEO_CATEGORIES_def BASIC_def OPEN_GRAPH_def TWITTER_def SCHEMA_def TECHNICAL_def
      LINKS_def HEADINGS_def IMAGES_def PERFORMANCE_def)

lemma pipeline_isolated:
  "\<forall>st \<in> set (pipeline JSON_parse hostname). isolated (fst st) (snd (snd st))"
  by (simp add: pipeline_eq isolated_basic isolated_og isolated_twitter isolated_schema
      isolated_technical isolated_links isolated_headings isolated_images isolated_performance)

text \<open>
  The outcomes of the nine steps: the Open Graph extractor runs in the state in which
  \<open>analyze\<close> finds the built-in objects, the extractor of schema markup in the state in
  which the Open Graph extractor leaves them.
\<close>

lemma outcomes_pipeline:
  "outcomes (pipeline JSON_parse hostname) g s =
     [(BASIC, ''Basic Metadata'', extractBasicMetadata s),
      (OPEN_GRAPH, ''Open Graph Tags'', snd (extractOpenGraphMetadata g s)),
      (TWITTER, ''Twitter Cards'', extractTwitterMetadata s),
      (SCHEMA, ''Schema Markup'',
         extractSchemaMetadata JSON_parse (fst (extractOpenGraphMetadata g s)) s),
      (TECHNICAL, ''Technical SEO'', extractTechnicalMetadata s),
      (LINKS, ''Links Analysis'', extractLinks hostname s),
      (HEADINGS, ''Headings Structure'', extractHeadings s),
      (IMAGES, ''Images Analysis'', extractImages s),
      (PERFORMANCE, ''Performance Metrics'', extractPerformanceMetrics s)]"
  by (simp add: pipeline_eq calling_def calling_in_def)

lemma analyze_facts:
  "(\<forall>x \<in> set (outcomes (pipeline JSON_parse hostname) g s).
      section_of (report JSON_parse hostname g s) (fst x) =
        (case snd (snd x) of
           Inl e \<Rightarrow> section_of (metadata s) (fst x)
         | Inr s' \<Rightarrow> section_of (metadata s') (fst x)))
   \<and> (\<forall>k. k \<notin> set SEO_CATEGORIES \<longrightarrow>
         section_of (report JSON_parse hostname g s) k = section_of (metadata s) k)
   \<and> ((\<forall>x \<in> set (outcomes (pipeline JSON_parse hostname) g s). isl (snd (snd x)))
         \<longrightarrow> report JSON_parse hostname g s = metadata s)
   \<and> console JSON_parse hostname g s =
       [Analyzing] @ map outcome_line (outcomes (pipeline JSON_parse hostname) g s)
       @ [AnalysisComplete]
   \<and> url (fst (snd (analyze JSON_parse hostname g s))) = url s
   \<and> html (fst (snd (analyze JSON_parse hostname g s))) = html s
   \<and> dollar (fst (snd (analyze JSON_parse hostname g s))) = dollar s
   \<and> md_url (report JSON_parse hostname g s) = md_url (metadata s)
   \<and> timestamp (report JSON_parse hostname g s) = timestamp (metadata s)"
proof -
  have d: "distinct (map fst (pipeline JSON_parse hostname))"
    by (simp add: pipeline_keys distinct_SEO_CATEGORIES)
  have k: "fst ` set (pipeline JSON_parse hostname) = set SEO_CATEGORIES"
    by (simp flip: set_map add: pipeline_keys)
  from run_steps_outcomes [OF pipeline_isolated d,
      where g = g and s = s and md = "metadata s" and out = "[Analyzing]"]
  obtain g' md' where md:
    "run_steps (steps JSON_parse hostname) (g, s, [Analyzing])
       = (g', s\<lparr>metadata := md'\<rparr>,
          [Analyzing] @ map outcome_line (outcomes (pipeline JSON_parse hostname) g s))"
    "md_url md' = md_url (metadata s)" "timestamp md' = timestamp (metadata s)"
    "\<forall>x \<in> set (outcomes (pipeline JSON_parse hostname) g s).
        section_of md' (fst x) =
          (case snd (snd x) of
             Inl e \<Rightarrow> section_of (metadata s) (fst x)
           | Inr s' \<Rightarrow> section_of (metadata s') (fst x))"
    "\<forall>k. k \<notin> set SEO_CATEGORIES \<longrightarrow> section_of md' k = section_of (metadata s) k"
    "(\<forall>x \<in> set (outcomes (pipeline JSON_parse hostname) g s). isl (snd (snd x)))
       \<longrightarrow> md' = metadata s"
    unfolding pipeline_steps k by auto
  have a: "analyze JSON_parse hostname g s =
             (g', s\<lparr>metadata := md'\<rparr>,
              [Analyzing] @ map outcome_line (outcomes (pipeline JSON_parse hostname) g s)
              @ [AnalysisComplete])"
    by (simp add: analyze_def md(1))
  have r: "report JSON_parse hostname g s = md'"
    by (simp add: report_def a)
  show ?thesis
    unfolding r using md(2-6) by (simp add: console_def a)
qed

lemma report_sections:
  "section_of (report JSON_parse hostname g s) BASIC =
     (case extractBasicMetadata s of
        Inl e \<Rightarrow> section_of (metadata s) BASIC | Inr s' \<Rightarrow> section_of (metadata s') BASIC)"
  "section_of (report JSON_parse hostname g s) OPEN_GRAPH =
     (case snd (extractOpenGraphMetadata g s) of
        Inl e \<Rightarrow> section_of (metadata s) OPEN_GRAPH | Inr s' \<Rightarrow> section_of (metadata s') OPEN_GRAPH)"
  "section_of (report JSON_parse hostname g s) TWITTER =
     (case extractTwitterMetadata s of
        Inl e \<Rightarrow> section_of (metadata s) TWITTER | Inr s' \<Rightarrow> section_of (metadata s') TWITTER)"
  "section_of (report JSON_parse hostname g s) SCHEMA =
     (case extractSchemaMetadata JSON_parse (fst (extractOpenGraphMetadata g s)) s of
        Inl e \<Rightarrow> section_of (metadata s) SCHEMA | Inr s' \<Rightarrow> section_of (metadata s') SCHEMA)"
  "section_of (report JSON_parse hostname g s) TECHNICAL =
     (case extractTechnicalMetadata s of
        Inl e \<Rightarrow> section_of (metadata s) TECHNICAL | Inr s' \<Rightarrow> section_of (metadata s') TECHNICAL)"
  "section_of (report JSON_parse hostname g s) LINKS =
     (case extractLinks hostname s of
        Inl e \<Rightarrow> section_of (metadata s) LINKS | Inr s' \<Rightarrow> section_of (metadata s') LINKS)"
  "section_of (report JSON_parse hostname g s) HEADINGS =
     (case extractHeadings s of
        Inl e \<Rightarrow> section_of (metadata s) HEADINGS | Inr s' \<Rightarrow> section_of (metadata s') HEADINGS)"
  "section_of (report JSON_parse hostname g s) IMAGES =
     (case extractImages s of
        Inl e \<Rightarrow> section_of (metadata s) IMAGES | Inr s' \<Rightarrow> section_of (metadata s') IMAGES)"
  "section_of (report JSON_parse hostname g s) PERFORMANCE =
     (case extractPerformanceMetrics s of
        Inl e \<Rightarrow> section_of (metadata s) PERFORMANCE | Inr s' \<Rightarrow> section_of (metadata s') PERFORMANCE)"
proof -
  have "\<forall>x \<in> set (outcomes (pipeline JSON_parse hostname) g s).
      section_of (report JSON_parse hostname g s) (fst x) =
        (case snd (snd x) of
           Inl e \<Rightarrow> section_of (metadata s) (fst x)
         | Inr s' \<Rightarrow> section_of (metadata s') (fst x))"
    using analyze_facts [of JSON_parse hostname g s] by (rule conjunct1)
  then have all: "list_all (\<lambda>x. section_of (report JSON_parse hostname g s) (fst x) =
        (case snd (snd x) of
           Inl e \<Rightarrow> section_of (metadata s) (fst x)
         | Inr s' \<Rightarrow> section_of (metadata s') (fst x)))
      (outcomes (pipeline JSON_parse hostname) g s)"
    by (simp add: list_all_iff)
  from all show "section_of (report JSON_parse hostname g s) BASIC =
     (case extractBasicMetadata s of
        Inl e \<Rightarrow> section_of (metadata s) BASIC | Inr s' \<Rightarrow> section_of (metadata s') BASIC)"
    unfolding outcomes_pipeline by (simp cong: sum.case_cong)
  from all show "section_of (report JSON_parse hostname g s) OPEN_GRAPH =
     (case snd (extractOpenGraphMetadata g s) of
        Inl e \<Rightarrow> section_of (metadata s) OPEN_GRAPH | Inr s' \<Rightarrow> section_of (metadata s') OPEN_GRAPH)"
    unfolding outcomes_pipeline by (simp cong: sum.case_cong)
  from all show "section_of (report JSON_parse hostname g s) TWITTER =
     (case extractTwitterMetadata s of
        Inl e \<Rightarrow> section_of (metadata s) TWITTER | Inr s' \<Rightarrow> section_of (metadata s') TWITTER)"
    unfolding outcomes_pipeline by (simp cong: sum.case_cong)
  from all show "section_of (report JSON_parse hostname g s) SCHEMA =
     (case extractSchemaMetadata JSON_parse (fst (extractOpenGraphMetadata g s)) s of
        Inl e \<Rightarrow> section_of (metadata s) SCHEMA | Inr s' \<Rightarrow> section_of (metadata s') SCHEMA)"
    unfolding outcomes_pipeline by (simp cong: sum.case_cong)
  from all show "section_of (report JSON_parse hostname g s) TECHNICAL =
     (case extractTechnicalMetadata s of
        Inl e \<Rightarrow> section_of (metadata s) TECHNICAL | Inr s' \<Rightarrow> section_of (metadata s') TECHNICAL)"
    unfolding outcomes_pipeline by (simp cong: sum.case_cong)
  from all show "section_of (report JSON_parse hostname g s) LINKS =
     (case extractLinks hostname s of
        Inl e \<Rightarrow> section_of (metadata s) LINKS | Inr s' \<Rightarrow> section_of (metadata s') LINKS)"
    unfolding outcomes_pipeline by (simp cong: sum.case_cong)
  from all show "section_of (report JSON_parse hostname g s) HEADINGS =
     (case extractHeadings s of
        Inl e \<Rightarrow> section_of (metadata s) HEADINGS | Inr s' \<Rightarrow> section_of (metadata s') HEADINGS)"
    unfolding outcomes_pipeline by (simp cong: sum.case_cong)
  from all show "section_of (report JSON_parse hostname g s) IMAGES =
     (case extractImages s of
        Inl e \<Rightarrow> section_of (metadata s) IMAGES | Inr s' \<Rightarrow> section_of (metadata s') IMAGES)"
    unfolding outcomes_pipeline by (simp cong: sum.case_cong)
  from all show "section_of (report JSON_parse hostname g s) PERFORMANCE =
     (case extractPerformanceMetrics s of
        Inl e \<Rightarrow> section_of (metadata s) PERFORMANCE | Inr s' \<Rightarrow> section_of (metadata s') PERFORMANCE)"
    unfolding outcomes_pipeline by (simp cong: sum.case_cong)
qed

lemma report_other:
  "k \<notin> set SEO_CATEGORIES \<Longrightarrow>
     section_of (report JSON_parse hostname g s) k = section_of (metadata s) k"
  using analyze_facts [of JSON_parse hostname g s] by blast

text \<open>
  C10. For every fetched document, in every state of the built-in objects, the links
  section of the report has the key \<open>broken\<close> besides \<open>internal\<close>, \<open>external\<close> and
  \<open>nofollow\<close>, and its value is the empty array: the callback never appends to it, and
  it is stored as collected, without \<open>uniqueLinks\<close>.
\<close>

theorem links_broken_empty:
  fixes s :: "'j scraper"
  shows "section_of (report JSON_parse hostname g (fetched body doc s)) LINKS =
           Some (Links (deduplicated (collect_links hostname (url s) doc)))
       \<and> links_broken (deduplicated (collect_links hostname (url s) doc)) = []
       \<and> broken_links (link_callback hostname base b e) = broken_links b
       \<and> links_broken (deduplicated b) = broken_links b"
proof -
  have 1: "section_of (report JSON_parse hostname g (fetched body doc s)) LINKS =
           Some (Links (deduplicated (collect_links hostname (url s) doc)))"
    by (simp add: report_sections(6) extractLinks_fetched section_set_seo)
  have 2: "links_broken (deduplicated (collect_links hostname (url s) doc)) = []"
    by (simp add: deduplicated_def collect_links_eq)
  have 3: "links_broken (deduplicated b) = broken_links b"
    by (simp add: deduplicated_def)
  show ?thesis
    by (intro conjI 1 2 3 broken_links_callback)
qed

subsection \<open>Open Graph: a flat property followed by a nested one\<close>

lemma exact_attributes:
  "''property'' \<notin> set case_insensitive_attributes"
  "''name'' \<notin> set case_insensitive_attributes"
  by (simp_all add: case_insensitive_attributes_def)

lemma attr_starts_exact:
  "a \<notin> set case_insensitive_attributes \<Longrightarrow> attr_starts a x p = (p \<noteq> [] \<and> js_startsWith x p)"
  by (simp add: attr_starts_def)

lemma og_doc_metas:
  "query og_doc [[Tag ''meta'', AttrPrefix ''property'' ''og:'']] =
     [Element ''meta'' [(''property'', ''og:image''), (''content'', ''a.png'')] [],
      Element ''meta'' [(''property'', ''og:image:width''), (''content'', ''100'')] []]"
  by (simp add: og_doc_def query_def matches_def attr_starts_exact exact_attributes js_startsWith_def)

lemma og_callback_flat:
  "og_callback g (Element ''meta'' [(''property'', ''og:image''), (''content'', ''a.png'')] []) [] =
     (g, Inr [(''image'', OgString ''a.png'')])"
  by (simp add: og_callback_def js_startsWith_def truthy_def or_empty_def js_set_def)

lemma og_callback_nested:
  "og_callback g (Element ''meta'' [(''property'', ''og:image:width''), (''content'', ''100'')] [])
     [(''image'', OgString ''a.png'')] =
     (g, Inl (TypeError ''Cannot create property width on string a.png''))"
  by (simp add: og_callback_def js_startsWith_def truthy_def or_empty_def og_nested_def
      js_get_def og_truthy_def property_truthy_def)

lemma og_page_throws:
  "extractOpenGraphMetadata g og_page =
     (g, Inl (TypeError ''Cannot create property width on string a.png''))"
  by (simp add: extractOpenGraphMetadata_def og_page_def page_def fetched_def og_doc_metas
      og_callback_flat og_callback_nested)

text \<open>
  C2 on the page with \<open>og:image\<close> followed by \<open>og:image:width\<close>, in every state of the
  built-in objects: the first tag stores the string \<open>a.png\<close> under \<open>image\<close>; at the
  second tag \<open>ogTags.image\<close> is that string, the assignment of its property \<open>width\<close>
  throws, and the extractor ends with the \<open>TypeError\<close> instead of storing a nested
  mapping under \<open>image\<close>.
\<close>

theorem extractOpenGraphMetadata_flat_then_nested:
  "query og_doc [[Tag ''meta'', AttrPrefix ''property'' ''og:'']] =
     [Element ''meta'' [(''property'', ''og:image''), (''content'', ''a.png'')] [],
      Element ''meta'' [(''property'', ''og:image:width''), (''content'', ''100'')] []]
   \<and> og_callback g (Element ''meta'' [(''property'', ''og:image''), (''content'', ''a.png'')] []) [] =
       (g, Inr [(''image'', OgString ''a.png'')])
   \<and> og_callback g (Element ''meta'' [(''property'', ''og:image:width''), (''content'', ''100'')] [])
         [(''image'', OgString ''a.png'')] =
       (g, Inl (TypeError ''Cannot create property width on string a.png''))
   \<and> extractOpenGraphMetadata g og_page =
       (g, Inl (TypeError ''Cannot create property width on string a.png''))"
  by (intro conjI og_doc_metas og_callback_flat og_callback_nested og_page_throws)

text \<open>
  Other nested properties, on a process whose built-in objects are as the platform
  provides them. Under the parent \<open>__proto__\<close> the content is assigned on
  \<open>Object.prototype\<close>, where a later tag finds it as the value of \<open>ogTags[parent]\<close>, a
  string, and throws. The property \<open>name\<close> of the member \<open>constructor\<close> is read-only, and
  another property of it is assigned. Under the child \<open>__proto__\<close> the assignment on a
  string reaches the setter and has no effect.
\<close>

lemma og_nested_builtins:
  "og_nested pristine [] ''__proto__'' ''image'' ''a.png'' = ([((''__proto__'', ''image''), ''a.png'')], Inr [])"
  "og_nested [((''__proto__'', ''image''), ''a.png'')] [] ''image'' ''width'' ''100'' =
     ([((''__proto__'', ''image''), ''a.png'')],
      Inl (TypeError ''Cannot create property width on string a.png''))"
  "og_nested pristine [] ''constructor'' ''name'' ''x'' =
     (pristine, Inl (TypeError ''Cannot assign to read only property name''))"
  "og_nested pristine [] ''constructor'' ''x'' ''y'' = ([((''constructor'', ''x''), ''y'')], Inr [])"
  "og_nested pristine [(''image'', OgString ''a.png'')] ''image'' ''__proto__'' ''100'' =
     (pristine, Inr [(''image'', OgString ''a.png'')])"
  "og_nested pristine [] ''image'' ''width'' ''100'' =
     (pristine, Inr [(''image'', OgObject [(''width'', ''100'')])])"
  by (simp_all add: og_nested_def js_get_def js_set_def og_truthy_def property_truthy_def read_only_def
      pristine_def Object_prototype_names_def)

lemma og_doc_itemscope: "query og_doc [[HasAttr ''itemscope'']] = []"
  by (simp add: og_doc_def query_def matches_def)

lemma og_doc_twitter: "query og_doc [[Tag ''meta'', AttrPrefix ''name'' ''twitter:'']] = []"
  by (simp add: og_doc_def query_def matches_def)

subsection \<open>Failing extractors\<close>

lemma isolated_present:
  assumes "isolated k m" "m g s = (g', Inr s')"
  shows "section_of (metadata s') k \<noteq> None"
proof -
  from isolated_Inr [OF assms] obtain p where "s' = set_seo k p s" by blast
  then show ?thesis by (simp add: section_set_seo)
qed

lemma outcomes_present:
  assumes "\<forall>st \<in> set kms. isolated (fst st) (snd (snd st))"
  shows "\<forall>x \<in> set (outcomes kms g s). \<forall>s'. snd (snd x) = Inr s' \<longrightarrow>
           section_of (metadata s') (fst x) \<noteq> None"
  using assms
proof (induction kms arbitrary: g)
  case Nil
  show ?case by simp
next
  case (Cons st kms)
  obtain k n m where st: "st = (k, n, m)" by (cases st) auto
  obtain g1 r where m: "m g s = (g1, r)" by (cases "m g s") auto
  from Cons.prems st have iso: "isolated k m" by simp
  have h: "\<forall>s'. r = Inr s' \<longrightarrow> section_of (metadata s') k \<noteq> None"
    using m isolated_present [OF iso, of g s g1] by blast
  from Cons.prems have "\<forall>st \<in> set kms. isolated (fst st) (snd (snd st))" by simp
  from Cons.IH [OF this, of g1]
  have ih: "\<forall>x \<in> set (outcomes kms g1 s). \<forall>s'. snd (snd x) = Inr s' \<longrightarrow>
           section_of (metadata s') (fst x) \<noteq> None" .
  have o: "outcomes (st # kms) g s = (k, n, r) # outcomes kms g1 s"
    using st m by simp
  show ?case
    unfolding o using h ih by simp
qed

text \<open>
  C3, as the code has it. Whatever the scraper holds and whatever the state of the
  built-in objects, every step of \<open>analyze\<close> runs, in the order of the steps, and
  writes its line to the console: a warning when its extractor throws, a success line
  otherwise. The extractor of a step is called in the state in which the steps before it
  left the built-in objects, which only the Open Graph extractor changes. An extractor
  that throws leaves the entry of its category as it was before \<open>analyze\<close>; one that
  returns has its payload stored under its category. \<open>analyze\<close> returns the report in
  every case; when all extractors throw the report is unchanged, and a new scraper's
  report has no category at all.
\<close>

theorem analyze_isolates_failures:
  fixes s :: "'j scraper"
  shows "(\<forall>(k, name, r) \<in> set (outcomes (pipeline JSON_parse hostname) g s).
            case r of
              Inl err \<Rightarrow> section_of (report JSON_parse hostname g s) k = section_of (metadata s) k
            | Inr s' \<Rightarrow> section_of (report JSON_parse hostname g s) k = section_of (metadata s') k
                         \<and> section_of (metadata s') k \<noteq> None)
       \<and> console JSON_parse hostname g s =
           [Analyzing] @ map outcome_line (outcomes (pipeline JSON_parse hostname) g s)
           @ [AnalysisComplete]
       \<and> outcomes (pipeline JSON_parse hostname) g s =
           [(BASIC, ''Basic Metadata'', extractBasicMetadata s),
            (OPEN_GRAPH, ''Open Graph Tags'', snd (extractOpenGraphMetadata g s)),
            (TWITTER, ''Twitter Cards'', extractTwitterMetadata s),
            (SCHEMA, ''Schema Markup'',
               extractSchemaMetadata JSON_parse (fst (extractOpenGraphMetadata g s)) s),
            (TECHNICAL, ''Technical SEO'', extractTechnicalMetadata s),
            (LINKS, ''Links Analysis'', extractLinks hostname s),
            (HEADINGS, ''Headings Structure'', extractHeadings s),
            (IMAGES, ''Images Analysis'', extractImages s),
            (PERFORMANCE, ''Performance Metrics'', extractPerformanceMetrics s)]
       \<and> map fst (outcomes (pipeline JSON_parse hostname) g s) = SEO_CATEGORIES
       \<and> map (\<lambda>x. fst (snd x)) (outcomes (pipeline JSON_parse hostname) g s)
           = map fst (steps JSON_parse hostname)
       \<and> ((\<forall>(k, name, r) \<in> set (outcomes (pipeline JSON_parse hostname) g s). isl r)
            \<longrightarrow> report JSON_parse hostname g s = metadata s)
       \<and> seo (metadata (SEOScraper u now :: 'j scraper)) = []"
proof -
  let ?os = "outcomes (pipeline JSON_parse hostname) g s"
  have 1: "\<forall>(k, name, r) \<in> set ?os.
            case r of
              Inl err \<Rightarrow> section_of (report JSON_parse hostname g s) k = section_of (metadata s) k
            | Inr s' \<Rightarrow> section_of (report JSON_parse hostname g s) k = section_of (metadata s') k
                         \<and> section_of (metadata s') k \<noteq> None"
  proof (clarify)
    fix k name r
    assume m: "(k, name, r) \<in> set ?os"
    have "\<forall>x \<in> set ?os.
            section_of (report JSON_parse hostname g s) (fst x) =
              (case snd (snd x) of
                 Inl e \<Rightarrow> section_of (metadata s) (fst x)
               | Inr s' \<Rightarrow> section_of (metadata s') (fst x))"
      using analyze_facts [of JSON_parse hostname g s] by (rule conjunct1)
    from this [rule_format, OF m]
    have a: "section_of (report JSON_parse hostname g s) k =
               (case r of Inl e \<Rightarrow> section_of (metadata s) k | Inr s' \<Rightarrow> section_of (metadata s') k)"
      by (simp cong: sum.case_cong)
    from outcomes_present [OF pipeline_isolated, of JSON_parse hostname g s, rule_format, OF m]
    have b: "\<forall>s'. r = Inr s' \<longrightarrow> section_of (metadata s') k \<noteq> None"
      by simp
    from a b show "case r of
              Inl err \<Rightarrow> section_of (report JSON_parse hostname g s) k = section_of (metadata s) k
            | Inr s' \<Rightarrow> section_of (report JSON_parse hostname g s) k = section_of (metadata s') k
                         \<and> section_of (metadata s') k \<noteq> None"
      by (cases r) simp_all
  qed
  have 2: "console JSON_parse hostname g s = [Analyzing] @ map outcome_line ?os @ [AnalysisComplete]"
    using analyze_facts [of JSON_parse hostname g s] by blast
  have "(\<forall>x \<in> set ?os. isl (snd (snd x))) \<longrightarrow> report JSON_parse hostname g s = metadata s"
    using analyze_facts [of JSON_parse hostname g s] by blast
  then have 3: "(\<forall>(k, name, r) \<in> set ?os. isl r) \<longrightarrow> report JSON_parse hostname g s = metadata s"
    by (simp add: case_prod_beta)
  have 4: "seo (metadata (SEOScraper u now :: 'j scraper)) = []"
    by (simp add: SEOScraper_def)
  have 5: "map fst ?os = SEO_CATEGORIES"
    by (simp add: outcomes_keys pipeline_keys)
  have 6: "map (\<lambda>x. fst (snd x)) ?os = map fst (steps JSON_parse hostname)"
    by (simp add: outcomes_names pipeline_names)
  show ?thesis
    by (intro conjI 1 2 3 4 5 6 outcomes_pipeline)
qed

lemma unfetched_throws:
  "\<forall>(k, name, r) \<in> set (outcomes (pipeline JSON_parse hostname) g (SEOScraper u now)). isl r"
  unfolding outcomes_pipeline
  by (simp add: SEOScraper_def extractBasicMetadata_def extractOpenGraphMetadata_def
      extractTwitterMetadata_def extractSchemaMetadata_def extractTechnicalMetadata_def
      extractLinks_def extractHeadings_def extractImages_def extractPerformanceMetrics_def Let_def)

lemma person_doc_metas:
  "query person_doc [[Tag ''meta'', AttrPrefix ''property'' ''og:'']] =
     [Element ''meta'' [(''property'', ''og:__proto__:Person''), (''content'', ''x'')] []]"
  by (simp add: person_doc_def query_def matches_def attr_starts_exact exact_attributes js_startsWith_def)

lemma person_doc_itemscope:
  "query person_doc [[HasAttr ''itemscope'']] =
     [Element ''div'' [(''itemscope'', []), (''itemtype'', ''https://schema.org/Person'')] []]"
  by (simp add: person_doc_def query_def matches_def)

lemma person_doc_blocks:
  "query person_doc [[Tag ''script'', AttrEq ''type'' ''application/ld+json'']] = []"
  by (simp add: person_doc_def query_def matches_def)

lemma person_callback:
  "og_callback pristine
     (Element ''meta'' [(''property'', ''og:__proto__:Person''), (''content'', ''x'')] []) [] =
     ([((''__proto__'', ''Person''), ''x'')], Inr [])"
  by (simp add: og_callback_def js_startsWith_def truthy_def or_empty_def og_nested_def
      js_get_def og_truthy_def property_truthy_def read_only_def pristine_def)

lemma person_page_og:
  "extractOpenGraphMetadata pristine person_page =
     ([((''__proto__'', ''Person''), ''x'')], Inr (set_seo OPEN_GRAPH (OpenGraph []) person_page))"
  by (simp add: extractOpenGraphMetadata_def person_page_def page_def fetched_def person_doc_metas
      person_callback)

lemma person_type:
  "last (js_split ''https://schema.org/Person'' CHR ''/'') = ''Person''"
  by simp

lemma person_microdata:
  "microdata_callback pristine
     (Element ''div'' [(''itemscope'', []), (''itemtype'', ''https://schema.org/Person'')] []) [] =
     Inr [(''Person'', [[]])]"
  "microdata_callback [((''__proto__'', ''Person''), ''x'')]
     (Element ''div'' [(''itemscope'', []), (''itemtype'', ''https://schema.org/Person'')] []) [] =
     Inl (TypeError ''microdata[type].push is not a function'')"
  by (simp_all add: microdata_callback_def truthy_def or_empty_def person_type js_get_def
      property_truthy_def pristine_def Object_prototype_names_def cheerio_find_def Let_def)

lemma person_page_schema:
  "extractSchemaMetadata no_json pristine person_page =
     Inr (set_seo SCHEMA (Schema \<lparr>jsonLd = [], microdata = [(''Person'', [[]])]\<rparr>) person_page)"
  "extractSchemaMetadata no_json [((''__proto__'', ''Person''), ''x'')] person_page =
     Inl (TypeError ''microdata[type].push is not a function'')"
  by (simp_all add: extractSchemaMetadata_def person_page_def page_def fetched_def
      person_doc_itemscope person_doc_blocks person_microdata)

lemma fresh_page: "section_of (metadata (page u body doc)) k = None"
  by (simp add: page_def fetched_def SEOScraper_def section_of_def)

theorem analyze_isolates_failures_witness:
  "isl (snd (extractOpenGraphMetadata pristine og_page))
   \<and> section_of (report no_json example_hostname pristine og_page) OPEN_GRAPH = None
   \<and> extractSchemaMetadata no_json pristine person_page =
       Inr (set_seo SCHEMA (Schema \<lparr>jsonLd = [], microdata = [(''Person'', [[]])]\<rparr>) person_page)
   \<and> extractOpenGraphMetadata pristine person_page =
       ([((''__proto__'', ''Person''), ''x'')], Inr (set_seo OPEN_GRAPH (OpenGraph []) person_page))
   \<and> extractSchemaMetadata no_json (fst (extractOpenGraphMetadata pristine person_page)) person_page =
       Inl (TypeError ''microdata[type].push is not a function'')
   \<and> section_of (report no_json example_hostname pristine person_page) OPEN_GRAPH
       = Some (OpenGraph [])
   \<and> section_of (report no_json example_hostname pristine person_page) SCHEMA = None
   \<and> report no_json example_hostname pristine (SEOScraper ''https://a.com/'' ''2024-01-01T00:00:00.000Z'')
       = metadata (SEOScraper ''https://a.com/'' ''2024-01-01T00:00:00.000Z'')"
proof -
  let ?new = "SEOScraper ''https://a.com/'' ''2024-01-01T00:00:00.000Z'' :: unit scraper"
  have t: "isl (snd (extractOpenGraphMetadata pristine og_page))"
    by (simp add: og_page_throws)
  have fresh: "section_of (metadata og_page) k = None" "section_of (metadata person_page) k = None" for k
    by (simp_all add: og_page_def person_page_def fresh_page)
  note T = analyze_isolates_failures [of no_json example_hostname pristine og_page]
  from T have all: "\<forall>(k, name, r) \<in> set (outcomes (pipeline no_json example_hostname) pristine og_page).
            case r of
              Inl err \<Rightarrow> section_of (report no_json example_hostname pristine og_page) k
                           = section_of (metadata og_page) k
            | Inr s' \<Rightarrow> section_of (report no_json example_hostname pristine og_page) k
                           = section_of (metadata s') k
                         \<and> section_of (metadata s') k \<noteq> None"
    by (rule conjunct1)
  from T have "(OPEN_GRAPH, ''Open Graph Tags'', snd (extractOpenGraphMetadata pristine og_page))
       \<in> set (outcomes (pipeline no_json example_hostname) pristine og_page)"
    by simp
  with all have "case snd (extractOpenGraphMetadata pristine og_page) of
              Inl err \<Rightarrow> section_of (report no_json example_hostname pristine og_page) OPEN_GRAPH
                           = section_of (metadata og_page) OPEN_GRAPH
            | Inr s' \<Rightarrow> section_of (report no_json example_hostname pristine og_page) OPEN_GRAPH
                           = section_of (metadata s') OPEN_GRAPH
                         \<and> section_of (metadata s') OPEN_GRAPH \<noteq> None"
    by fast
  then have a: "section_of (report no_json example_hostname pristine og_page) OPEN_GRAPH = None"
    by (simp add: og_page_throws fresh)
  note P = analyze_isolates_failures [of no_json example_hostname pristine person_page]
  from P have allp: "\<forall>(k, name, r) \<in> set (outcomes (pipeline no_json example_hostname) pristine person_page).
            case r of
              Inl err \<Rightarrow> section_of (report no_json example_hostname pristine person_page) k
                           = section_of (metadata person_page) k
            | Inr s' \<Rightarrow> section_of (report no_json example_hostname pristine person_page) k
                           = section_of (metadata s') k
                         \<and> section_of (metadata s') k \<noteq> None"
    by (rule conjunct1)
  from P have "(OPEN_GRAPH, ''Open Graph Tags'', snd (extractOpenGraphMetadata pristine person_page))
       \<in> set (outcomes (pipeline no_json example_hostname) pristine person_page)"
    and "(SCHEMA, ''Schema Markup'',
          extractSchemaMetadata no_json (fst (extractOpenGraphMetadata pristine person_page)) person_page)
       \<in> set (outcomes (pipeline no_json example_hostname) pristine person_page)"
    by simp_all
  with allp have "case snd (extractOpenGraphMetadata pristine person_page) of
              Inl err \<Rightarrow> section_of (report no_json example_hostname pristine person_page) OPEN_GRAPH
                           = section_of (metadata person_page) OPEN_GRAPH
            | Inr s' \<Rightarrow> section_of (report no_json example_hostname pristine person_page) OPEN_GRAPH
                           = section_of (metadata s') OPEN_GRAPH
                         \<and> section_of (metadata s') OPEN_GRAPH \<noteq> None"
    and "case extractSchemaMetadata no_json (fst (extractOpenGraphMetadata pristine person_page)) person_page of
              Inl err \<Rightarrow> section_of (report no_json example_hostname pristine person_page) SCHEMA
                           = section_of (metadata person_page) SCHEMA
            | Inr s' \<Rightarrow> section_of (report no_json example_hostname pristine person_page) SCHEMA
                           = section_of (metadata s') SCHEMA
                         \<and> section_of (metadata s') SCHEMA \<noteq> None"
    by fast+
  then have b: "section_of (report no_json example_hostname pristine person_page) OPEN_GRAPH
                  = Some (OpenGraph [])"
    and c: "section_of (report no_json example_hostname pristine person_page) SCHEMA = None"
    by (simp_all add: person_page_og person_page_schema section_set_seo fresh)
  have d: "extractSchemaMetadata no_json (fst (extractOpenGraphMetadata pristine person_page)) person_page =
       Inl (TypeError ''microdata[type].push is not a function'')"
    by (simp add: person_page_og person_page_schema)
  have "\<forall>(k, name, r) \<in> set (outcomes (pipeline no_json example_hostname) pristine ?new). isl r"
    by (rule unfetched_throws)
  with analyze_isolates_failures [of no_json example_hostname pristine ?new]
  have e: "report no_json example_hostname pristine ?new = metadata ?new"
    by fast
  from t a b c d e person_page_og person_page_schema(1) show ?thesis by (intro conjI)
qed

text \<open>
  C3 as stated fails where it says that the category of a throwing extractor is not
  omitted: on the page with \<open>og:image\<close> followed by \<open>og:image:width\<close> the Open Graph
  extractor throws, and the report has no \<open>open_graph\<close> key.
\<close>

theorem analyze_omits_failed_category_counterexample:
  "extractOpenGraphMetadata pristine og_page =
     (pristine, Inl (TypeError ''Cannot create property width on string a.png''))
   \<and> map_of (seo (report no_json example_hostname pristine og_page)) OPEN_GRAPH = None
   \<and> OPEN_GRAPH \<notin> fst ` set (seo (report no_json example_hostname pristine og_page))"
proof -
  have "section_of (metadata og_page) OPEN_GRAPH = None"
    by (simp add: og_page_def fresh_page)
  then have "section_of (report no_json example_hostname pristine og_page) OPEN_GRAPH = None"
    by (simp add: report_sections(2) og_page_throws)
  then have a: "map_of (seo (report no_json example_hostname pristine og_page)) OPEN_GRAPH = None"
    by (simp add: section_of_def)
  then have b: "OPEN_GRAPH \<notin> fst ` set (seo (report no_json example_hostname pristine og_page))"
    by (simp add: map_of_eq_None_iff)
  from og_page_throws a b show ?thesis by (intro conjI)
qed

subsection \<open>JSON-LD blocks\<close>

lemma jsonLd_callback_step:
  "jsonLd_callback JSON_parse acc e =
     acc @ List.map_filter JSON_parse [c \<leftarrow> [cheerio_html e]. c \<noteq> []]"
  by (cases "JSON_parse (cheerio_html e)") (simp_all add: jsonLd_callback_def Let_def map_filter_simps)

lemma foldl_jsonLd_callback:
  "foldl (jsonLd_callback JSON_parse) acc es =
     acc @ List.map_filter JSON_parse [c \<leftarrow> map cheerio_html es. c \<noteq> []]"
proof (induction es arbitrary: acc)
  case Nil
  show ?case by (simp add: map_filter_simps)
next
  case (Cons e es)
  have "foldl (jsonLd_callback JSON_parse) acc (e # es) =
          (acc @ List.map_filter JSON_parse [c \<leftarrow> [cheerio_html e]. c \<noteq> []])
          @ List.map_filter JSON_parse [c \<leftarrow> map cheerio_html es. c \<noteq> []]"
    unfolding foldl_Cons jsonLd_callback_step Cons.IH ..
  also have "\<dots> = acc @ List.map_filter JSON_parse [c \<leftarrow> map cheerio_html (e # es). c \<noteq> []]"
    by (simp add: List.map_filter_def)
  finally show ?case .
qed

lemma extractSchemaMetadata_fetched:
  "extractSchemaMetadata JSON_parse g (fetched body doc s) =
     (case each_throwing (microdata_callback g) (query doc [[HasAttr ''itemscope'']]) [] of
        Inl err \<Rightarrow> Inl err
      | Inr md \<Rightarrow>
          Inr (set_seo SCHEMA (Schema \<lparr>jsonLd = parsed_blocks JSON_parse doc, microdata = md\<rparr>)
                 (fetched body doc s)))"
  by (simp add: extractSchemaMetadata_def fetched_def foldl_jsonLd_callback parsed_blocks_def Let_def
      split: sum.splits)

lemma extractSchemaMetadata_error:
  "(extractSchemaMetadata JSON_parse g s = Inl e) = (extractSchemaMetadata JSON_parse' g s = Inl e)"
  by (simp add: extractSchemaMetadata_def Let_def split: option.splits sum.splits)

lemma extractSchemaMetadata_returned:
  assumes "extractSchemaMetadata JSON_parse g (fetched body doc s) = Inr s'"
  shows "\<exists>md. section_of (metadata s') SCHEMA =
            Some (Schema \<lparr>jsonLd = parsed_blocks JSON_parse doc, microdata = md\<rparr>)"
  using assms by (auto simp: extractSchemaMetadata_fetched section_set_seo split: sum.splits)

lemma report_other_parser:
  assumes "k \<noteq> SCHEMA"
  shows "section_of (report JSON_parse hostname g s) k = section_of (report JSON_parse' hostname g s) k"
proof (cases "k \<in> set SEO_CATEGORIES")
  case True
  with assms consider "k = BASIC" | "k = OPEN_GRAPH" | "k = TWITTER" | "k = TECHNICAL" | "k = LINKS"
    | "k = HEADINGS" | "k = IMAGES" | "k = PERFORMANCE"
    unfolding SEO_CATEGORIES_def by auto
  then show ?thesis
    by cases (simp_all add: report_sections)
next
  case False
  then show ?thesis by (simp add: report_other)
qed

text \<open>
  C9, as the code has it. The schema extractor hands the content of every \<open>script\<close>
  block whose type is \<open>application/ld+json\<close>, in any case of its letters, to the parser,
  and when it returns, \<open>jsonLd\<close> holds the parsed values in document order: a block that
  fails to parse contributes nothing. A parse failure raises no error: the extractor
  throws with one parser exactly when it throws with any other, and then the same error.
  The other sections of the report do not depend on the parser. The extractor returns on every document without an \<open>itemscope\<close> element, and
  in the run of \<open>analyze\<close> the schema section has the parsed values whenever the extractor
  returns; when no block parses, \<open>jsonLd\<close> is then empty.
\<close>

theorem jsonLd_parse_failures_dropped:
  fixes s :: "'j scraper"
  shows "(\<forall>s'. extractSchemaMetadata JSON_parse g (fetched body doc s) = Inr s' \<longrightarrow>
            (\<exists>md. section_of (metadata s') SCHEMA =
                     Some (Schema \<lparr>jsonLd = parsed_blocks JSON_parse doc, microdata = md\<rparr>)))
       \<and> (extractSchemaMetadata JSON_parse g s = Inl err)
           = (extractSchemaMetadata JSON_parse' g s = Inl err)
       \<and> (\<forall>k. k \<noteq> SCHEMA \<longrightarrow>
            section_of (report JSON_parse hostname g s) k
              = section_of (report JSON_parse' hostname g s) k)
       \<and> (query doc [[HasAttr ''itemscope'']] = [] \<longrightarrow>
            extractSchemaMetadata JSON_parse g (fetched body doc s) =
              Inr (set_seo SCHEMA (Schema \<lparr>jsonLd = parsed_blocks JSON_parse doc, microdata = []\<rparr>)
                     (fetched body doc s)))
       \<and> (\<forall>s'. extractSchemaMetadata JSON_parse
                   (fst (extractOpenGraphMetadata g (fetched body doc s))) (fetched body doc s) = Inr s'
              \<longrightarrow> (\<exists>md. section_of (report JSON_parse hostname g (fetched body doc s)) SCHEMA =
                            Some (Schema \<lparr>jsonLd = parsed_blocks JSON_parse doc, microdata = md\<rparr>)))
       \<and> ((\<forall>e \<in> set (query doc [[Tag ''script'', AttrEq ''type'' ''application/ld+json'']]).
              JSON_parse (cheerio_html e) = None)
            \<longrightarrow> parsed_blocks JSON_parse doc = [])"
proof -
  let ?p = "fetched body doc s"
  have 1: "\<forall>s'. extractSchemaMetadata JSON_parse g ?p = Inr s' \<longrightarrow>
            (\<exists>md. section_of (metadata s') SCHEMA =
                     Some (Schema \<lparr>jsonLd = parsed_blocks JSON_parse doc, microdata = md\<rparr>))"
    using extractSchemaMetadata_returned by blast
  have 3: "\<forall>k. k \<noteq> SCHEMA \<longrightarrow>
            section_of (report JSON_parse hostname g s) k
              = section_of (report JSON_parse' hostname g s) k"
    using report_other_parser by blast
  have 4: "query doc [[HasAttr ''itemscope'']] = [] \<longrightarrow>
            extractSchemaMetadata JSON_parse g ?p =
              Inr (set_seo SCHEMA (Schema \<lparr>jsonLd = parsed_blocks JSON_parse doc, microdata = []\<rparr>) ?p)"
    by (simp add: extractSchemaMetadata_fetched)
  have 5: "\<forall>s'. extractSchemaMetadata JSON_parse (fst (extractOpenGraphMetadata g ?p)) ?p = Inr s'
              \<longrightarrow> (\<exists>md. section_of (report JSON_parse hostname g ?p) SCHEMA =
                            Some (Schema \<lparr>jsonLd = parsed_blocks JSON_parse doc, microdata = md\<rparr>))"
  proof (intro allI impI)
    fix s'
    assume r: "extractSchemaMetadata JSON_parse (fst (extractOpenGraphMetadata g ?p)) ?p = Inr s'"
    from extractSchemaMetadata_returned [OF r] obtain md where
      "section_of (metadata s') SCHEMA =
         Some (Schema \<lparr>jsonLd = parsed_blocks JSON_parse doc, microdata = md\<rparr>)"
      by blast
    with r have "section_of (report JSON_parse hostname g ?p) SCHEMA =
         Some (Schema \<lparr>jsonLd = parsed_blocks JSON_parse doc, microdata = md\<rparr>)"
      by (simp add: report_sections(4))
    then show "\<exists>md. section_of (report JSON_parse hostname g ?p) SCHEMA =
                 Some (Schema \<lparr>jsonLd = parsed_blocks JSON_parse doc, microdata = md\<rparr>)"
      by blast
  qed
  have 6: "(\<forall>e \<in> set (query doc [[Tag ''script'', AttrEq ''type'' ''application/ld+json'']]).
              JSON_parse (cheerio_html e) = None)
            \<longrightarrow> parsed_blocks JSON_parse doc = []"
    by (auto simp: parsed_blocks_def List.map_filter_def filter_empty_conv)
  show ?thesis
    by (intro conjI 1 3 4 5 6 extractSchemaMetadata_error)
qed

lemma type_matches:
  "attr_equals ''type'' ''application/ld+json'' ''application/ld+json''"
  "attr_equals ''type'' ''APPLICATION/LD+JSON'' ''application/ld+json''"
  "\<not> attr_equals ''type'' ''text/javascript'' ''application/ld+json''"
  by (simp_all add: attr_equals_def case_insensitive_attributes_def js_toLowerCase_def
      toLowerCase_unit_def lower_case_letters)

lemma blocks_doc_blocks:
  "query blocks_doc [[Tag ''script'', AttrEq ''type'' ''application/ld+json'']] =
     [Element ''script'' [(''type'', ''application/ld+json'')] [Text ''1''],
      Element ''script'' [(''type'', ''APPLICATION/LD+JSON'')] [Text ''{not json}''],
      Element ''script'' [(''type'', ''application/ld+json'')] [Text ''2'']]"
  by (simp add: blocks_doc_def query_def matches_def type_matches)

lemma blocks_doc_itemscope: "query blocks_doc [[HasAttr ''itemscope'']] = []"
  by (simp add: blocks_doc_def query_def matches_def)

lemma blocks_doc_parsed: "parsed_blocks numbers_json blocks_doc = [1, 2]"
  by (simp add: parsed_blocks_def blocks_doc_blocks cheerio_html_def List.map_filter_def
      numbers_json_def)

lemma malformed_doc_blocks:
  "query malformed_doc [[Tag ''script'', AttrEq ''type'' ''application/ld+json'']] =
     [Element ''script'' [(''type'', ''application/ld+json'')] [Text ''{not json}'']]"
  by (simp add: malformed_doc_def query_def matches_def type_matches)

lemma malformed_doc_itemscope: "query malformed_doc [[HasAttr ''itemscope'']] = []"
  by (simp add: malformed_doc_def query_def matches_def)

theorem jsonLd_parse_failures_dropped_witness:
  "query blocks_doc [[Tag ''script'', AttrEq ''type'' ''application/ld+json'']] =
     [Element ''script'' [(''type'', ''application/ld+json'')] [Text ''1''],
      Element ''script'' [(''type'', ''APPLICATION/LD+JSON'')] [Text ''{not json}''],
      Element ''script'' [(''type'', ''application/ld+json'')] [Text ''2'']]
   \<and> numbers_json ''1'' = Some 1 \<and> numbers_json ''{not json}'' = None \<and> numbers_json ''2'' = Some 2
   \<and> section_of
       (report numbers_json example_hostname pristine
          (fetched ''<html></html>'' blocks_doc
             (SEOScraper ''https://a.com/'' ''2024-01-01T00:00:00.000Z'')))
       SCHEMA = Some (Schema \<lparr>jsonLd = [1, 2], microdata = []\<rparr>)
   \<and> query malformed_doc [[Tag ''script'', AttrEq ''type'' ''application/ld+json'']] =
       [Element ''script'' [(''type'', ''application/ld+json'')] [Text ''{not json}'']]
   \<and> extractSchemaMetadata no_json pristine (page ''https://a.com/'' ''<html></html>'' malformed_doc) =
       Inr (set_seo SCHEMA (Schema \<lparr>jsonLd = [], microdata = []\<rparr>)
              (page ''https://a.com/'' ''<html></html>'' malformed_doc))"
proof -
  let ?new = "SEOScraper ''https://a.com/'' ''2024-01-01T00:00:00.000Z'' :: nat scraper"
  let ?p = "fetched ''<html></html>'' blocks_doc ?new"
  let ?unit = "SEOScraper ''https://a.com/'' ''2024-01-01T00:00:00.000Z'' :: unit scraper"
  let ?q = "fetched ''<html></html>'' malformed_doc ?unit"
  have n: "numbers_json ''1'' = Some 1" "numbers_json ''{not json}'' = None" "numbers_json ''2'' = Some 2"
    by (simp_all add: numbers_json_def)
  note T = jsonLd_parse_failures_dropped
    [where JSON_parse = numbers_json and JSON_parse' = numbers_json and g = pristine
       and body = "''<html></html>''" and doc = blocks_doc and s = ?new
       and hostname = example_hostname and err = "TypeError []"]
  from T blocks_doc_itemscope
  have r: "extractSchemaMetadata numbers_json pristine ?p =
             Inr (set_seo SCHEMA
                    (Schema \<lparr>jsonLd = parsed_blocks numbers_json blocks_doc, microdata = []\<rparr>) ?p)"
    by blast
  have og: "fst (extractOpenGraphMetadata pristine ?p) = pristine"
    by (simp add: extractOpenGraphMetadata_def fetched_def blocks_doc_def query_def matches_def)
  from T have "\<forall>s'. extractSchemaMetadata numbers_json
                   (fst (extractOpenGraphMetadata pristine ?p)) ?p = Inr s'
              \<longrightarrow> (\<exists>md. section_of (report numbers_json example_hostname pristine ?p) SCHEMA =
                            Some (Schema \<lparr>jsonLd = parsed_blocks numbers_json blocks_doc,
                                          microdata = md\<rparr>))"
    by (elim conjE)
  with r og obtain md where
    md: "section_of (report numbers_json example_hostname pristine ?p) SCHEMA =
           Some (Schema \<lparr>jsonLd = parsed_blocks numbers_json blocks_doc, microdata = md\<rparr>)"
    by auto
  have "section_of (report numbers_json example_hostname pristine ?p) SCHEMA =
          Some (Schema \<lparr>jsonLd = parsed_blocks numbers_json blocks_doc, microdata = []\<rparr>)"
    using r og by (simp add: report_sections(4) section_set_seo)
  then have a: "section_of (report numbers_json example_hostname pristine ?p) SCHEMA =
          Some (Schema \<lparr>jsonLd = [1, 2], microdata = []\<rparr>)"
    by (simp add: blocks_doc_parsed)
  note M = jsonLd_parse_failures_dropped
    [where JSON_parse = no_json and JSON_parse' = no_json and g = pristine
       and body = "''<html></html>''" and doc = malformed_doc and s = ?unit
       and hostname = example_hostname and err = "TypeError []"]
  have f: "\<forall>e \<in> set (query malformed_doc [[Tag ''script'', AttrEq ''type'' ''application/ld+json'']]).
             no_json (cheerio_html e) = None"
    by (simp add: no_json_def)
  from M f have e: "parsed_blocks no_json malformed_doc = []"
    by blast
  from M malformed_doc_itemscope
  have "extractSchemaMetadata no_json pristine ?q =
          Inr (set_seo SCHEMA (Schema \<lparr>jsonLd = parsed_blocks no_json malformed_doc, microdata = []\<rparr>) ?q)"
    by blast
  then have b: "extractSchemaMetadata no_json pristine (page ''https://a.com/'' ''<html></html>'' malformed_doc) =
       Inr (set_seo SCHEMA (Schema \<lparr>jsonLd = [], microdata = []\<rparr>)
              (page ''https://a.com/'' ''<html></html>'' malformed_doc))"
    by (simp add: e page_def)
  from blocks_doc_blocks n a malformed_doc_blocks b show ?thesis
    by (intro conjI)
qed

lemma constructor_doc_blocks:
  "query constructor_doc [[Tag ''script'', AttrEq ''type'' ''application/ld+json'']] =
     [Element ''script'' [(''type'', ''application/ld+json'')] [Text ''{not json}'']]"
  by (simp add: constructor_doc_def query_def matches_def type_matches)

lemma constructor_doc_itemscope:
  "query constructor_doc [[HasAttr ''itemscope'']] =
     [Element ''div'' [(''itemscope'', []), (''itemtype'', ''https://schema.org/constructor'')] []]"
  by (simp add: constructor_doc_def query_def matches_def)

lemma constructor_doc_metas:
  "query constructor_doc [[Tag ''meta'', AttrPrefix ''property'' ''og:'']] = []"
  "query constructor_doc [[Tag ''meta'', AttrPrefix ''name'' ''twitter:'']] = []"
  by (simp_all add: constructor_doc_def query_def matches_def)

lemma constructor_type:
  "last (js_split ''https://schema.org/constructor'' CHR ''/'') = ''constructor''"
  by simp

lemma constructor_microdata:
  "microdata_callback pristine
     (Element ''div'' [(''itemscope'', []), (''itemtype'', ''https://schema.org/constructor'')] []) [] =
     Inl (TypeError ''microdata[type].push is not a function'')"
  by (simp add: microdata_callback_def truthy_def or_empty_def constructor_type js_get_def
      property_truthy_def pristine_def Object_prototype_names_def cheerio_find_def Let_def)

lemma constructor_page_schema:
  "extractSchemaMetadata JSON_parse pristine (page u body constructor_doc) =
     Inl (TypeError ''microdata[type].push is not a function'')"
  by (simp add: page_def extractSchemaMetadata_fetched constructor_doc_itemscope
      constructor_microdata)

lemma constructor_page_og:
  "extractOpenGraphMetadata g (page u body constructor_doc) =
     (g, Inr (set_seo OPEN_GRAPH (OpenGraph []) (page u body constructor_doc)))"
  by (simp add: extractOpenGraphMetadata_def page_def fetched_def constructor_doc_metas)

text \<open>
  C9 as stated fails on a page whose only JSON-LD block is malformed and whose body has a
  microdata item of the type \<open>constructor\<close>: the block is dropped, but the extractor
  throws in the microdata pass that follows, and the report has no \<open>schema\<close> section, so
  no \<open>jsonLd\<close> of length 0.
\<close>

theorem jsonLd_schema_missing_counterexample:
  "query constructor_doc [[Tag ''script'', AttrEq ''type'' ''application/ld+json'']] =
     [Element ''script'' [(''type'', ''application/ld+json'')] [Text ''{not json}'']]
   \<and> no_json ''{not json}'' = None
   \<and> extractSchemaMetadata no_json pristine constructor_page =
       Inl (TypeError ''microdata[type].push is not a function'')
   \<and> section_of (report no_json example_hostname pristine constructor_page) SCHEMA = None
   \<and> SCHEMA \<notin> fst ` set (seo (report no_json example_hostname pristine constructor_page))"
proof -
  have s: "extractSchemaMetadata no_json pristine constructor_page =
       Inl (TypeError ''microdata[type].push is not a function'')"
    by (simp add: constructor_page_def constructor_page_schema)
  have og: "fst (extractOpenGraphMetadata pristine constructor_page) = pristine"
    by (simp add: constructor_page_def constructor_page_og)
  have f: "section_of (metadata constructor_page) SCHEMA = None"
    by (simp add: constructor_page_def fresh_page)
  have a: "section_of (report no_json example_hostname pristine constructor_page) SCHEMA = None"
    by (simp add: report_sections(4) og s f)
  then have b: "SCHEMA \<notin> fst ` set (seo (report no_json example_hostname pristine constructor_page))"
    by (simp add: section_of_def map_of_eq_None_iff)
  have n: "no_json ''{not json}'' = None"
    by (simp add: no_json_def)
  from constructor_doc_blocks n s a b show ?thesis by (intro conjI)
qed

subsection \<open>The categories of the report\<close>

lemma upt_1_7: "[1 ..< 7] = [1, 2, 3, 4, 5, 6 :: nat]"
  by (simp add: upt_rec)

lemma heading_digits:
  "char_of (49::nat) = CHR ''1''" "char_of (50::nat) = CHR ''2''" "char_of (51::nat) = CHR ''3''"
  "char_of (52::nat) = CHR ''4''" "char_of (53::nat) = CHR ''5''" "char_of (54::nat) = CHR ''6''"
  by code_simp+

lemma collect_headings_none:
  assumes "query doc [[Tag ''h1'']] = []" "query doc [[Tag ''h2'']] = []"
    "query doc [[Tag ''h3'']] = []" "query doc [[Tag ''h4'']] = []"
    "query doc [[Tag ''h5'']] = []" "query doc [[Tag ''h6'']] = []"
  shows "collect_headings doc =
     \<lparr>headings_tags = [(''h1'', []), (''h2'', []), (''h3'', []), (''h4'', []), (''h5'', []),
                        (''h6'', [])],
      headings_counts = [(''h1'', 0), (''h2'', 0), (''h3'', 0), (''h4'', 0), (''h5'', 0),
                          (''h6'', 0)]\<rparr>"
  unfolding collect_headings_def upt_1_7
  by (simp add: heading_round_def heading_digits assms Let_def)

lemma each_throwing_Inr:
  assumes "\<forall>e \<in> set es. \<forall>acc. \<exists>acc'. f e acc = Inr acc'"
  shows "\<exists>acc'. each_throwing f es acc = Inr acc'"
  using assms
proof (induction es arbitrary: acc)
  case Nil
  show ?case by simp
next
  case (Cons e es)
  from Cons.prems have "\<forall>acc. \<exists>acc'. f e acc = Inr acc'" by simp
  then obtain acc1 where a: "f e acc = Inr acc1" by blast
  from Cons.prems have "\<forall>e \<in> set es. \<forall>acc. \<exists>acc'. f e acc = Inr acc'" by simp
  from Cons.IH [OF this, of acc1] a show ?case by simp
qed

lemma twitter_callback_Inr:
  "cheerio_attr e ''name'' \<noteq> None \<Longrightarrow> \<exists>acc'. twitter_callback e acc = Inr acc'"
  by (auto simp: twitter_callback_def Let_def)

lemma twitter_selected:
  "e \<in> set (query doc [[Tag ''meta'', AttrPrefix ''name'' ''twitter:'']]) \<Longrightarrow>
     cheerio_attr e ''name'' \<noteq> None"
  by (auto simp: query_def matches_def split: option.splits)

lemma extractTwitterMetadata_fetched:
  "\<exists>tags. extractTwitterMetadata (fetched body doc s) =
            Inr (set_seo TWITTER (Twitter tags) (fetched body doc s))"
proof -
  have "\<forall>e \<in> set (query doc [[Tag ''meta'', AttrPrefix ''name'' ''twitter:'']]).
          \<forall>acc. \<exists>acc'. twitter_callback e acc = Inr acc'"
    using twitter_callback_Inr twitter_selected by blast
  from each_throwing_Inr [OF this, of "[]"] obtain tags where
    "each_throwing twitter_callback (query doc [[Tag ''meta'', AttrPrefix ''name'' ''twitter:'']]) []
       = Inr tags"
    by blast
  then have "extractTwitterMetadata (fetched body doc s) =
            Inr (set_seo TWITTER (Twitter tags) (fetched body doc s))"
    by (simp add: extractTwitterMetadata_def fetched_def)
  then show ?thesis by blast
qed

lemma extractBasicMetadata_fetched:
  "extractBasicMetadata (fetched body doc s) =
     Inr (set_seo BASIC (Basic (basic_record doc)) (fetched body doc s))"
  by (simp add: extractBasicMetadata_def fetched_def)

lemma extractTechnicalMetadata_fetched:
  "extractTechnicalMetadata (fetched body doc s) =
     Inr (set_seo TECHNICAL
            (Technical (technical_record (or_null (match_doctype body))
                          (getHtmlVersion (fetched body doc s)) doc))
            (fetched body doc s))"
  by (simp add: extractTechnicalMetadata_def fetched_def Let_def)

lemma extractHeadings_fetched:
  "extractHeadings (fetched body doc s) =
     Inr (set_seo HEADINGS (Headings (collect_headings doc)) (fetched body doc s))"
  by (simp add: extractHeadings_def fetched_def)

lemma extractImages_fetched:
  "extractImages (fetched body doc s) =
     Inr (set_seo IMAGES (Images (collect_images doc)) (fetched body doc s))"
  by (simp add: extractImages_def fetched_def)

lemma extractPerformanceMetrics_fetched:
  "\<exists>w. estimatePageWeight (fetched body doc s) = Inr w
       \<and> extractPerformanceMetrics (fetched body doc s) =
           Inr (set_seo PERFORMANCE (Performance (performance_record body doc w)) (fetched body doc s))"
  by (simp add: extractPerformanceMetrics_def estimatePageWeight_def fetched_def Let_def)

lemma extractOpenGraphMetadata_none:
  "query doc [[Tag ''meta'', AttrPrefix ''property'' ''og:'']] = [] \<Longrightarrow>
     extractOpenGraphMetadata g (fetched body doc s) =
       (g, Inr (set_seo OPEN_GRAPH (OpenGraph []) (fetched body doc s)))"
  by (simp add: extractOpenGraphMetadata_def fetched_def)

lemma metadata_fetched: "metadata (fetched body doc s) = metadata s"
  by (simp add: fetched_def)

lemma empty_document_report:
  "map fst (seo (report JSON_parse hostname g (fetched body [] (SEOScraper u now)))) = SEO_CATEGORIES"
  by (simp add: report_def analyze_def steps_def calling_def calling_in_def fetched_def
      SEOScraper_def query_def
      extractBasicMetadata_def extractOpenGraphMetadata_def extractTwitterMetadata_def
      extractSchemaMetadata_def extractTechnicalMetadata_def extractLinks_def
      extractHeadings_def extractImages_def extractPerformanceMetrics_def estimatePageWeight_def
      set_seo_def Let_def SEO_CATEGORIES_def
      BASIC_def OPEN_GRAPH_def TWITTER_def SCHEMA_def TECHNICAL_def LINKS_def HEADINGS_def
      IMAGES_def PERFORMANCE_def)

lemma variant_doc_records:
  "canonical (basic_record variant_doc) = Some ''https://a.com/''"
  "charset (basic_record variant_doc) = Some ''text/html''"
  "hasCanonical (technical_record dt version variant_doc)"
  "hasCharset (technical_record dt version variant_doc)"
  "hasSitemap (technical_record dt version variant_doc)"
  "sitemapUrl (technical_record dt version variant_doc) = Some ''/s.xml''"
  by (simp_all add: basic_record_def technical_record_def variant_doc_selected first_attr_def
      or_null_def)

lemma weight_doc_queries:
  "query weight_doc [[Tag ''meta'', AttrPrefix ''property'' ''og:'']] = []"
  "query weight_doc [[HasAttr ''itemscope'']] = []"
  "query weight_doc [[Tag ''h1'']] = []" "query weight_doc [[Tag ''h2'']] = []"
  "query weight_doc [[Tag ''h3'']] = []" "query weight_doc [[Tag ''h4'']] = []"
  "query weight_doc [[Tag ''h5'']] = []" "query weight_doc [[Tag ''h6'']] = []"
  by (simp_all add: weight_doc_def query_def matches_def)

text \<open>
  C4, as the code has it. For every fetched markup, in every state of the built-in
  objects, the report that \<open>analyze\<close> returns has the category of every extractor that
  returned, bound to its payload, and leaves the category of one that threw as it was.
  The extractors of \<open>basic\<close>, \<open>twitter\<close>, \<open>technical\<close>, \<open>links\<close>, \<open>headings\<close>, \<open>images\<close> and
  \<open>performance\<close> return on every document. The extractor of \<open>open_graph\<close> is called in
  the state in which \<open>analyze\<close> finds the built-in objects and the one of \<open>schema\<close> in the
  state in which the Open Graph extractor leaves them; a page without Open Graph tags has
  the \<open>open_graph\<close> key with the empty mapping, and a page without \<open>itemscope\<close> elements
  has the \<open>schema\<close> key with an empty \<open>microdata\<close>. A page without headings has the
  \<open>headings\<close> key with every array empty and every count 0, and the empty document has
  all nine keys.
\<close>

theorem analyze_categories_present:
  fixes s :: "'j scraper"
  shows "section_of (report JSON_parse hostname g (fetched body doc s)) BASIC
           = Some (Basic (basic_record doc))
       \<and> (\<exists>tags. section_of (report JSON_parse hostname g (fetched body doc s)) TWITTER
                    = Some (Twitter tags))
       \<and> section_of (report JSON_parse hostname g (fetched body doc s)) TECHNICAL
           = Some (Technical (technical_record (or_null (match_doctype body))
                                (getHtmlVersion (fetched body doc s)) doc))
       \<and> section_of (report JSON_parse hostname g (fetched body doc s)) LINKS
           = Some (Links (deduplicated (collect_links hostname (url s) doc)))
       \<and> section_of (report JSON_parse hostname g (fetched body doc s)) HEADINGS
           = Some (Headings (collect_headings doc))
       \<and> section_of (report JSON_parse hostname g (fetched body doc s)) IMAGES
           = Some (Images (collect_images doc))
       \<and> (\<exists>w. section_of (report JSON_parse hostname g (fetched body doc s)) PERFORMANCE
                 = Some (Performance (performance_record body doc w)))
       \<and> (\<forall>g' s'. extractOpenGraphMetadata g (fetched body doc s) = (g', Inr s') \<longrightarrow>
              section_of (report JSON_parse hostname g (fetched body doc s)) OPEN_GRAPH
                = section_of (metadata s') OPEN_GRAPH
              \<and> section_of (report JSON_parse hostname g (fetched body doc s)) OPEN_GRAPH \<noteq> None)
       \<and> (\<forall>g' err. extractOpenGraphMetadata g (fetched body doc s) = (g', Inl err) \<longrightarrow>
              section_of (report JSON_parse hostname g (fetched body doc s)) OPEN_GRAPH
                = section_of (metadata s) OPEN_GRAPH)
       \<and> (\<forall>s'. extractSchemaMetadata JSON_parse
                   (fst (extractOpenGraphMetadata g (fetched body doc s))) (fetched body doc s) = Inr s'
              \<longrightarrow> section_of (report JSON_parse hostname g (fetched body doc s)) SCHEMA
                     = section_of (metadata s') SCHEMA
                   \<and> section_of (report JSON_parse hostname g (fetched body doc s)) SCHEMA \<noteq> None)
       \<and> (\<forall>err. extractSchemaMetadata JSON_parse
                   (fst (extractOpenGraphMetadata g (fetched body doc s))) (fetched body doc s) = Inl err
              \<longrightarrow> section_of (report JSON_parse hostname g (fetched body doc s)) SCHEMA
                     = section_of (metadata s) SCHEMA)
       \<and> (query doc [[Tag ''meta'', AttrPrefix ''property'' ''og:'']] = [] \<longrightarrow>
            section_of (report JSON_parse hostname g (fetched body doc s)) OPEN_GRAPH
              = Some (OpenGraph []))
       \<and> (query doc [[HasAttr ''itemscope'']] = [] \<longrightarrow>
            section_of (report JSON_parse hostname g (fetched body doc s)) SCHEMA
              = Some (Schema \<lparr>jsonLd = parsed_blocks JSON_parse doc, microdata = []\<rparr>))
       \<and> (query doc [[Tag ''h1'']] = [] \<and> query doc [[Tag ''h2'']] = []
            \<and> query doc [[Tag ''h3'']] = [] \<and> query doc [[Tag ''h4'']] = []
            \<and> query doc [[Tag ''h5'']] = [] \<and> query doc [[Tag ''h6'']] = []
            \<longrightarrow> collect_headings doc =
                  \<lparr>headings_tags = [(''h1'', []), (''h2'', []), (''h3'', []), (''h4'', []),
                                     (''h5'', []), (''h6'', [])],
                   headings_counts = [(''h1'', 0), (''h2'', 0), (''h3'', 0), (''h4'', 0),
                                       (''h5'', 0), (''h6'', 0)]\<rparr>)
       \<and> map fst (seo (report JSON_parse hostname g (fetched body [] (SEOScraper u now :: 'j scraper))))
           = SEO_CATEGORIES"
proof -
  let ?p = "fetched body doc s"
  let ?r = "report JSON_parse hostname g ?p"
  have 1: "section_of ?r BASIC = Some (Basic (basic_record doc))"
    by (simp add: report_sections(1) extractBasicMetadata_fetched section_set_seo)
  obtain tags where "extractTwitterMetadata ?p = Inr (set_seo TWITTER (Twitter tags) ?p)"
    using extractTwitterMetadata_fetched by blast
  then have "section_of ?r TWITTER = Some (Twitter tags)"
    by (simp add: report_sections(3) section_set_seo)
  then have 2: "\<exists>tags. section_of ?r TWITTER = Some (Twitter tags)"
    by blast
  have 3: "section_of ?r TECHNICAL
           = Some (Technical (technical_record (or_null (match_doctype body))
                                (getHtmlVersion ?p) doc))"
    by (simp add: report_sections(5) extractTechnicalMetadata_fetched section_set_seo)
  have 4: "section_of ?r LINKS = Some (Links (deduplicated (collect_links hostname (url s) doc)))"
    by (simp add: report_sections(6) extractLinks_fetched section_set_seo)
  have 5: "section_of ?r HEADINGS = Some (Headings (collect_headings doc))"
    by (simp add: report_sections(7) extractHeadings_fetched section_set_seo)
  have 6: "section_of ?r IMAGES = Some (Images (collect_images doc))"
    by (simp add: report_sections(8) extractImages_fetched section_set_seo)
  obtain w where "extractPerformanceMetrics ?p =
           Inr (set_seo PERFORMANCE (Performance (performance_record body doc w)) ?p)"
    using extractPerformanceMetrics_fetched by blast
  then have "section_of ?r PERFORMANCE = Some (Performance (performance_record body doc w))"
    by (simp add: report_sections(9) section_set_seo)
  then have 7: "\<exists>w. section_of ?r PERFORMANCE = Some (Performance (performance_record body doc w))"
    by blast
  have 8: "\<forall>g' s'. extractOpenGraphMetadata g ?p = (g', Inr s') \<longrightarrow>
              section_of ?r OPEN_GRAPH = section_of (metadata s') OPEN_GRAPH
              \<and> section_of ?r OPEN_GRAPH \<noteq> None"
  proof (intro allI impI)
    fix g' s'
    assume og: "extractOpenGraphMetadata g ?p = (g', Inr s')"
    from isolated_present [OF isolated_og og] og
    show "section_of ?r OPEN_GRAPH = section_of (metadata s') OPEN_GRAPH
              \<and> section_of ?r OPEN_GRAPH \<noteq> None"
      by (simp add: report_sections(2))
  qed
  have 9: "\<forall>g' err. extractOpenGraphMetadata g ?p = (g', Inl err) \<longrightarrow>
              section_of ?r OPEN_GRAPH = section_of (metadata s) OPEN_GRAPH"
    by (simp add: report_sections(2) metadata_fetched)
  have 10: "\<forall>s'. extractSchemaMetadata JSON_parse (fst (extractOpenGraphMetadata g ?p)) ?p = Inr s'
              \<longrightarrow> section_of ?r SCHEMA = section_of (metadata s') SCHEMA
                   \<and> section_of ?r SCHEMA \<noteq> None"
  proof (intro allI impI)
    fix s'
    assume r: "extractSchemaMetadata JSON_parse (fst (extractOpenGraphMetadata g ?p)) ?p = Inr s'"
    from extractSchemaMetadata_returned [OF r] r
    show "section_of ?r SCHEMA = section_of (metadata s') SCHEMA \<and> section_of ?r SCHEMA \<noteq> None"
      by (auto simp: report_sections(4))
  qed
  have 11: "\<forall>err. extractSchemaMetadata JSON_parse (fst (extractOpenGraphMetadata g ?p)) ?p = Inl err
              \<longrightarrow> section_of ?r SCHEMA = section_of (metadata s) SCHEMA"
    by (simp add: report_sections(4) metadata_fetched)
  have 12: "query doc [[Tag ''meta'', AttrPrefix ''property'' ''og:'']] = [] \<longrightarrow>
            section_of ?r OPEN_GRAPH = Some (OpenGraph [])"
    by (simp add: report_sections(2) extractOpenGraphMetadata_none section_set_seo)
  have 13: "query doc [[HasAttr ''itemscope'']] = [] \<longrightarrow>
            section_of ?r SCHEMA = Some (Schema \<lparr>jsonLd = parsed_blocks JSON_parse doc, microdata = []\<rparr>)"
    by (simp add: report_sections(4) extractSchemaMetadata_fetched section_set_seo)
  have 14: "query doc [[Tag ''h1'']] = [] \<and> query doc [[Tag ''h2'']] = []
            \<and> query doc [[Tag ''h3'']] = [] \<and> query doc [[Tag ''h4'']] = []
            \<and> query doc [[Tag ''h5'']] = [] \<and> query doc [[Tag ''h6'']] = []
            \<longrightarrow> collect_headings doc =
                  \<lparr>headings_tags = [(''h1'', []), (''h2'', []), (''h3'', []), (''h4'', []),
                                     (''h5'', []), (''h6'', [])],
                   headings_counts = [(''h1'', 0), (''h2'', 0), (''h3'', 0), (''h4'', 0),
                                       (''h5'', 0), (''h6'', 0)]\<rparr>"
    using collect_headings_none by blast
  show ?thesis
    by (intro conjI 1 2 3 4 5 6 7 8 9 10 11 12 13 14 empty_document_report)
qed

theorem analyze_categories_present_witness:
  "section_of (report no_json example_hostname pristine
                 (page ''https://a.com/'' ''<html></html>'' weight_doc))
     OPEN_GRAPH = Some (OpenGraph [])
   \<and> section_of (report no_json example_hostname pristine
                   (page ''https://a.com/'' ''<html></html>'' weight_doc))
       SCHEMA = Some (Schema \<lparr>jsonLd = [], microdata = []\<rparr>)
   \<and> section_of (report no_json example_hostname pristine
                   (page ''https://a.com/'' ''<html></html>'' weight_doc))
       HEADINGS =
       Some (Headings
              \<lparr>headings_tags = [(''h1'', []), (''h2'', []), (''h3'', []), (''h4'', []),
                                 (''h5'', []), (''h6'', [])],
               headings_counts = [(''h1'', 0), (''h2'', 0), (''h3'', 0), (''h4'', 0),
                                   (''h5'', 0), (''h6'', 0)]\<rparr>)
   \<and> section_of (report no_json example_hostname pristine person_page) OPEN_GRAPH
       = Some (OpenGraph [])
   \<and> section_of (report no_json example_hostname pristine person_page) SCHEMA = None
   \<and> (\<exists>b. section_of (report no_json example_hostname pristine
                        (page ''https://a.com/'' ''<html></html>'' variant_doc)) BASIC
                = Some (Basic b)
            \<and> canonical b = Some ''https://a.com/'' \<and> charset b = Some ''text/html'')
   \<and> (\<exists>t. section_of (report no_json example_hostname pristine
                        (page ''https://a.com/'' ''<html></html>'' variant_doc)) TECHNICAL
                = Some (Technical t)
            \<and> hasCanonical t \<and> hasCharset t \<and> hasSitemap t \<and> sitemapUrl t = Some ''/s.xml'')"
proof -
  let ?new = "SEOScraper ''https://a.com/'' ''2024-01-01T00:00:00.000Z'' :: unit scraper"
  let ?p = "fetched ''<html></html>'' weight_doc ?new"
  let ?q = "fetched ''<html></html>'' person_doc ?new"
  note T = analyze_categories_present
    [where JSON_parse = no_json and hostname = example_hostname and g = pristine
       and body = "''<html></html>''" and doc = weight_doc and s = ?new and u = "[]" and now = "[]"]
  have pb: "parsed_blocks no_json weight_doc = []"
    by (simp add: parsed_blocks_def weight_doc_def query_def matches_def map_filter_simps)
  from T weight_doc_queries(1)
  have a: "section_of (report no_json example_hostname pristine ?p) OPEN_GRAPH = Some (OpenGraph [])"
    by blast
  from T weight_doc_queries(2)
  have "section_of (report no_json example_hostname pristine ?p) SCHEMA
          = Some (Schema \<lparr>jsonLd = parsed_blocks no_json weight_doc, microdata = []\<rparr>)"
    by blast
  then have b: "section_of (report no_json example_hostname pristine ?p) SCHEMA
                  = Some (Schema \<lparr>jsonLd = [], microdata = []\<rparr>)"
    by (simp add: pb)
  from T have h: "section_of (report no_json example_hostname pristine ?p) HEADINGS
                    = Some (Headings (collect_headings weight_doc))"
    by (elim conjE)
  from T have "query weight_doc [[Tag ''h1'']] = [] \<and> query weight_doc [[Tag ''h2'']] = []
            \<and> query weight_doc [[Tag ''h3'']] = [] \<and> query weight_doc [[Tag ''h4'']] = []
            \<and> query weight_doc [[Tag ''h5'']] = [] \<and> query weight_doc [[Tag ''h6'']] = []
            \<longrightarrow> collect_headings weight_doc =
                  \<lparr>headings_tags = [(''h1'', []), (''h2'', []), (''h3'', []), (''h4'', []),
                                     (''h5'', []), (''h6'', [])],
                   headings_counts = [(''h1'', 0), (''h2'', 0), (''h3'', 0), (''h4'', 0),
                                       (''h5'', 0), (''h6'', 0)]\<rparr>"
    by (elim conjE)
  with weight_doc_queries have "collect_headings weight_doc =
                  \<lparr>headings_tags = [(''h1'', []), (''h2'', []), (''h3'', []), (''h4'', []),
                                     (''h5'', []), (''h6'', [])],
                   headings_counts = [(''h1'', 0), (''h2'', 0), (''h3'', 0), (''h4'', 0),
                                       (''h5'', 0), (''h6'', 0)]\<rparr>"
    by simp
  with h have c: "section_of (report no_json example_hostname pristine ?p) HEADINGS =
       Some (Headings
              \<lparr>headings_tags = [(''h1'', []), (''h2'', []), (''h3'', []), (''h4'', []),
                                 (''h5'', []), (''h6'', [])],
               headings_counts = [(''h1'', 0), (''h2'', 0), (''h3'', 0), (''h4'', 0),
                                   (''h5'', 0), (''h6'', 0)]\<rparr>)"
    by simp
  note P = analyze_categories_present
    [where JSON_parse = no_json and hostname = example_hostname and g = pristine
       and body = "''<html></html>''" and doc = person_doc and s = ?new and u = "[]" and now = "[]"]
  have q: "?q = person_page"
    by (simp add: person_page_def page_def)
  from P have "\<forall>g' s'. extractOpenGraphMetadata pristine person_page = (g', Inr s') \<longrightarrow>
              section_of (report no_json example_hostname pristine person_page) OPEN_GRAPH
                = section_of (metadata s') OPEN_GRAPH"
    unfolding q by blast
  with person_page_og
  have d: "section_of (report no_json example_hostname pristine person_page) OPEN_GRAPH
             = Some (OpenGraph [])"
    by (simp add: section_set_seo)
  from P have "\<forall>err. extractSchemaMetadata no_json
                   (fst (extractOpenGraphMetadata pristine person_page)) person_page = Inl err
              \<longrightarrow> section_of (report no_json example_hostname pristine person_page) SCHEMA
                     = section_of (metadata ?new) SCHEMA"
    unfolding q by blast
  then have e: "section_of (report no_json example_hostname pristine person_page) SCHEMA = None"
    by (simp add: person_page_og person_page_schema SEOScraper_def section_of_def)
  note V = analyze_categories_present
    [where JSON_parse = no_json and hostname = example_hostname and g = pristine
       and body = "''<html></html>''" and doc = variant_doc and s = ?new and u = "[]" and now = "[]"]
  from V have "section_of (report no_json example_hostname pristine
                             (fetched ''<html></html>'' variant_doc ?new)) BASIC
                 = Some (Basic (basic_record variant_doc))"
    by (elim conjE)
  with variant_doc_records(1,2)
  have f: "\<exists>b. section_of (report no_json example_hostname pristine
                             (fetched ''<html></html>'' variant_doc ?new)) BASIC
                = Some (Basic b)
            \<and> canonical b = Some ''https://a.com/'' \<and> charset b = Some ''text/html''"
    by blast
  from V have "section_of (report no_json example_hostname pristine
                             (fetched ''<html></html>'' variant_doc ?new)) TECHNICAL
                 = Some (Technical (technical_record (or_null (match_doctype ''<html></html>''))
                                      (getHtmlVersion (fetched ''<html></html>'' variant_doc ?new))
                                      variant_doc))"
    by (elim conjE)
  with variant_doc_records(3-6)
  have h: "\<exists>t. section_of (report no_json example_hostname pristine
                             (fetched ''<html></html>'' variant_doc ?new)) TECHNICAL
                = Some (Technical t)
            \<and> hasCanonical t \<and> hasCharset t \<and> hasSitemap t \<and> sitemapUrl t = Some ''/s.xml''"
    by blast
  from a b c d e f h show ?thesis
    unfolding page_def by (intro conjI)
qed

text \<open>
  C4 as stated fails on two pages. On the page with \<open>og:image\<close> followed by
  \<open>og:image:width\<close> the report that \<open>analyze\<close> returns has eight of the nine category
  keys, and \<open>open_graph\<close> is missing. On the page with a microdata item of the type
  \<open>constructor\<close> it has eight keys, and \<open>schema\<close> is missing.
\<close>

theorem analyze_category_missing_counterexample:
  "map fst (seo (report no_json example_hostname pristine og_page)) =
     [''basic'', ''twitter'', ''schema'', ''technical'', ''links'', ''headings'', ''images'',
      ''performance'']
   \<and> map fst (seo (report no_json example_hostname pristine constructor_page)) =
       [''basic'', ''open_graph'', ''twitter'', ''technical'', ''links'', ''headings'', ''images'',
        ''performance'']
   \<and> OPEN_GRAPH = ''open_graph'' \<and> SCHEMA = ''schema''
   \<and> SEO_CATEGORIES =
       [''basic'', ''open_graph'', ''twitter'', ''schema'', ''technical'', ''links'', ''headings'',
        ''images'', ''performance'']"
proof -
  have a: "map fst (seo (report no_json example_hostname pristine og_page)) =
     [''basic'', ''twitter'', ''schema'', ''technical'', ''links'', ''headings'', ''images'',
      ''performance'']"
    by (simp add: report_def analyze_def steps_def calling_def calling_in_def og_page_def page_def
        fetched_def SEOScraper_def
        extractBasicMetadata_def extractOpenGraphMetadata_def extractTwitterMetadata_def
        extractSchemaMetadata_def extractTechnicalMetadata_def extractLinks_def
        extractHeadings_def extractImages_def extractPerformanceMetrics_def estimatePageWeight_def
        set_seo_def Let_def og_doc_metas og_callback_flat og_callback_nested og_doc_itemscope og_doc_twitter
        BASIC_def OPEN_GRAPH_def TWITTER_def SCHEMA_def TECHNICAL_def LINKS_def HEADINGS_def
        IMAGES_def PERFORMANCE_def)
  have b: "map fst (seo (report no_json example_hostname pristine constructor_page)) =
       [''basic'', ''open_graph'', ''twitter'', ''technical'', ''links'', ''headings'', ''images'',
        ''performance'']"
    by (simp add: report_def analyze_def steps_def calling_def calling_in_def constructor_page_def
        page_def fetched_def SEOScraper_def
        extractBasicMetadata_def extractOpenGraphMetadata_def extractTwitterMetadata_def
        extractSchemaMetadata_def extractTechnicalMetadata_def extractLinks_def
        extractHeadings_def extractImages_def extractPerformanceMetrics_def estimatePageWeight_def
        set_seo_def Let_def constructor_doc_metas constructor_doc_itemscope constructor_microdata
        BASIC_def OPEN_GRAPH_def TWITTER_def SCHEMA_def TECHNICAL_def LINKS_def HEADINGS_def
        IMAGES_def PERFORMANCE_def)
  from a b show ?thesis
    by (simp add: SEO_CATEGORIES_def BASIC_def OPEN_GRAPH_def TWITTER_def SCHEMA_def
        TECHNICAL_def LINKS_def HEADINGS_def IMAGES_def PERFORMANCE_def)
qed

end
